theory Spec2Isabelle
  imports Main "HOL-Library.Char_ord"
begin

section \<open>The checker's type representation (analyzer/types.ts)\<close>

text \<open>
  The TypeScript union \<open>Type\<close> is a tagged union on the field \<open>kind\<close>; every
  interface of the union becomes one constructor, with the fields in the order
  of the interface.  A \<open>Map<string, T>\<close> is an association list in insertion
  order.  The eleven primitive names are a closed enumeration.
\<close>

datatype PrimName =
  PInt | PInt8 | PInt16 | PInt32 | PInt64 | PUInt | PFloat32 | PFloat64 | PBool | PChar | PString

record ContractCondition =
  cc_kind :: string
  cc_expression :: string
  cc_line :: int
  cc_column :: int

datatype Type =
    PrimitiveType PrimName
  | StructType string "(string \<times> Type) list" "Type list" "ContractCondition list" string
      \<comment> \<open>name, fields, genericParams, invariants, module\<close>
  | EnumType string "(string \<times> Type list option) list" "Type list" string
      \<comment> \<open>name, variants, genericParams, module\<close>
  | TraitType string "(string \<times> Type) list" "Type list" "Type list" string
      \<comment> \<open>name, methods, supertraits, genericParams, module\<close>
  | ArrayType Type "int option"
      \<comment> \<open>elementType, size (\<open>None\<close> is \<open>null\<close>)\<close>
  | TupleType "Type list"
  | FunctionType "(string \<times> Type \<times> bool) list" Type "Type list" "Type list"
      "(string \<times> Type list) list" bool
      \<comment> \<open>parameters (name, type, isMutable), returnType, effects, capabilities, contracts, isPure\<close>
  | GenericType Type "Type list"
      \<comment> \<open>base, arguments\<close>
  | TypeVariable string "Type list" nat
      \<comment> \<open>name, bounds, id\<close>
  | ReferenceType Type bool
      \<comment> \<open>inner, isMutable\<close>
  | OptionalType Type
  | ResultType Type Type
      \<comment> \<open>okType, errType\<close>
  | NeverType
  | VoidType
  | UnknownType
  | ErrorType string
  | EffectType string "(string \<times> Type) list" "Type list" string
      \<comment> \<open>name, methods, genericParams, module\<close>
  | CapabilityType string "(string \<times> Type) list" string
      \<comment> \<open>name, permissions, module\<close>

definition isNumeric :: "Type \<Rightarrow> bool" where
  "isNumeric t =
     (case t of
        PrimitiveType n \<Rightarrow> n \<in> set [PInt, PInt8, PInt16, PInt32, PInt64, PUInt, PFloat32, PFloat64]
      | _ \<Rightarrow> False)"

definition isInteger :: "Type \<Rightarrow> bool" where
  "isInteger t =
     (case t of
        PrimitiveType n \<Rightarrow> n \<in> set [PInt, PInt8, PInt16, PInt32, PInt64, PUInt]
      | _ \<Rightarrow> False)"

definition isFloat :: "Type \<Rightarrow> bool" where
  "isFloat t =
     (case t of
        PrimitiveType n \<Rightarrow> n \<in> set [PFloat32, PFloat64]
      | _ \<Rightarrow> False)"

definition isBoolean :: "Type \<Rightarrow> bool" where
  "isBoolean t = (case t of PrimitiveType n \<Rightarrow> n = PBool | _ \<Rightarrow> False)"

text \<open>
  \<open>typeEquals\<close>: the kinds must agree, then the switch on \<open>a.kind\<close>.  The switch
  has no case for \<open>effect\<close> and \<open>capability\<close>, which therefore reach
  \<open>default: return false\<close>.  \<open>Array.every\<close> with the index into the other array
  is \<open>typeEqualsEvery\<close> (\<open>typeEqualsParams\<close> for the parameter records); both
  are only called behind the test that the lengths agree.
\<close>

fun typeEquals :: "Type \<Rightarrow> Type \<Rightarrow> bool"
  and typeEqualsEvery :: "Type list \<Rightarrow> Type list \<Rightarrow> bool"
  and typeEqualsParams ::
    "(string \<times> Type \<times> bool) list \<Rightarrow> (string \<times> Type \<times> bool) list \<Rightarrow> bool"
where
  "typeEquals (PrimitiveType n) b = (case b of PrimitiveType m \<Rightarrow> n = m | _ \<Rightarrow> False)"
| "typeEquals VoidType b = (case b of VoidType \<Rightarrow> True | _ \<Rightarrow> False)"
| "typeEquals NeverType b = (case b of NeverType \<Rightarrow> True | _ \<Rightarrow> False)"
| "typeEquals UnknownType b = (case b of UnknownType \<Rightarrow> True | _ \<Rightarrow> False)"
| "typeEquals (ErrorType m) b = (case b of ErrorType m' \<Rightarrow> m' = m | _ \<Rightarrow> False)"
| "typeEquals (ArrayType e s) b =
     (case b of ArrayType e' s' \<Rightarrow> typeEquals e e' \<and> s = s' | _ \<Rightarrow> False)"
| "typeEquals (TupleType es) b =
     (case b of
        TupleType es' \<Rightarrow> length es = length es' \<and> typeEqualsEvery es es'
      | _ \<Rightarrow> False)"
| "typeEquals (OptionalType i) b = (case b of OptionalType i' \<Rightarrow> typeEquals i i' | _ \<Rightarrow> False)"
| "typeEquals (ResultType ok er) b =
     (case b of ResultType ok' er' \<Rightarrow> typeEquals ok ok' \<and> typeEquals er er' | _ \<Rightarrow> False)"
| "typeEquals (ReferenceType i m) b =
     (case b of ReferenceType i' m' \<Rightarrow> m = m' \<and> typeEquals i i' | _ \<Rightarrow> False)"
| "typeEquals (StructType n fs gs invs md) b =
     (case b of StructType n' fs' gs' invs' md' \<Rightarrow> n = n' \<and> md = md' | _ \<Rightarrow> False)"
| "typeEquals (EnumType n vs gs md) b =
     (case b of EnumType n' vs' gs' md' \<Rightarrow> n = n' \<and> md = md' | _ \<Rightarrow> False)"
| "typeEquals (TraitType n ms sups gs md) b =
     (case b of TraitType n' ms' sups' gs' md' \<Rightarrow> n = n' \<and> md = md' | _ \<Rightarrow> False)"
| "typeEquals (TypeVariable n bs i) b =
     (case b of TypeVariable n' bs' i' \<Rightarrow> i = i' | _ \<Rightarrow> False)"
| "typeEquals (FunctionType ps r effs caps cs pure) b =
     (case b of
        FunctionType ps' r' effs' caps' cs' pure' \<Rightarrow>
          length ps = length ps' \<and> typeEqualsParams ps ps' \<and> typeEquals r r' \<and> pure = pure'
      | _ \<Rightarrow> False)"
| "typeEquals (GenericType base args) b =
     (case b of
        GenericType base' args' \<Rightarrow>
          typeEquals base base' \<and> length args = length args' \<and> typeEqualsEvery args args'
      | _ \<Rightarrow> False)"
| "typeEquals (EffectType n ms gs md) b = False"
| "typeEquals (CapabilityType n ps md) b = False"
| "typeEqualsEvery [] bs = True"
| "typeEqualsEvery (a # as) [] = False"
| "typeEqualsEvery (a # as) (b # bs) = (typeEquals a b \<and> typeEqualsEvery as bs)"
| "typeEqualsParams [] qs = True"
| "typeEqualsParams (p # ps) [] = False"
| "typeEqualsParams (p # ps) (q # qs) =
     (typeEquals (fst (snd p)) (fst (snd q)) \<and> typeEqualsParams ps qs)"

definition getNumericSize :: "Type \<Rightarrow> nat" where
  "getNumericSize t =
     (case t of
        PrimitiveType n \<Rightarrow>
          (case n of
             PInt8 \<Rightarrow> 8
           | PInt16 \<Rightarrow> 16
           | PInt32 \<Rightarrow> 32 | PFloat32 \<Rightarrow> 32
           | PInt64 \<Rightarrow> 64 | PFloat64 \<Rightarrow> 64 | PInt \<Rightarrow> 64 | PUInt \<Rightarrow> 64
           | _ \<Rightarrow> 0)
      | _ \<Rightarrow> 0)"

definition isErrorKind :: "Type \<Rightarrow> bool" where
  "isErrorKind t = (case t of ErrorType m \<Rightarrow> True | _ \<Rightarrow> False)"

text \<open>The last block of \<open>isAssignableTo\<close>, "Numeric coercion", with its final \<open>return false\<close>.\<close>

definition numericCoercion :: "Type \<Rightarrow> Type \<Rightarrow> bool" where
  "numericCoercion source target =
     (if isNumeric source \<and> isNumeric target then
        (if isInteger source \<and> isInteger target then getNumericSize source \<le> getNumericSize target
         else if isFloat source \<and> isFloat target then getNumericSize source \<le> getNumericSize target
         else if isInteger source \<and> isFloat target then True
         else False)
      else False)"

function isAssignableTo :: "Type \<Rightarrow> Type \<Rightarrow> bool" where
  "isAssignableTo source target =
     (if source = NeverType then True
      else if target = UnknownType then True
      else if isErrorKind source \<or> isErrorKind target then True
      else if typeEquals source target then True
      else
        (case target of
           OptionalType inner \<Rightarrow> isAssignableTo source inner
         | ReferenceType tinner tmut \<Rightarrow>
             (case source of
                ReferenceType sinner smut \<Rightarrow>
                  (if \<not> tmut \<and> smut then isAssignableTo sinner tinner
                   else smut = tmut \<and> isAssignableTo sinner tinner)
              | _ \<Rightarrow> numericCoercion source target)
         | _ \<Rightarrow> numericCoercion source target))"
  by pat_completeness auto
termination
  by (relation "measure (\<lambda>(source, target). size target)") auto

declare isAssignableTo.simps [simp del]

section \<open>The scanner (lexer/token.ts, lexer/lexer.ts)\<close>

text \<open>
  A source string is a list of code units, here \<open>char\<close>; every branch of the scanner
  compares a code unit with ASCII characters only.  A string value built by the
  scanner (the literal of a string or character token) is a list of UTF-16 code units
  as numbers, since an escape can denote any code point.  \<open>undefined\<close> is \<open>None\<close>.

  \<open>TokenType\<close> is a string enum, and a member is identified by its string.  The
  second constructor is for the lookup \<open>KEYWORDS[text]\<close> of a name that the object
  \<open>KEYWORDS\<close> inherits from \<open>Object.prototype\<close>: the value found is that inherited
  property and no member of the enum.
\<close>

datatype TokenType = TokenType string | InheritedProperty string

type_synonym jsstring = "nat list"

datatype NumberText = ParseInt string nat | ParseFloat string
  \<comment> \<open>the number \<open>parseInt(text, radix)\<close> or \<open>parseFloat(text)\<close>, kept as the call\<close>

datatype TokenLiteral = LitNumber NumberText | LitString jsstring | LitBoolean bool | LitNull

record SourceLocation =
  loc_line :: int
  loc_column :: int
  loc_offset :: nat
  loc_length :: nat
  loc_file :: "string option"

record Token =
  tok_type :: TokenType
  tok_value :: string
  tok_location :: SourceLocation
  tok_literal :: "TokenLiteral option"

definition KEYWORDS :: "(string \<times> TokenType) list" where
  "KEYWORDS =
    [(''fn'', TokenType ''FN''), (''let'', TokenType ''LET''), (''mut'', TokenType ''MUT''),
     (''type'', TokenType ''TYPE''), (''struct'', TokenType ''STRUCT''),
     (''enum'', TokenType ''ENUM''), (''trait'', TokenType ''TRAIT''),
     (''impl'', TokenType ''IMPL''), (''contract'', TokenType ''CONTRACT''),
     (''intent'', TokenType ''INTENT''), (''effect'', TokenType ''EFFECT''),
     (''capability'', TokenType ''CAPABILITY''), (''requires'', TokenType ''REQUIRES''),
     (''ensures'', TokenType ''ENSURES''), (''invariant'', TokenType ''INVARIANT''),
     (''if'', TokenType ''IF''), (''else'', TokenType ''ELSE''), (''match'', TokenType ''MATCH''),
     (''for'', TokenType ''FOR''), (''while'', TokenType ''WHILE''),
     (''return'', TokenType ''RETURN''), (''import'', TokenType ''IMPORT''),
     (''export'', TokenType ''EXPORT''), (''where'', TokenType ''WHERE''),
     (''pure'', TokenType ''PURE''), (''extern'', TokenType ''EXTERN''),
     (''true'', TokenType ''TRUE''), (''false'', TokenType ''FALSE''),
     (''nil'', TokenType ''NIL''), (''self'', TokenType ''SELF''), (''Self'', TokenType ''SELF''),
     (''old'', TokenType ''OLD''), (''forall'', TokenType ''FORALL''),
     (''exists'', TokenType ''EXISTS''), (''in'', TokenType ''IN''), (''as'', TokenType ''AS''),
     (''Int'', TokenType ''INT''), (''Int8'', TokenType ''INT8''),
     (''Int16'', TokenType ''INT16''), (''Int32'', TokenType ''INT32''),
     (''Int64'', TokenType ''INT64''), (''UInt'', TokenType ''UINT''),
     (''Float32'', TokenType ''FLOAT32''), (''Float64'', TokenType ''FLOAT64''),
     (''Bool'', TokenType ''BOOL''), (''Char'', TokenType ''CHAR_TYPE''),
     (''String'', TokenType ''STRING_TYPE''), (''Void'', TokenType ''VOID''),
     (''Never'', TokenType ''NEVER''), (''Result'', TokenType ''RESULT''),
     (''Option'', TokenType ''OPTION'')]"

definition objectPrototypeNames :: "string list" where
  "objectPrototypeNames =
    [''constructor'', ''hasOwnProperty'', ''isPrototypeOf'', ''propertyIsEnumerable'',
     ''toLocaleString'', ''toString'', ''valueOf'', ''__defineGetter__'', ''__defineSetter__'',
     ''__lookupGetter__'', ''__lookupSetter__'', ''__proto__'']"

text \<open>\<open>KEYWORDS[text] ?? TokenType.IDENTIFIER\<close>\<close>

definition keywordOrIdentifier :: "string \<Rightarrow> TokenType" where
  "keywordOrIdentifier text =
     (case map_of KEYWORDS text of
        Some t \<Rightarrow> t
      | None \<Rightarrow>
          if text \<in> set objectPrototypeNames then InheritedProperty text
          else TokenType ''IDENTIFIER'')"

definition createToken ::
  "TokenType \<Rightarrow> string \<Rightarrow> int \<Rightarrow> int \<Rightarrow> nat \<Rightarrow> TokenLiteral option \<Rightarrow> Token" where
  "createToken type val ln col off lit =
     \<lparr> tok_type = type, tok_value = val,
       tok_location =
         \<lparr> loc_line = ln, loc_column = col, loc_offset = off, loc_length = length val,
           loc_file = None \<rparr>,
       tok_literal = lit \<rparr>"

record LexerError =
  lexerr_message :: string
  lexerr_location :: SourceLocation

record Lexer =
  source :: string
  tokens :: "Token list"
  errors :: "LexerError list"
  start :: nat
  current :: nat
  line :: int
  column :: int
  lineStart :: nat
  file_name :: "string option"

text \<open>\<open>String.prototype.substring\<close>: both indices are clamped to the length and swapped
  when the first is the larger.\<close>

definition substring :: "string \<Rightarrow> nat \<Rightarrow> nat \<Rightarrow> string" where
  "substring s a b =
     (let a' = min a (length s); b' = min b (length s);
          lo = min a' b'; hi = max a' b'
      in take (hi - lo) (drop lo s))"

definition isAtEnd :: "Lexer \<Rightarrow> bool" where
  "isAtEnd L = (current L \<ge> length (source L))"

text \<open>\<open>this.source[i]\<close> is \<open>undefined\<close> from the length on.\<close>

definition charAt :: "string \<Rightarrow> nat \<Rightarrow> char option" where
  "charAt s i = (if i < length s then Some (s ! i) else None)"

definition advance :: "Lexer \<Rightarrow> char option \<times> Lexer" where
  "advance L =
     (charAt (source L) (current L), L\<lparr> current := current L + 1, column := column L + 1 \<rparr>)"

definition peek :: "Lexer \<Rightarrow> char" where
  "peek L = (if isAtEnd L then CHR 0x00 else source L ! current L)"

definition peekNext :: "Lexer \<Rightarrow> char" where
  "peekNext L =
     (if current L + 1 \<ge> length (source L) then CHR 0x00 else source L ! (current L + 1))"

definition match :: "char \<Rightarrow> Lexer \<Rightarrow> bool \<times> Lexer" where
  "match expected L =
     (if isAtEnd L then (False, L)
      else if source L ! current L \<noteq> expected then (False, L)
      else (True, L\<lparr> current := current L + 1, column := column L + 1 \<rparr>))"

definition isDigit :: "char \<Rightarrow> bool" where
  "isDigit c = (CHR ''0'' \<le> c \<and> c \<le> CHR ''9'')"

definition isHexDigit :: "char \<Rightarrow> bool" where
  "isHexDigit c =
     ((CHR ''0'' \<le> c \<and> c \<le> CHR ''9'') \<or> (CHR ''a'' \<le> c \<and> c \<le> CHR ''f'') \<or>
      (CHR ''A'' \<le> c \<and> c \<le> CHR ''F''))"

definition isOctalDigit :: "char \<Rightarrow> bool" where
  "isOctalDigit c = (CHR ''0'' \<le> c \<and> c \<le> CHR ''7'')"

definition isAlpha :: "char \<Rightarrow> bool" where
  "isAlpha c = ((CHR ''a'' \<le> c \<and> c \<le> CHR ''z'') \<or> (CHR ''A'' \<le> c \<and> c \<le> CHR ''Z''))"

definition isAlphaNumeric :: "char \<Rightarrow> bool" where
  "isAlphaNumeric c = (isAlpha c \<or> isDigit c)"

definition addToken :: "TokenType \<Rightarrow> Lexer \<Rightarrow> Lexer" where
  "addToken type L =
     (let text = substring (source L) (start L) (current L)
      in L\<lparr> tokens := tokens L @
                [createToken type text (line L) (column L - int (length text)) (start L) None] \<rparr>)"

text \<open>\<open>if (this.file)\<close> is false for \<open>undefined\<close> and for the empty string.\<close>

definition addTokenWithLiteral ::
  "TokenType \<Rightarrow> TokenLiteral option \<Rightarrow> int \<Rightarrow> int \<Rightarrow> Lexer \<Rightarrow> Lexer" where
  "addTokenWithLiteral type lit ln col L =
     (let text = substring (source L) (start L) (current L);
          token = createToken type text ln col (start L) lit;
          token' =
            (case file_name L of
               Some f \<Rightarrow>
                 if f \<noteq> [] then token\<lparr> tok_location := (tok_location token)\<lparr> loc_file := Some f \<rparr> \<rparr>
                 else token
             | None \<Rightarrow> token)
      in L\<lparr> tokens := tokens L @ [token'] \<rparr>)"

definition error :: "string \<Rightarrow> Lexer \<Rightarrow> Lexer" where
  "error message L =
     addToken (TokenType ''INVALID'')
       (L\<lparr> errors := errors L @
           [\<lparr> lexerr_message = message,
              lexerr_location =
                \<lparr> loc_line = line L, loc_column = column L, loc_offset = current L,
                  loc_length = 1, loc_file = file_name L \<rparr> \<rparr>] \<rparr>)"


subsection \<open>The loops of the scanner\<close>

text \<open>
  Each \<open>while\<close> loop of the scanner is a recursive function on the scanner state; all of
  them consume input, so \<open>length source - current\<close> decreases.  \<open>peek\<close> answers the NUL
  character at the end of input, which is why the loops over digits and letters stop there
  without asking \<open>isAtEnd\<close>.
\<close>

function lineComment :: "Lexer \<Rightarrow> Lexer" where
  "lineComment L =
     (if peek L \<noteq> CHR 0x0A \<and> \<not> isAtEnd L then lineComment (snd (advance L)) else L)"
  by pat_completeness auto
termination
  by (relation "measure (\<lambda>L. length (source L) - current L)")
     (auto simp: advance_def isAtEnd_def)

function blockCommentLoop :: "nat \<Rightarrow> Lexer \<Rightarrow> nat \<times> Lexer" where
  "blockCommentLoop depth L =
     (if depth > 0 \<and> \<not> isAtEnd L then
        if peek L = CHR ''/'' \<and> peekNext L = CHR ''*'' then
          blockCommentLoop (depth + 1) (snd (advance (snd (advance L))))
        else if peek L = CHR ''*'' \<and> peekNext L = CHR ''/'' then
          blockCommentLoop (depth - 1) (snd (advance (snd (advance L))))
        else
          blockCommentLoop depth
            (snd (advance
              (if peek L = CHR 0x0A then
                 L\<lparr> line := line L + 1, column := 0, lineStart := current L + 1 \<rparr>
               else L)))
      else (depth, L))"
  by pat_completeness auto
termination
  by (relation "measure (\<lambda>(depth, L). length (source L) - current L)")
     (auto simp: advance_def isAtEnd_def)

definition blockComment :: "Lexer \<Rightarrow> Lexer" where
  "blockComment L =
     (case blockCommentLoop 1 L of
        (depth, L') \<Rightarrow> if depth > 0 then error ''Unterminated block comment'' L' else L')"

function digits :: "Lexer \<Rightarrow> Lexer" where
  "digits L = (if isDigit (peek L) then digits (snd (advance L)) else L)"
  by pat_completeness auto
termination
  by (relation "measure (\<lambda>L. length (source L) - current L)")
     (auto simp: advance_def isAtEnd_def peek_def isDigit_def split: if_splits)

function hexDigits :: "Lexer \<Rightarrow> Lexer" where
  "hexDigits L = (if isHexDigit (peek L) then hexDigits (snd (advance L)) else L)"
  by pat_completeness auto
termination
  by (relation "measure (\<lambda>L. length (source L) - current L)")
     (auto simp: advance_def isAtEnd_def peek_def isHexDigit_def split: if_splits)

function binaryDigits :: "Lexer \<Rightarrow> Lexer" where
  "binaryDigits L =
     (if peek L = CHR ''0'' \<or> peek L = CHR ''1'' then binaryDigits (snd (advance L)) else L)"
  by pat_completeness auto
termination
  by (relation "measure (\<lambda>L. length (source L) - current L)")
     (auto simp: advance_def isAtEnd_def peek_def split: if_splits)

function octalDigits :: "Lexer \<Rightarrow> Lexer" where
  "octalDigits L = (if isOctalDigit (peek L) then octalDigits (snd (advance L)) else L)"
  by pat_completeness auto
termination
  by (relation "measure (\<lambda>L. length (source L) - current L)")
     (auto simp: advance_def isAtEnd_def peek_def isOctalDigit_def split: if_splits)

function identifierLoop :: "Lexer \<Rightarrow> Lexer" where
  "identifierLoop L =
     (if isAlphaNumeric (peek L) \<or> peek L = CHR ''_'' then identifierLoop (snd (advance L))
      else L)"
  by pat_completeness auto
termination
  by (relation "measure (\<lambda>L. length (source L) - current L)")
     (auto simp: advance_def isAtEnd_def peek_def isAlphaNumeric_def isAlpha_def isDigit_def
        split: if_splits)


declare lineComment.simps [simp del] blockCommentLoop.simps [simp del] digits.simps [simp del]
  hexDigits.simps [simp del] binaryDigits.simps [simp del] octalDigits.simps [simp del]
  identifierLoop.simps [simp del]

subsection \<open>What every scanner operation preserves\<close>

text \<open>
  \<open>sliceOk s t\<close>: the slice of the source \<open>s\<close> at the offset and length of the token \<open>t\<close> is
  the value of \<open>t\<close>.  \<open>lexStep L L'\<close>: from \<open>L\<close> to \<open>L'\<close> the source, the start of the
  lexeme and the file are the same, the position has not moved back, and, if the lexeme
  starts at or before the position, tokens with the slice property stay so.  The
  termination of the outer loops rests on it.
\<close>

definition sliceOk :: "string \<Rightarrow> Token \<Rightarrow> bool" where
  "sliceOk s t =
     (substring s (loc_offset (tok_location t))
        (loc_offset (tok_location t) + loc_length (tok_location t)) = tok_value t)"

definition lexStep :: "Lexer \<Rightarrow> Lexer \<Rightarrow> bool" where
  "lexStep L L' =
     (source L' = source L \<and> start L' = start L \<and> file_name L' = file_name L \<and>
      current L \<le> current L' \<and>
      (start L \<le> current L \<longrightarrow> (\<forall>t \<in> set (tokens L). sliceOk (source L) t) \<longrightarrow>
         (\<forall>t \<in> set (tokens L'). sliceOk (source L) t)))"

lemma lexStep_refl: "lexStep L L"
  by (simp add: lexStep_def)

lemma lexStep_trans: "lexStep L L' \<Longrightarrow> lexStep L' L'' \<Longrightarrow> lexStep L L''"
  unfolding lexStep_def by (elim conjE, intro conjI impI) simp_all

lemma substring_le: "a \<le> b \<Longrightarrow> substring s a b = take (b - a) (drop a s)"
proof -
  assume ab: "a \<le> b"
  show ?thesis
  proof (cases "length s \<le> a")
    case True
    with ab show ?thesis by (simp add: substring_def Let_def)
  next
    case False
    then have a: "min a (length s) = a" by simp
    show ?thesis
    proof (cases "b \<le> length s")
      case True
      with ab a show ?thesis by (simp add: substring_def Let_def min_absorb1 max_absorb2)
    next
      case False
      then have "min b (length s) = length s" by simp
      with ab a False show ?thesis
        by (simp add: substring_def Let_def max_absorb2)
    qed
  qed
qed

lemma substring_slice:
  "a \<le> b \<Longrightarrow> substring s a (a + length (substring s a b)) = substring s a b"
  by (simp add: substring_le min_def)

lemma lexStep_advance: "lexStep L (snd (advance L))"
  by (simp add: lexStep_def advance_def)

lemma current_advance: "current (snd (advance L)) = Suc (current L)"
  by (simp add: advance_def)

lemma lexStep_match: "lexStep L (snd (match c L))"
  by (simp add: lexStep_def match_def)

lemma lexStep_newline:
  "lexStep L (L\<lparr> line := a, column := b, lineStart := c \<rparr>)"
  by (simp add: lexStep_def)



lemma sliceOk_createToken:
  "a \<le> b \<Longrightarrow> sliceOk s (createToken ty (substring s a b) ln col a lit)"
  by (simp add: sliceOk_def createToken_def substring_slice)

lemma sliceOk_loc_file:
  "sliceOk s (t\<lparr> tok_location := (tok_location t)\<lparr> loc_file := f \<rparr> \<rparr>) = sliceOk s t"
  by (simp add: sliceOk_def)

lemma lexStep_addToken: "lexStep L (addToken ty L)"
  unfolding lexStep_def addToken_def Let_def
  by (intro conjI impI) (simp_all add: sliceOk_createToken)

lemma lexStep_addTokenWithLiteral: "lexStep L (addTokenWithLiteral ty lit ln col L)"
  unfolding lexStep_def addTokenWithLiteral_def Let_def
  by (intro conjI impI) (simp_all add: sliceOk_createToken sliceOk_loc_file split: option.split)

lemma lexStep_errors_update: "lexStep L (L\<lparr> errors := es \<rparr>)"
  by (simp add: lexStep_def)

lemma lexStep_error: "lexStep L (error msg L)"
  unfolding error_def
  by (rule lexStep_trans [OF lexStep_errors_update lexStep_addToken])

lemma lexStep_lineComment: "lexStep L (lineComment L)"
  by (induction L rule: lineComment.induct, subst lineComment.simps)
     (auto intro: lexStep_refl lexStep_trans [OF lexStep_advance])

lemma lexStep_digits: "lexStep L (digits L)"
  by (induction L rule: digits.induct, subst digits.simps)
     (auto intro: lexStep_refl lexStep_trans [OF lexStep_advance])

lemma lexStep_hexDigits: "lexStep L (hexDigits L)"
  by (induction L rule: hexDigits.induct, subst hexDigits.simps)
     (auto intro: lexStep_refl lexStep_trans [OF lexStep_advance])

lemma lexStep_binaryDigits: "lexStep L (binaryDigits L)"
  by (induction L rule: binaryDigits.induct, subst binaryDigits.simps)
     (auto intro: lexStep_refl lexStep_trans [OF lexStep_advance])

lemma lexStep_octalDigits: "lexStep L (octalDigits L)"
  by (induction L rule: octalDigits.induct, subst octalDigits.simps)
     (auto intro: lexStep_refl lexStep_trans [OF lexStep_advance])

lemma lexStep_identifierLoop: "lexStep L (identifierLoop L)"
  by (induction L rule: identifierLoop.induct, subst identifierLoop.simps)
     (auto intro: lexStep_refl lexStep_trans [OF lexStep_advance])

lemma lexStep_advance2: "lexStep L (snd (advance (snd (advance L))))"
  by (rule lexStep_trans [OF lexStep_advance lexStep_advance])

lemma lexStep_blockCommentLoop: "lexStep L (snd (blockCommentLoop depth L))"
proof (induction depth L rule: blockCommentLoop.induct)
  case (1 depth L)
  let ?N = "if peek L = CHR 0x0A
            then L\<lparr> line := line L + 1, column := 0, lineStart := current L + 1 \<rparr> else L"
  have nl: "lexStep L (snd (advance ?N))"
    by (auto intro: lexStep_advance lexStep_trans [OF lexStep_newline lexStep_advance])
  show ?case
  proof (cases "depth > 0 \<and> \<not> isAtEnd L")
    case False
    then show ?thesis by (subst blockCommentLoop.simps) (auto simp: lexStep_refl)
  next
    case go: True
    show ?thesis
    proof (cases "peek L = CHR ''/'' \<and> peekNext L = CHR ''*''")
      case True
      with go "1.IH"(1) have "lexStep (snd (advance (snd (advance L))))
          (snd (blockCommentLoop (depth + 1) (snd (advance (snd (advance L))))))" by simp
      with lexStep_advance2 have "lexStep L
          (snd (blockCommentLoop (depth + 1) (snd (advance (snd (advance L))))))"
        by (rule lexStep_trans)
      with go True show ?thesis by (subst blockCommentLoop.simps) auto
    next
      case nopen: False
      show ?thesis
      proof (cases "peek L = CHR ''*'' \<and> peekNext L = CHR ''/''")
        case True
        with go nopen "1.IH"(2) have "lexStep (snd (advance (snd (advance L))))
            (snd (blockCommentLoop (depth - 1) (snd (advance (snd (advance L))))))" by simp
        with lexStep_advance2 have "lexStep L
            (snd (blockCommentLoop (depth - 1) (snd (advance (snd (advance L))))))"
          by (rule lexStep_trans)
        with go nopen True show ?thesis by (subst blockCommentLoop.simps) auto
      next
        case False
        with go nopen "1.IH"(3) have "lexStep (snd (advance ?N))
            (snd (blockCommentLoop depth (snd (advance ?N))))" by simp
        with nl have "lexStep L (snd (blockCommentLoop depth (snd (advance ?N))))"
          by (rule lexStep_trans)
        with go nopen False show ?thesis by (subst blockCommentLoop.simps) auto
      qed
    qed
  qed
qed

lemma lexStep_blockComment: "lexStep L (blockComment L)"
proof -
  have "lexStep L (snd (blockCommentLoop 1 L))" by (rule lexStep_blockCommentLoop)
  then show ?thesis
    unfolding blockComment_def
    by (auto split: prod.split intro: lexStep_trans [OF _ lexStep_error])
qed


subsection \<open>Escape sequences\<close>

text \<open>
  What the scanner needs of the host: string concatenation with \<open>undefined\<close>,
  \<open>parseInt(s, 16)\<close> (leading white space, a sign, an optional \<open>0x\<close>, then the longest run
  of hexadecimal digits; \<open>NaN\<close>, here \<open>None\<close>, when the run is empty),
  \<open>String.fromCharCode\<close> (the number modulo \<open>2^16\<close>, \<open>NaN\<close> as 0) and
  \<open>String.fromCodePoint\<close>, which throws a \<open>RangeError\<close> unless its argument is an integer
  from 0 to \<open>0x10FFFF\<close>.

  A run that does not return a value is \<open>Inl\<close>.  \<open>RangeError\<close> is the exception of the scanner.
  \<open>NotAType\<close> is for the checker: the run has read, where a type is kept, a value that is no
  type (\<open>undefined\<close>, or a property that a host object inherits).  Such a run throws a
  \<open>TypeError\<close> at the next read of a property of \<open>undefined\<close>, or it goes on with that value
  in its tables; in both cases it has no result that the types of this development can hold,
  and it is followed no further.
\<close>

datatype Exception = RangeError | NotAType

definition strOf :: "char option \<Rightarrow> string" where
  "strOf c = (case c of Some ch \<Rightarrow> [ch] | None \<Rightarrow> ''undefined'')"

definition jsOf :: "jsstring option \<Rightarrow> jsstring" where
  "jsOf v = (case v of Some x \<Rightarrow> x | None \<Rightarrow> map of_char ''undefined'')"

definition isJsWhiteSpace :: "char \<Rightarrow> bool" where
  "isJsWhiteSpace c =
     (c \<in> set [CHR 0x09, CHR 0x0A, CHR 0x0B, CHR 0x0C, CHR 0x0D, CHR 0x20, CHR 0xA0])"

definition hexValue :: "char \<Rightarrow> nat" where
  "hexValue c =
     (if isDigit c then of_char c - 48
      else if CHR ''a'' \<le> c \<and> c \<le> CHR ''f'' then of_char c - 87
      else of_char c - 55)"

definition parseIntHex :: "string \<Rightarrow> int option" where
  "parseIntHex s =
     (let s1 = dropWhile isJsWhiteSpace s;
          negative = (s1 \<noteq> [] \<and> hd s1 = CHR ''-'');
          s2 = (if s1 \<noteq> [] \<and> (hd s1 = CHR ''+'' \<or> hd s1 = CHR ''-'') then tl s1 else s1);
          s3 = (if take 2 s2 = ''0x'' \<or> take 2 s2 = ''0X'' then drop 2 s2 else s2);
          z = takeWhile isHexDigit s3;
          n = int (foldl (\<lambda>acc d. 16 * acc + hexValue d) 0 z)
      in if z = [] then None else Some (if negative then - n else n))"

definition fromCharCode :: "int option \<Rightarrow> jsstring" where
  "fromCharCode v = (case v of None \<Rightarrow> [0] | Some i \<Rightarrow> [nat (i mod 65536)])"

definition fromCodePoint :: "int option \<Rightarrow> Exception + jsstring" where
  "fromCodePoint v =
     (case v of
        None \<Rightarrow> Inl RangeError
      | Some i \<Rightarrow>
          if i < 0 \<or> i > 0x10FFFF then Inl RangeError
          else if i < 0x10000 then Inr [nat i]
          else Inr [0xD800 + nat ((i - 0x10000) div 1024), 0xDC00 + nat ((i - 0x10000) mod 1024)])"

text \<open>\<open>this.advance() + this.advance()\<close>: two strings, a string and \<open>undefined\<close>, or
  \<open>undefined + undefined\<close>, which is the number \<open>NaN\<close> and reads \<open>"NaN"\<close> in \<open>parseInt\<close>.\<close>

definition hexPair :: "char option \<Rightarrow> char option \<Rightarrow> string" where
  "hexPair a b =
     (case (a, b) of
        (None, None) \<Rightarrow> ''NaN''
      | _ \<Rightarrow> strOf a @ strOf b)"

function unicodeHexLoop :: "string \<Rightarrow> Lexer \<Rightarrow> string \<times> Lexer" where
  "unicodeHexLoop hex L =
     (if peek L \<noteq> CHR ''}'' \<and> \<not> isAtEnd L then
        unicodeHexLoop (hex @ strOf (fst (advance L))) (snd (advance L))
      else (hex, L))"
  by pat_completeness auto
termination
  by (relation "measure (\<lambda>(hex, L). length (source L) - current L)")
     (auto simp: advance_def isAtEnd_def)

declare unicodeHexLoop.simps [simp del]

definition escapeSequence :: "Lexer \<Rightarrow> Exception + (jsstring option \<times> Lexer)" where
  "escapeSequence L =
     (let c = fst (advance L); L1 = snd (advance L) in
      if c = Some CHR ''n'' then Inr (Some [0x0A], L1)
      else if c = Some CHR ''t'' then Inr (Some [0x09], L1)
      else if c = Some CHR ''r'' then Inr (Some [0x0D], L1)
      else if c = Some CHR 0x5C then Inr (Some [0x5C], L1)
      else if c = Some CHR 0x22 then Inr (Some [0x22], L1)
      else if c = Some CHR 0x27 then Inr (Some [0x27], L1)
      else if c = Some CHR ''0'' then Inr (Some [0], L1)
      else if c = Some CHR ''x'' then
        (let L2 = snd (advance L1); L3 = snd (advance L2);
             hex = hexPair (fst (advance L1)) (fst (advance L2))
         in Inr (Some (fromCharCode (parseIntHex hex)), L3))
      else if c = Some CHR ''u'' then
        (if fst (match CHR ''{'' L1) then
           (let L2 = snd (match CHR ''{'' L1);
                hex = fst (unicodeHexLoop [] L2); L3 = snd (unicodeHexLoop [] L2)
            in if \<not> fst (match CHR ''}'' L3) then
                 Inr (Some [], error ''Unterminated unicode escape'' (snd (match CHR ''}'' L3)))
               else
                 (case fromCodePoint (parseIntHex hex) of
                    Inl e \<Rightarrow> Inl e
                  | Inr str \<Rightarrow> Inr (Some str, snd (match CHR ''}'' L3))))
         else Inr (Some [], error ''Invalid unicode escape'' (snd (match CHR ''{'' L1))))
      else
        Inr (map_option (\<lambda>ch. [of_char ch]) c,
             error (''Invalid escape sequence: '' @ [CHR 0x5C] @ strOf c) L1))"


lemma lexStep_advance': "lexStep L M \<Longrightarrow> lexStep L (snd (advance M))"
  by (erule lexStep_trans) (rule lexStep_advance)

lemma lexStep_match': "lexStep L M \<Longrightarrow> lexStep L (snd (match c M))"
  by (erule lexStep_trans) (rule lexStep_match)

lemma lexStep_addToken': "lexStep L M \<Longrightarrow> lexStep L (addToken ty M)"
  by (erule lexStep_trans) (rule lexStep_addToken)

lemma lexStep_addTokenWithLiteral':
  "lexStep L M \<Longrightarrow> lexStep L (addTokenWithLiteral ty lit ln col M)"
  by (erule lexStep_trans) (rule lexStep_addTokenWithLiteral)

lemma lexStep_error': "lexStep L M \<Longrightarrow> lexStep L (error msg M)"
  by (erule lexStep_trans) (rule lexStep_error)

lemma lexStep_newline':
  "lexStep L M \<Longrightarrow> lexStep L (M\<lparr> line := a, column := b, lineStart := c \<rparr>)"
  by (erule lexStep_trans) (rule lexStep_newline)

lemma lexStep_lineComment': "lexStep L M \<Longrightarrow> lexStep L (lineComment M)"
  by (erule lexStep_trans) (rule lexStep_lineComment)

lemma lexStep_blockComment': "lexStep L M \<Longrightarrow> lexStep L (blockComment M)"
  by (erule lexStep_trans) (rule lexStep_blockComment)

lemma lexStep_digits': "lexStep L M \<Longrightarrow> lexStep L (digits M)"
  by (erule lexStep_trans) (rule lexStep_digits)

lemma lexStep_hexDigits': "lexStep L M \<Longrightarrow> lexStep L (hexDigits M)"
  by (erule lexStep_trans) (rule lexStep_hexDigits)

lemma lexStep_binaryDigits': "lexStep L M \<Longrightarrow> lexStep L (binaryDigits M)"
  by (erule lexStep_trans) (rule lexStep_binaryDigits)

lemma lexStep_octalDigits': "lexStep L M \<Longrightarrow> lexStep L (octalDigits M)"
  by (erule lexStep_trans) (rule lexStep_octalDigits)

lemma lexStep_identifierLoop': "lexStep L M \<Longrightarrow> lexStep L (identifierLoop M)"
  by (erule lexStep_trans) (rule lexStep_identifierLoop)

lemma lexStep_unicodeHexLoop: "lexStep L (snd (unicodeHexLoop hex L))"
proof (induction hex L rule: unicodeHexLoop.induct)
  case (1 hex L)
  show ?case
  proof (cases "peek L \<noteq> CHR ''}'' \<and> \<not> isAtEnd L")
    case True
    with 1 have "lexStep (snd (advance L))
        (snd (unicodeHexLoop (hex @ strOf (fst (advance L))) (snd (advance L))))" by simp
    with lexStep_advance have "lexStep L
        (snd (unicodeHexLoop (hex @ strOf (fst (advance L))) (snd (advance L))))"
      by (rule lexStep_trans)
    with True show ?thesis by (subst unicodeHexLoop.simps) auto
  next
    case False
    then show ?thesis by (subst unicodeHexLoop.simps) (auto simp: lexStep_refl)
  qed
qed

lemma lexStep_unicodeHexLoop': "lexStep L M \<Longrightarrow> lexStep L (snd (unicodeHexLoop hex M))"
  by (erule lexStep_trans) (rule lexStep_unicodeHexLoop)

lemmas lexStepI =
  lexStep_refl lexStep_advance' lexStep_match' lexStep_addToken' lexStep_addTokenWithLiteral'
  lexStep_error' lexStep_newline' lexStep_lineComment' lexStep_blockComment' lexStep_digits'
  lexStep_hexDigits' lexStep_binaryDigits' lexStep_octalDigits' lexStep_identifierLoop'
  lexStep_unicodeHexLoop'

lemma lexStep_escapeSequence:
  "escapeSequence L = Inr (v, L') \<Longrightarrow> lexStep (snd (advance L)) L'"
  unfolding escapeSequence_def Let_def
  by (auto split: if_splits sum.splits intro!: lexStepI)

lemma current_escapeSequence:
  assumes "escapeSequence L = Inr (v, L')"
  shows "source L' = source L" and "current L < current L'"
proof -
  have "lexStep (snd (advance L)) L'" using assms by (rule lexStep_escapeSequence)
  then show "source L' = source L" and "current L < current L'"
    by (simp_all add: lexStep_def advance_def)
qed

subsection \<open>String, character, number and identifier tokens\<close>

function stringLoop :: "jsstring \<Rightarrow> Lexer \<Rightarrow> Exception + (jsstring \<times> Lexer)" where
  "stringLoop val L =
     (if peek L \<noteq> CHR 0x22 \<and> \<not> isAtEnd L then
        (if peek L = CHR 0x5C then
           (case escapeSequence (snd (advance
                   (if peek L = CHR 0x0A
                    then L\<lparr> line := line L + 1, column := 0, lineStart := current L + 1 \<rparr>
                    else L))) of
              Inl e \<Rightarrow> Inl e
            | Inr (s, L2) \<Rightarrow> stringLoop (val @ jsOf s) L2)
         else
           stringLoop
             (val @ map of_char (strOf (fst (advance L))))
             (snd (advance
                   (if peek L = CHR 0x0A
                    then L\<lparr> line := line L + 1, column := 0, lineStart := current L + 1 \<rparr>
                    else L))))
      else Inr (val, L))"
  by pat_completeness auto
termination
proof (relation "measure (\<lambda>(val, L). length (source L) - current L)")
  show "wf (measure (\<lambda>(val, L). length (source L) - current L))" by simp
next
  fix val :: jsstring and L x2 x y
  assume a: "peek L \<noteq> CHR 0x22 \<and> \<not> isAtEnd L" "peek L = CHR 0x5C"
    and e: "escapeSequence (snd (advance
              (if peek L = CHR 0x0A
               then L\<lparr> line := line L + 1, column := 0, lineStart := current L + 1 \<rparr>
               else L))) = Inr x2" "(x, y) = x2"
  from e have "escapeSequence (snd (advance L)) = Inr (x, y)" using a by (simp add: advance_def)
  from current_escapeSequence [OF this] a
  show "((val @ jsOf x, y), val, L) \<in> measure (\<lambda>(val, L). length (source L) - current L)"
    by (auto simp: advance_def isAtEnd_def)
next
  fix val :: jsstring and L
  assume "peek L \<noteq> CHR 0x22 \<and> \<not> isAtEnd L" "peek L \<noteq> CHR 0x5C"
  then show "((val @ map of_char (strOf (fst (advance L))),
        snd (advance (if peek L = CHR 0x0A
                      then L\<lparr> line := line L + 1, column := 0, lineStart := current L + 1 \<rparr>
                      else L))), val, L)
      \<in> measure (\<lambda>(val, L). length (source L) - current L)"
    by (auto simp: advance_def isAtEnd_def)
qed

declare stringLoop.simps [simp del]


definition stringToken :: "Lexer \<Rightarrow> Exception + Lexer" where
  "stringToken L =
     (let startLine = line L; startColumn = column L - 1 in
      case stringLoop [] L of
        Inl e \<Rightarrow> Inl e
      | Inr (val, L1) \<Rightarrow>
          if isAtEnd L1 then Inr (error ''Unterminated string'' L1)
          else Inr (addTokenWithLiteral (TokenType ''STRING'') (Some (LitString val))
                      startLine startColumn (snd (advance L1))))"

text \<open>In \<open>char()\<close> the value is \<open>undefined\<close> when the input ends inside the literal; then
  the token gets no literal.\<close>

definition charToken :: "Lexer \<Rightarrow> Exception + Lexer" where
  "charToken L =
     (let startColumn = column L - 1 in
      case (if peek L = CHR 0x5C then escapeSequence (snd (advance L))
            else Inr (map_option (\<lambda>ch. [of_char ch]) (fst (advance L)), snd (advance L))) of
        Inl e \<Rightarrow> Inl e
      | Inr (val, L1) \<Rightarrow>
          if peek L1 \<noteq> CHR 0x27 then Inr (error ''Unterminated character literal'' L1)
          else Inr (addTokenWithLiteral (TokenType ''CHAR'') (map_option LitString val)
                      (line (snd (advance L1))) startColumn (snd (advance L1))))"

function underscoreLoop :: "Lexer \<Rightarrow> Lexer" where
  "underscoreLoop L =
     (if peek L = CHR ''_'' \<and> isDigit (peekNext L) then underscoreLoop (digits (snd (advance L)))
      else L)"
  by pat_completeness auto
termination
proof (relation "measure (\<lambda>L. length (source L) - current L)")
  show "wf (measure (\<lambda>L. length (source L) - current L))" by simp
next
  fix L
  assume a: "peek L = CHR ''_'' \<and> isDigit (peekNext L)"
  have "lexStep (snd (advance L)) (digits (snd (advance L)))" by (rule lexStep_digits)
  then have "source (digits (snd (advance L))) = source L"
    and "current L < current (digits (snd (advance L)))"
    by (simp_all add: lexStep_def advance_def)
  moreover from a have "current L < length (source L)"
    by (auto simp: peek_def isAtEnd_def split: if_splits)
  ultimately show "(digits (snd (advance L)), L) \<in> measure (\<lambda>L. length (source L) - current L)"
    by simp
qed

declare underscoreLoop.simps [simp del]

definition numberToken :: "Lexer \<Rightarrow> Lexer" where
  "numberToken L =
     (let startColumn = column L - 1; next = peek L in
      if charAt (source L) (start L) = Some CHR ''0'' \<and> (next = CHR ''x'' \<or> next = CHR ''X'')
      then
        (let L1 = hexDigits (snd (advance L));
             val = substring (source L1) (start L1) (current L1)
         in addTokenWithLiteral (TokenType ''INTEGER'') (Some (LitNumber (ParseInt val 16)))
              (line L1) startColumn L1)
      else if charAt (source L) (start L) = Some CHR ''0'' \<and> (next = CHR ''b'' \<or> next = CHR ''B'')
      then
        (let L1 = binaryDigits (snd (advance L));
             val = substring (source L1) (start L1 + 2) (current L1)
         in addTokenWithLiteral (TokenType ''INTEGER'') (Some (LitNumber (ParseInt val 2)))
              (line L1) startColumn L1)
      else if charAt (source L) (start L) = Some CHR ''0'' \<and> (next = CHR ''o'' \<or> next = CHR ''O'')
      then
        (let L1 = octalDigits (snd (advance L));
             val = substring (source L1) (start L1 + 2) (current L1)
         in addTokenWithLiteral (TokenType ''INTEGER'') (Some (LitNumber (ParseInt val 8)))
              (line L1) startColumn L1)
      else
        (let L1 = underscoreLoop (digits L);
             fraction = (peek L1 = CHR ''.'' \<and> isDigit (peekNext L1));
             L2 = (if fraction then digits (snd (advance L1)) else L1);
             exponent = (peek L2 = CHR ''e'' \<or> peek L2 = CHR ''E'');
             L3 = (if exponent then
                     digits
                       (if peek (snd (advance L2)) = CHR ''+'' \<or> peek (snd (advance L2)) = CHR ''-''
                        then snd (advance (snd (advance L2)))
                        else snd (advance L2))
                   else L2);
             isFloat = (fraction \<or> exponent);
             text = filter (\<lambda>ch. ch \<noteq> CHR ''_'') (substring (source L3) (start L3) (current L3))
         in addTokenWithLiteral
              (if isFloat then TokenType ''FLOAT'' else TokenType ''INTEGER'')
              (Some (LitNumber (if isFloat then ParseFloat text else ParseInt text 10)))
              (line L3) startColumn L3))"

definition identifierToken :: "Lexer \<Rightarrow> Lexer" where
  "identifierToken L =
     (let L1 = identifierLoop L;
          text = substring (source L1) (start L1) (current L1);
          type = keywordOrIdentifier text
      in if type = TokenType ''TRUE'' then
           addTokenWithLiteral (TokenType ''BOOLEAN'') (Some (LitBoolean True)) (line L1)
             (column L1 - int (length text)) L1
         else if type = TokenType ''FALSE'' then
           addTokenWithLiteral (TokenType ''BOOLEAN'') (Some (LitBoolean False)) (line L1)
             (column L1 - int (length text)) L1
         else if type = TokenType ''NIL'' then
           addTokenWithLiteral (TokenType ''NIL'') (Some LitNull) (line L1)
             (column L1 - int (length text)) L1
         else addToken type L1)"

subsection \<open>\<open>scanToken\<close> and \<open>tokenize\<close>\<close>

text \<open>\<open>if (this.match(c)) yes else no\<close>, both continuing in the state after the match.\<close>

definition ifMatch :: "char \<Rightarrow> (Lexer \<Rightarrow> Lexer) \<Rightarrow> (Lexer \<Rightarrow> Lexer) \<Rightarrow> Lexer \<Rightarrow> Lexer" where
  "ifMatch c yes no L = (if fst (match c L) then yes (snd (match c L)) else no (snd (match c L)))"

definition scanToken :: "Lexer \<Rightarrow> Exception + Lexer" where
  "scanToken L =
     (let c = fst (advance L); L1 = snd (advance L) in
      if c = Some CHR ''('' then Inr (addToken (TokenType ''LPAREN'') L1)
      else if c = Some CHR '')'' then Inr (addToken (TokenType ''RPAREN'') L1)
      else if c = Some CHR ''{'' then Inr (addToken (TokenType ''LBRACE'') L1)
      else if c = Some CHR ''}'' then Inr (addToken (TokenType ''RBRACE'') L1)
      else if c = Some CHR ''['' then Inr (addToken (TokenType ''LBRACKET'') L1)
      else if c = Some CHR '']'' then Inr (addToken (TokenType ''RBRACKET'') L1)
      else if c = Some CHR '','' then Inr (addToken (TokenType ''COMMA'') L1)
      else if c = Some CHR '';'' then Inr (addToken (TokenType ''SEMICOLON'') L1)
      else if c = Some CHR ''?'' then Inr (addToken (TokenType ''QUESTION'') L1)
      else if c = Some CHR ''@'' then Inr (addToken (TokenType ''AT'') L1)
      else if c = Some CHR ''#'' then Inr (addToken (TokenType ''HASH'') L1)
      else if c = Some CHR ''~'' then Inr (addToken (TokenType ''BIT_NOT'') L1)
      else if c = Some CHR '':'' then Inr (addToken (TokenType ''COLON'') L1)
      else if c = Some CHR ''+'' then
        Inr (ifMatch CHR ''='' (addToken (TokenType ''PLUS_ASSIGN'')) (addToken (TokenType ''PLUS'')) L1)
      else if c = Some CHR ''-'' then
        Inr (ifMatch CHR ''>'' (addToken (TokenType ''ARROW''))
              (ifMatch CHR ''='' (addToken (TokenType ''MINUS_ASSIGN''))
                (addToken (TokenType ''MINUS''))) L1)
      else if c = Some CHR ''*'' then
        Inr (ifMatch CHR ''*'' (addToken (TokenType ''POWER''))
              (ifMatch CHR ''='' (addToken (TokenType ''STAR_ASSIGN''))
                (addToken (TokenType ''STAR''))) L1)
      else if c = Some CHR ''/'' then
        Inr (ifMatch CHR ''/'' lineComment
              (ifMatch CHR ''*'' blockComment
                (ifMatch CHR ''='' (addToken (TokenType ''SLASH_ASSIGN''))
                  (addToken (TokenType ''SLASH'')))) L1)
      else if c = Some CHR ''%'' then Inr (addToken (TokenType ''PERCENT'') L1)
      else if c = Some CHR ''='' then
        Inr (ifMatch CHR ''='' (addToken (TokenType ''EQ''))
              (ifMatch CHR ''>'' (addToken (TokenType ''FAT_ARROW''))
                (addToken (TokenType ''ASSIGN''))) L1)
      else if c = Some CHR ''!'' then
        Inr (ifMatch CHR ''='' (addToken (TokenType ''NEQ'')) (addToken (TokenType ''NOT'')) L1)
      else if c = Some CHR ''<'' then
        Inr (ifMatch CHR ''='' (addToken (TokenType ''LTE''))
              (ifMatch CHR ''<'' (addToken (TokenType ''SHL''))
                (addToken (TokenType ''LT''))) L1)
      else if c = Some CHR ''>'' then
        Inr (ifMatch CHR ''='' (addToken (TokenType ''GTE''))
              (ifMatch CHR ''>'' (addToken (TokenType ''SHR''))
                (addToken (TokenType ''GT''))) L1)
      else if c = Some CHR ''&'' then
        Inr (ifMatch CHR ''&'' (addToken (TokenType ''AND'')) (addToken (TokenType ''BIT_AND'')) L1)
      else if c = Some CHR ''|'' then
        Inr (ifMatch CHR ''|'' (addToken (TokenType ''OR'')) (addToken (TokenType ''BIT_OR'')) L1)
      else if c = Some CHR ''^'' then Inr (addToken (TokenType ''BIT_XOR'') L1)
      else if c = Some CHR ''.'' then
        Inr (ifMatch CHR ''.''
              (ifMatch CHR ''='' (addToken (TokenType ''RANGE_INCL''))
                (addToken (TokenType ''RANGE'')))
              (addToken (TokenType ''DOT'')) L1)
      else if c = Some CHR '' '' \<or> c = Some CHR 0x0D \<or> c = Some CHR 0x09 then Inr L1
      else if c = Some CHR 0x0A then
        Inr (L1\<lparr> line := line L1 + 1, column := 1, lineStart := current L1 \<rparr>)
      else if c = Some CHR 0x22 then stringToken L1
      else if c = Some CHR 0x27 then charToken L1
      else
        (case c of
           Some ch \<Rightarrow>
             if isDigit ch then Inr (numberToken L1)
             else if isAlpha ch then Inr (identifierToken L1)
             else if ch = CHR ''_'' then
               (if isAlphaNumeric (peek L1) then Inr (identifierToken L1)
                else Inr (addToken (TokenType ''UNDERSCORE'') L1))
             else Inr (error (''Unexpected character: '' @ [CHR 0x27] @ [ch] @ [CHR 0x27]) L1)
         | None \<Rightarrow>
             Inr (error (''Unexpected character: '' @ [CHR 0x27] @ ''undefined'' @ [CHR 0x27]) L1)))"


lemma lexStep_stringLoop: "stringLoop val L = Inr (v, L') \<Longrightarrow> lexStep L L'"
proof (induction val L rule: stringLoop.induct)
  case (1 val L)
  let ?N = "if peek L = CHR 0x0A
            then L\<lparr> line := line L + 1, column := 0, lineStart := current L + 1 \<rparr> else L"
  have nl: "lexStep L (snd (advance ?N))"
    by (auto intro: lexStep_advance lexStep_trans [OF lexStep_newline lexStep_advance])
  show ?case
  proof (cases "peek L \<noteq> CHR 0x22 \<and> \<not> isAtEnd L")
    case False
    with "1.prems" show ?thesis by (subst (asm) stringLoop.simps) (auto simp: lexStep_refl)
  next
    case go: True
    show ?thesis
    proof (cases "peek L = CHR 0x5C")
      case True
      from "1.prems" go True obtain s L2 where
        e: "escapeSequence (snd (advance ?N)) = Inr (s, L2)" and
        r: "stringLoop (val @ jsOf s) L2 = Inr (v, L')"
        by (subst (asm) stringLoop.simps) (auto split: sum.splits)
      from "1.IH"(1) [OF go True e refl r] have "lexStep L2 L'" .
      moreover from lexStep_escapeSequence [OF e] have "lexStep (snd (advance ?N)) L2"
        by (rule lexStep_trans [OF lexStep_advance])
      ultimately show ?thesis using nl by (blast intro: lexStep_trans)
    next
      case False
      from "1.prems" go False have
        r: "stringLoop (val @ map of_char (strOf (fst (advance L)))) (snd (advance ?N)) = Inr (v, L')"
        by (subst (asm) stringLoop.simps) auto
      from "1.IH"(2) [OF go False r] have "lexStep (snd (advance ?N)) L'" .
      with nl show ?thesis by (rule lexStep_trans)
    qed
  qed
qed


lemma lexStep_if:
  "(c \<Longrightarrow> lexStep L A) \<Longrightarrow> (\<not> c \<Longrightarrow> lexStep L B) \<Longrightarrow> lexStep L (if c then A else B)"
  by simp

lemma lexStep_stringToken: "stringToken L = Inr L' \<Longrightarrow> lexStep L L'"
  unfolding stringToken_def Let_def
  by (auto split: sum.splits if_splits dest!: lexStep_stringLoop intro!: lexStepI)

lemma lexStep_charToken:
  assumes "charToken L = Inr L'"
  shows "lexStep L L'"
proof -
  let ?r = "if peek L = CHR 0x5C then escapeSequence (snd (advance L))
            else Inr (map_option (\<lambda>ch. [of_char ch]) (fst (advance L)), snd (advance L))"
  from assms obtain val L1 where r: "?r = Inr (val, L1)"
    and L': "L' = (if peek L1 \<noteq> CHR 0x27 then error ''Unterminated character literal'' L1
               else addTokenWithLiteral (TokenType ''CHAR'') (map_option LitString val)
                      (line (snd (advance L1))) (column L - 1) (snd (advance L1)))"
    unfolding charToken_def Let_def by (auto split: sum.splits if_splits)
  have "lexStep L L1"
  proof (cases "peek L = CHR 0x5C")
    case True
    with r have "escapeSequence (snd (advance L)) = Inr (val, L1)" by simp
    from lexStep_escapeSequence [OF this] show ?thesis
      by (rule lexStep_trans [OF lexStep_advance2])
  next
    case False
    with r show ?thesis by (auto intro: lexStep_advance)
  qed
  then show ?thesis unfolding L' by (intro lexStep_if lexStepI)
qed

lemma lexStep_underscoreLoop: "lexStep L (underscoreLoop L)"
proof (induction L rule: underscoreLoop.induct)
  case (1 L)
  show ?case
  proof (cases "peek L = CHR ''_'' \<and> isDigit (peekNext L)")
    case True
    with 1 have "lexStep (digits (snd (advance L))) (underscoreLoop (digits (snd (advance L))))"
      by simp
    moreover have "lexStep L (digits (snd (advance L)))" by (intro lexStepI)
    ultimately have "lexStep L (underscoreLoop (digits (snd (advance L))))"
      by (rule lexStep_trans [rotated])
    with True show ?thesis by (subst underscoreLoop.simps) auto
  next
    case False
    then show ?thesis by (subst underscoreLoop.simps) (auto simp: lexStep_refl)
  qed
qed

lemma lexStep_underscoreLoop': "lexStep L M \<Longrightarrow> lexStep L (underscoreLoop M)"
  by (erule lexStep_trans) (rule lexStep_underscoreLoop)

lemma lexStep_numberToken': "lexStep L M \<Longrightarrow> lexStep L (numberToken M)"
  unfolding numberToken_def Let_def
  by (intro lexStep_if lexStepI lexStep_underscoreLoop')

lemma lexStep_identifierToken': "lexStep L M \<Longrightarrow> lexStep L (identifierToken M)"
  unfolding identifierToken_def Let_def
  by (intro lexStep_if lexStepI)

lemma lexStep_ifMatch':
  "(\<And>M'. lexStep L M' \<Longrightarrow> lexStep L (yes M')) \<Longrightarrow> (\<And>M'. lexStep L M' \<Longrightarrow> lexStep L (no M')) \<Longrightarrow>
   lexStep L M \<Longrightarrow> lexStep L (ifMatch c yes no M)"
  unfolding ifMatch_def by (simp add: lexStep_match')

definition lexStepR :: "Lexer \<Rightarrow> Exception + Lexer \<Rightarrow> bool" where
  "lexStepR L r = (case r of Inl e \<Rightarrow> True | Inr L' \<Rightarrow> lexStep L L')"

lemma lexStepR_Inr: "lexStep L M \<Longrightarrow> lexStepR L (Inr M)"
  by (simp add: lexStepR_def)

lemma lexStepR_if:
  "(c \<Longrightarrow> lexStepR L A) \<Longrightarrow> (\<not> c \<Longrightarrow> lexStepR L B) \<Longrightarrow> lexStepR L (if c then A else B)"
  by simp

lemma lexStepR_case_option:
  "(c = None \<Longrightarrow> lexStepR L A) \<Longrightarrow> (\<And>x. c = Some x \<Longrightarrow> lexStepR L (B x)) \<Longrightarrow>
   lexStepR L (case c of None \<Rightarrow> A | Some x \<Rightarrow> B x)"
  by (cases c) simp_all

lemma lexStepR_stringToken: "lexStepR L (stringToken L)"
  by (cases "stringToken L") (simp_all add: lexStepR_def lexStep_stringToken)

lemma lexStepR_charToken: "lexStepR L (charToken L)"
  by (cases "charToken L") (simp_all add: lexStepR_def lexStep_charToken)

lemma lexStepR_scanToken: "lexStepR (snd (advance L)) (scanToken L)"
  unfolding scanToken_def Let_def
  by (intro lexStepR_if lexStepR_case_option lexStepR_Inr lexStepR_stringToken lexStepR_charToken
        lexStep_ifMatch' lexStepI lexStep_numberToken' lexStep_identifierToken')

lemma lexStep_scanToken:
  assumes "scanToken L = Inr L'"
  shows "lexStep L L'" and "current L < current L'"
proof -
  from lexStepR_scanToken [of L] assms have s: "lexStep (snd (advance L)) L'"
    by (simp add: lexStepR_def)
  with lexStep_advance show "lexStep L L'" by (rule lexStep_trans)
  from s show "current L < current L'" by (simp add: lexStep_def advance_def)
qed

function tokenizeLoop :: "Lexer \<Rightarrow> Exception + Lexer" where
  "tokenizeLoop L =
     (if \<not> isAtEnd L then
        (case scanToken (L\<lparr> start := current L \<rparr>) of
           Inl e \<Rightarrow> Inl e
         | Inr L' \<Rightarrow> tokenizeLoop L')
      else Inr L)"
  by pat_completeness auto
termination
proof (relation "measure (\<lambda>L. length (source L) - current L)")
  show "wf (measure (\<lambda>L. length (source L) - current L))" by simp
next
  fix L L'
  assume a: "\<not> isAtEnd L" and s: "scanToken (L\<lparr> start := current L \<rparr>) = Inr L'"
  from lexStep_scanToken [OF s] have "source L' = source L" "current L < current L'"
    by (simp_all add: lexStep_def)
  with a show "(L', L) \<in> measure (\<lambda>L. length (source L) - current L)"
    by (auto simp: isAtEnd_def)
qed

declare tokenizeLoop.simps [simp del]

definition tokenize :: "string \<Rightarrow> string option \<Rightarrow> Exception + (Token list \<times> LexerError list)" where
  "tokenize src f =
     (case tokenizeLoop
             \<lparr> source = src, tokens = [], errors = [], start = 0, current = 0, line = 1,
               column = 1, lineStart = 0, file_name = f \<rparr> of
        Inl e \<Rightarrow> Inl e
      | Inr L \<Rightarrow>
          Inr (tokens L @ [createToken (TokenType ''EOF'') [] (line L) (column L) (current L) None],
               errors L))"

section \<open>The syntax tree (parser/ast.ts)\<close>

text \<open>
  The node kinds of \<^verbatim>\<open>ast.ts\<close>, one constructor per kind with the fields in the order of the
  interface.  Expressions and statements are two separate families of types, so one restriction
  is made: a block used as an expression (\<open>BlockExpressionNode\<close>) carries its final expression
  and no statements.  Blocks used as statements (function bodies, branches, loops) are complete.
  The parser builds a block expression (a block in the place of an expression, a branch of an
  \<open>if\<close> expression) from the statements of the block, with no final expression; of these the
  trees of this development hold the blocks without statements only, and what is proved for
  all expressions, statements or programs is proved for these trees.
  Small nodes that occur in one place only (a binding of a quantifier, a field of a struct
  pattern, a parameter of a lambda, a variant of an enum, an import specifier) are tuples of
  their fields.  The where clause of an \<open>impl\<close>, which no phase reads, is left out.

  The value of a literal is the \<open>literal\<close> of its token, or \<open>null\<close>.  A number is held as
  the text that \<open>String\<close> gives for it (\<^verbatim>\<open>42\<close>, \<^verbatim>\<open>0.5\<close>, \<^verbatim>\<open>1e+21\<close>, \<^verbatim>\<open>NaN\<close>): this text
  determines the number, \<open>1.0\<close> and \<open>1\<close> of a source are both \<^verbatim>\<open>1\<close>, and no rounding has to be
  done where a phase prints the number.
\<close>

datatype (plugins only: code size) IdentifierNode = IdentifierNode (name: string) (ident_location: SourceLocation)

datatype (plugins only: code size) LiteralValue = NumberValue string | StringValue string | BooleanValue bool | NullValue

datatype (plugins only: code size) LiteralNode = LiteralNode (lit_value: LiteralValue) (literalKind: string) (lit_location: SourceLocation)

datatype (plugins only: code size) TypeExpression =
    AST_PrimitiveType string SourceLocation
  | AST_NamedType IdentifierNode "IdentifierNode list" SourceLocation
  | AST_GenericType TypeExpression "TypeExpression list" SourceLocation
  | AST_ArrayType TypeExpression "int option" SourceLocation
  | AST_TupleType "TypeExpression list" SourceLocation
  | AST_FunctionType "TypeExpression list" TypeExpression "TypeExpression list" SourceLocation
  | AST_ReferenceType TypeExpression bool SourceLocation
  | AST_OptionalType TypeExpression SourceLocation
  | AST_ResultType TypeExpression TypeExpression SourceLocation
  | AST_NeverType SourceLocation

datatype (plugins only: code size) GenericParameter =
  GenericParameter IdentifierNode "TypeExpression list" "TypeExpression option" SourceLocation

datatype (plugins only: code size) Pattern =
    WildcardPattern SourceLocation
  | LiteralPattern LiteralNode SourceLocation
  | IdentifierPattern IdentifierNode bool SourceLocation
  | TuplePattern "Pattern list" SourceLocation
  | StructPattern IdentifierNode "(IdentifierNode \<times> Pattern \<times> SourceLocation) list" bool SourceLocation
  | EnumPattern IdentifierNode IdentifierNode "Pattern list option" SourceLocation
  | RangePattern "LiteralNode option" "LiteralNode option" bool SourceLocation

datatype (plugins only: code size) Expression =
    Identifier IdentifierNode
  | Literal LiteralNode
  | BinaryExpression string Expression Expression SourceLocation
  | UnaryExpression string Expression bool SourceLocation
  | CallExpression Expression "Expression list" "TypeExpression list" SourceLocation
  | MemberExpression Expression IdentifierNode bool SourceLocation
  | IndexExpression Expression Expression SourceLocation
  | IfExpression IfExpressionNode
  | MatchExpression Expression "(Pattern \<times> Expression option \<times> Expression \<times> SourceLocation) list"
      SourceLocation
  | BlockExpression BlockExpressionNode
  | LambdaExpression
      "(IdentifierNode \<times> TypeExpression \<times> bool \<times> Expression option \<times> SourceLocation) list"
      "TypeExpression option" Expression SourceLocation
  | ArrayExpression "Expression list" SourceLocation
  | TupleExpression "Expression list" SourceLocation
  | StructExpression IdentifierNode "(IdentifierNode \<times> Expression \<times> SourceLocation) list"
      "Expression option" SourceLocation
  | RangeExpression "Expression option" "Expression option" bool SourceLocation
  | CastExpression Expression TypeExpression SourceLocation
  | OldExpression Expression SourceLocation
  | ForallExpression "(IdentifierNode \<times> Expression option \<times> SourceLocation) list" Expression
      SourceLocation
  | ExistsExpression "(IdentifierNode \<times> Expression option \<times> SourceLocation) list" Expression
      SourceLocation
  | TryExpression Expression SourceLocation
  | AssignmentExpression string Expression Expression SourceLocation
and BlockExpressionNode = BlockExpressionNode "Expression option" SourceLocation
and IfExpressionNode =
    IfExpressionNode Expression BlockExpressionNode "ElseExpression option" SourceLocation
and ElseExpression = ElseBlockExpression BlockExpressionNode | ElseIfExpression IfExpressionNode

datatype (plugins only: code size) Annotation =
    RequiresAnnotation Expression SourceLocation
  | EnsuresAnnotation Expression SourceLocation
  | InvariantAnnotation Expression SourceLocation
  | EffectAnnotation "TypeExpression list" SourceLocation
  | CapabilityAnnotation IdentifierNode "(string \<times> Expression) list" SourceLocation
  | ContractAnnotation IdentifierNode "TypeExpression list" SourceLocation
  | IntentAnnotation IdentifierNode "TypeExpression list" SourceLocation
  | VerifyAnnotation string SourceLocation

datatype (plugins only: code size) Parameter = Parameter IdentifierNode TypeExpression bool "Expression option" SourceLocation

datatype (plugins only: code size) MatchArm = MatchArm Pattern "Expression option" Expression SourceLocation

datatype (plugins only: code size) StructField =
  StructField IdentifierNode TypeExpression "Expression option" "Annotation list" SourceLocation

datatype (plugins only: code size) Statement =
    ExpressionStatement Expression SourceLocation
  | ReturnStatement "Expression option" SourceLocation
  | IfStatement IfStatementNode
  | WhileStatement Expression BlockStatementNode "Annotation list" SourceLocation
  | ForStatement IdentifierNode Expression BlockStatementNode "Annotation list" SourceLocation
  | MatchStatement Expression "MatchArm list" SourceLocation
  | BlockStatement BlockStatementNode
  | FunctionDeclaration FunctionDeclarationNode
  | VariableDeclaration IdentifierNode "TypeExpression option" "Expression option" bool bool SourceLocation
  | TypeAliasDeclaration IdentifierNode "GenericParameter list" TypeExpression bool SourceLocation
  | StructDeclaration IdentifierNode "GenericParameter list" "StructField list" "Annotation list" bool
      SourceLocation
  | EnumDeclaration IdentifierNode "GenericParameter list"
      "(IdentifierNode \<times> TypeExpression list option \<times> SourceLocation) list" bool SourceLocation
  | TraitDeclaration IdentifierNode "GenericParameter list" "TypeExpression list"
      "FunctionDeclarationNode list" bool SourceLocation
  | ImplDeclaration "GenericParameter list" "TypeExpression option" TypeExpression
      "FunctionDeclarationNode list" SourceLocation
  | ContractDeclaration IdentifierNode "GenericParameter list" "Annotation list" bool SourceLocation
  | IntentDeclaration IdentifierNode "GenericParameter list" "Annotation list" bool SourceLocation
  | EffectDeclaration IdentifierNode "GenericParameter list" "FunctionDeclarationNode list" bool
      SourceLocation
  | CapabilityDeclaration IdentifierNode "(IdentifierNode \<times> TypeExpression \<times> SourceLocation) list" bool
      SourceLocation
  | ImportDeclaration "string list" "(IdentifierNode \<times> IdentifierNode option \<times> SourceLocation) list" bool
      SourceLocation
  | ExportDeclaration Statement SourceLocation
and BlockStatementNode = BlockStatementNode "Statement list" SourceLocation
and IfStatementNode =
    IfStatementNode Expression BlockStatementNode "ElseStatement option" SourceLocation
and ElseStatement = ElseBlock BlockStatementNode | ElseIf IfStatementNode
and FunctionDeclarationNode =
    FunctionDeclarationNode IdentifierNode "GenericParameter list" "Parameter list" TypeExpression
      "Annotation list" "BlockStatementNode option" bool bool SourceLocation

section \<open>Host strings\<close>

definition join :: "string \<Rightarrow> string list \<Rightarrow> string" where
  "join sep xs = (case xs of [] \<Rightarrow> [] | y # ys \<Rightarrow> y @ concat (map (\<lambda>z. sep @ z) ys))"

definition digitChar :: "nat \<Rightarrow> char" where
  "digitChar n = char_of (48 + n)"

fun showNat :: "nat \<Rightarrow> string" where
  "showNat n = (if n < 10 then [digitChar n] else showNat (n div 10) @ [digitChar (n mod 10)])"

declare showNat.simps [simp del]

definition showInt :: "int \<Rightarrow> string" where
  "showInt i = (if i < 0 then CHR ''-'' # showNat (nat (- i)) else showNat (nat i))"

definition hexDigitChar :: "nat \<Rightarrow> char" where
  "hexDigitChar n = (if n < 10 then char_of (48 + n) else char_of (87 + n))"

text \<open>\<open>JSON.stringify\<close> of a string.\<close>

definition jsonEscape :: "char \<Rightarrow> string" where
  "jsonEscape c =
     (if c = CHR 0x22 then [CHR 0x5C, CHR 0x22]
      else if c = CHR 0x5C then [CHR 0x5C, CHR 0x5C]
      else if c = CHR 0x08 then [CHR 0x5C, CHR ''b'']
      else if c = CHR 0x0C then [CHR 0x5C, CHR ''f'']
      else if c = CHR 0x0A then [CHR 0x5C, CHR ''n'']
      else if c = CHR 0x0D then [CHR 0x5C, CHR ''r'']
      else if c = CHR 0x09 then [CHR 0x5C, CHR ''t'']
      else if (of_char c :: nat) < 32 then
        [CHR 0x5C, CHR ''u'', CHR ''0'', CHR ''0'', hexDigitChar (of_char c div 16),
         hexDigitChar (of_char c mod 16)]
      else [c])"

definition JSON_stringify :: "string \<Rightarrow> string" where
  "JSON_stringify s = [CHR 0x22] @ concat (map jsonEscape s) @ [CHR 0x22]"

text \<open>The regular-expression class \<open>\w\<close>.\<close>

definition isWordChar :: "char \<Rightarrow> bool" where
  "isWordChar c =
     ((CHR ''a'' \<le> c \<and> c \<le> CHR ''z'') \<or> (CHR ''A'' \<le> c \<and> c \<le> CHR ''Z'') \<or>
      (CHR ''0'' \<le> c \<and> c \<le> CHR ''9'') \<or> c = CHR ''_'')"

text \<open>
  \<open>s.replace(/\b(\w+)\b/g, f)\<close>: every maximal run of word characters is replaced by its
  image.  \<open>s.replace(/\bresult\b/g, r)\<close> is the instance that maps the run \<open>result\<close> to
  \<open>r\<close> and every other run to itself.
\<close>

fun replaceWords :: "(string \<Rightarrow> string) \<Rightarrow> string \<Rightarrow> string \<Rightarrow> string" where
  "replaceWords f word [] = (if word = [] then [] else f word)"
| "replaceWords f word (c # cs) =
     (if isWordChar c then replaceWords f (word @ [c]) cs
      else (if word = [] then [] else f word) @ c # replaceWords f [] cs)"


section \<open>The lowerer: expressions (codegen/javascript.ts)\<close>

definition String_of :: "LiteralValue \<Rightarrow> string" where
  "String_of v =
     (case v of
        NumberValue s \<Rightarrow> s
      | StringValue s \<Rightarrow> s
      | BooleanValue b \<Rightarrow> (if b then ''true'' else ''false'')
      | NullValue \<Rightarrow> ''null'')"

definition JSON_stringify_value :: "LiteralValue \<Rightarrow> string" where
  "JSON_stringify_value v =
     (case v of
        StringValue s \<Rightarrow> JSON_stringify s
      | NumberValue s \<Rightarrow>
          if s = ''NaN'' \<or> s = ''Infinity'' \<or> s = ''-Infinity'' then ''null'' else s
      | _ \<Rightarrow> String_of v)"

fun exprToString :: "Expression \<Rightarrow> string" where
  "exprToString (Identifier i) = name i"
| "exprToString (Literal l) = String_of (lit_value l)"
| "exprToString (MemberExpression object property isOptional loc) =
     exprToString object @ ''.'' @ name property"
| "exprToString (BinaryExpression operator left right loc) =
     exprToString left @ '' '' @ operator @ '' '' @ exprToString right"
| "exprToString _ = ''<expr>''"

definition generateLiteral :: "LiteralNode \<Rightarrow> string" where
  "generateLiteral expr =
     (if literalKind expr = ''string'' then JSON_stringify_value (lit_value expr)
      else if literalKind expr = ''char'' then JSON_stringify_value (lit_value expr)
      else if literalKind expr = ''boolean'' then String_of (lit_value expr)
      else if literalKind expr = ''nil'' then ''null''
      else if literalKind expr = ''integer'' \<or> literalKind expr = ''float''
        then String_of (lit_value expr)
      else ''null'')"

text \<open>\<open>s.replace(/[.\[\]]/g, '_')\<close>\<close>

definition replaceDotsAndBrackets :: "string \<Rightarrow> string" where
  "replaceDotsAndBrackets s =
     map (\<lambda>c. if c = CHR ''.'' \<or> c = CHR ''['' \<or> c = CHR '']'' then CHR ''_'' else c) s"

definition orTrue :: "string \<Rightarrow> string" where
  "orTrue s = (if s = [] then ''true'' else s)"

fun generatePatternCheck :: "Pattern \<Rightarrow> string \<Rightarrow> string"
  and generatePatternChecksIndexed :: "Pattern list \<Rightarrow> string \<Rightarrow> string \<Rightarrow> nat \<Rightarrow> string list"
  and generateStructPatternChecks ::
    "(IdentifierNode \<times> Pattern \<times> SourceLocation) list \<Rightarrow> string \<Rightarrow> string list"
where
  "generatePatternCheck (WildcardPattern loc) subject = ''true''"
| "generatePatternCheck (LiteralPattern v loc) subject =
     subject @ '' === '' @ JSON_stringify_value (lit_value v)"
| "generatePatternCheck (IdentifierPattern n isMutable loc) subject = ''true''"
| "generatePatternCheck (TuplePattern elements loc) subject =
     orTrue (join '' && '' (generatePatternChecksIndexed elements subject ''['' 0))"
| "generatePatternCheck (EnumPattern type variant flds loc) subject =
     (let check = subject @ ''.__variant === '' @ [CHR 0x22] @ name variant @ [CHR 0x22] in
      case flds of
        Some fs \<Rightarrow>
          (let fieldChecks = generatePatternChecksIndexed fs subject ''.__fields['' 0 in
           if length fieldChecks > 0 then check @ '' && '' @ join '' && '' fieldChecks else check)
      | None \<Rightarrow> check)"
| "generatePatternCheck (StructPattern type flds hasRest loc) subject =
     orTrue (join '' && '' (generateStructPatternChecks flds subject))"
| "generatePatternCheck (RangePattern s e isInclusive loc) subject = ''true''"
| "generatePatternChecksIndexed [] subject opening i = []"
| "generatePatternChecksIndexed (p # ps) subject opening i =
     generatePatternCheck p (subject @ opening @ showNat i @ '']'')
       # generatePatternChecksIndexed ps subject opening (i + 1)"
| "generateStructPatternChecks [] subject = []"
| "generateStructPatternChecks (f # fs) subject =
     generatePatternCheck (fst (snd f)) (subject @ ''.'' @ name (fst f))
       # generateStructPatternChecks fs subject"

text \<open>\<open>null\<close> is \<open>None\<close>; \<open>.filter(Boolean)\<close> drops \<open>null\<close> and the empty string.\<close>

definition filterBoolean :: "string option list \<Rightarrow> string list" where
  "filterBoolean xs = concat (map (\<lambda>x. case x of Some s \<Rightarrow> (if s = [] then [] else [s]) | None \<Rightarrow> []) xs)"

definition joinedOrNull :: "string list \<Rightarrow> string option" where
  "joinedOrNull bindings = (if length bindings > 0 then Some (join [CHR 0x0A] bindings) else None)"

fun generatePatternBindings :: "Pattern \<Rightarrow> string \<Rightarrow> string option"
  and generatePatternBindingsIndexed ::
    "Pattern list \<Rightarrow> string \<Rightarrow> string \<Rightarrow> nat \<Rightarrow> string option list"
  and generateStructPatternBindings ::
    "(IdentifierNode \<times> Pattern \<times> SourceLocation) list \<Rightarrow> string \<Rightarrow> string option list"
where
  "generatePatternBindings (IdentifierPattern n isMutable loc) subject =
     Some (''const '' @ name n @ '' = '' @ subject @ '';'')"
| "generatePatternBindings (TuplePattern elements loc) subject =
     joinedOrNull (filterBoolean (generatePatternBindingsIndexed elements subject ''['' 0))"
| "generatePatternBindings (EnumPattern type variant flds loc) subject =
     (case flds of
        Some fs \<Rightarrow>
          joinedOrNull (filterBoolean (generatePatternBindingsIndexed fs subject ''.__fields['' 0))
      | None \<Rightarrow> None)"
| "generatePatternBindings (StructPattern type flds hasRest loc) subject =
     joinedOrNull (filterBoolean (generateStructPatternBindings flds subject))"
| "generatePatternBindings (WildcardPattern loc) subject = None"
| "generatePatternBindings (LiteralPattern v loc) subject = None"
| "generatePatternBindings (RangePattern s e isInclusive loc) subject = None"
| "generatePatternBindingsIndexed [] subject opening i = []"
| "generatePatternBindingsIndexed (p # ps) subject opening i =
     generatePatternBindings p (subject @ opening @ showNat i @ '']'')
       # generatePatternBindingsIndexed ps subject opening (i + 1)"
| "generateStructPatternBindings [] subject = []"
| "generateStructPatternBindings (f # fs) subject =
     generatePatternBindings (fst (snd f)) (subject @ ''.'' @ name (fst f))
       # generateStructPatternBindings fs subject"


definition orEmpty :: "string option \<Rightarrow> string" where
  "orEmpty b = (case b of Some s \<Rightarrow> s | None \<Rightarrow> [])"

definition generateMatchArm :: "Pattern \<times> string option \<times> string \<times> SourceLocation \<Rightarrow> string" where
  "generateMatchArm arm =
     (case arm of
        (pattern, guard, body, loc) \<Rightarrow>
          (case guard of
             Some g \<Rightarrow>
               ''if ('' @ generatePatternCheck pattern ''__m'' @ '' && '' @ g @ '') { ''
                 @ orEmpty (generatePatternBindings pattern ''__m'') @ '' return '' @ body @ ''; }''
           | None \<Rightarrow>
               ''if ('' @ generatePatternCheck pattern ''__m'' @ '') { ''
                 @ orEmpty (generatePatternBindings pattern ''__m'') @ '' return '' @ body @ ''; }''))"

definition generateQuantifier ::
  "string \<Rightarrow> string \<Rightarrow> (IdentifierNode \<times> string option \<times> SourceLocation) list \<Rightarrow> string \<Rightarrow> string"
  where
  "generateQuantifier method fallback bindings condition =
     (case bindings of
        [(bname, Some rng, bloc)] \<Rightarrow> rng @ ''.'' @ method @ ''('' @ name bname @ '' => '' @ condition @ '')''
      | _ \<Rightarrow> fallback)"

primrec generateExpression :: "Expression \<Rightarrow> string"
  and generateBlockExpression :: "BlockExpressionNode \<Rightarrow> string"
  and generateIfExpression :: "IfExpressionNode \<Rightarrow> string"
  and generateElseExpression :: "ElseExpression \<Rightarrow> string"
where
  "generateExpression (Identifier i) = name i"
| "generateExpression (Literal l) = generateLiteral l"
| "generateExpression (BinaryExpression operator left right loc) =
     (if operator = ''**'' then
        ''Math.pow('' @ generateExpression left @ '', '' @ generateExpression right @ '')''
      else ''('' @ generateExpression left @ '' '' @ operator @ '' '' @ generateExpression right @ '')'')"
| "generateExpression (UnaryExpression operator operand isPrefix loc) =
     (if operator = ''&'' \<or> operator = ''*'' then generateExpression operand
      else operator @ generateExpression operand)"
| "generateExpression (CallExpression callee arguments genericArgs loc) =
     generateExpression callee @ ''('' @ join '', '' (map generateExpression arguments) @ '')''"
| "generateExpression (MemberExpression object property isOptional loc) =
     generateExpression object @ ''.'' @ name property"
| "generateExpression (IndexExpression object index loc) =
     generateExpression object @ ''['' @ generateExpression index @ '']''"
| "generateExpression (IfExpression e) = generateIfExpression e"
| "generateExpression (MatchExpression subject arms loc) =
     ''((__m) => { ''
       @ join '' ''
           (map generateMatchArm
             (map (map_prod id (map_prod (map_option generateExpression)
                    (map_prod generateExpression id))) arms))
       @ '' throw new Error('' @ [CHR 0x22] @ ''Match not exhaustive'' @ [CHR 0x22] @ ''); })(''
       @ generateExpression subject @ '')''"
| "generateExpression (BlockExpression b) = generateBlockExpression b"
| "generateExpression (LambdaExpression parameters returnType body loc) =
     ''('' @ join '', '' (map (\<lambda>p. name (fst p)) parameters) @ '') => '' @ generateExpression body"
| "generateExpression (ArrayExpression elements loc) =
     ''['' @ join '', '' (map generateExpression elements) @ '']''"
| "generateExpression (TupleExpression elements loc) =
     ''['' @ join '', '' (map generateExpression elements) @ '']''"
| "generateExpression (StructExpression type flds spread loc) =
     (case map_option generateExpression spread of
        Some sp \<Rightarrow>
          ''{ ...'' @ sp @ '', ''
            @ join '', ''
                (map (\<lambda>f. name (fst f) @ '': '' @ fst (snd f))
                  (map (map_prod id (map_prod generateExpression id)) flds))
            @ '' }''
      | None \<Rightarrow>
          ''new '' @ name type @ ''(''
            @ join '', ''
                (map (\<lambda>f. fst (snd f)) (map (map_prod id (map_prod generateExpression id)) flds))
            @ '')'')"
| "generateExpression (OldExpression expression loc) =
     ''__old_'' @ replaceDotsAndBrackets (exprToString expression)"
| "generateExpression (ForallExpression bindings condition loc) =
     generateQuantifier ''every'' ''/* forall */ true''
       (map (map_prod id (map_prod (map_option generateExpression) id)) bindings)
       (generateExpression condition)"
| "generateExpression (ExistsExpression bindings condition loc) =
     generateQuantifier ''some'' ''/* exists */ false''
       (map (map_prod id (map_prod (map_option generateExpression) id)) bindings)
       (generateExpression condition)"
| "generateExpression (TryExpression expression loc) =
     ''__intent.unwrap('' @ generateExpression expression @ '')''"
| "generateExpression (AssignmentExpression operator left right loc) =
     generateExpression left @ '' '' @ operator @ '' '' @ generateExpression right"
| "generateExpression (RangeExpression rstart rend isInclusive loc) =
     (case (map_option generateExpression rstart, map_option generateExpression rend) of
        (Some s, Some e) \<Rightarrow>
          (if isInclusive then
             ''Array.from({ length: '' @ e @ '' - '' @ s @ '' + 1 }, (_, i) => '' @ s @ '' + i)''
           else ''Array.from({ length: '' @ e @ '' - '' @ s @ '' }, (_, i) => '' @ s @ '' + i)'')
      | _ \<Rightarrow> ''[]'')"
| "generateExpression (CastExpression expression targetType loc) = ''/* unsupported expression */''"
| "generateBlockExpression (BlockExpressionNode expression loc) =
     (case map_option generateExpression expression of
        Some e \<Rightarrow> e
      | None \<Rightarrow> ''(() => {  })()'')"
| "generateIfExpression (IfExpressionNode condition thenBranch elseBranch loc) =
     (case map_option generateElseExpression elseBranch of
        Some els \<Rightarrow>
          ''('' @ generateExpression condition @ '' ? '' @ generateBlockExpression thenBranch
            @ '' : '' @ els @ '')''
      | None \<Rightarrow>
          ''('' @ generateExpression condition @ '' ? '' @ generateBlockExpression thenBranch
            @ '' : undefined)'')"
| "generateElseExpression (ElseBlockExpression b) = generateBlockExpression b"
| "generateElseExpression (ElseIfExpression e) = generateIfExpression e"


section \<open>The lowerer: collecting \<open>old\<close> expressions\<close>

text \<open>
  \<open>traverseExpression\<close> calls the visitor on the node and then on the children of the six
  kinds its switch lists; the other kinds have no case.  The visitor acts on a state.
\<close>

primrec traverseExpression :: "Expression \<Rightarrow> (Expression \<Rightarrow> 's \<Rightarrow> 's) \<Rightarrow> 's \<Rightarrow> 's"
where
  "traverseExpression (Identifier i) visitor = visitor (Identifier i)"
| "traverseExpression (Literal l) visitor = visitor (Literal l)"
| "traverseExpression (BinaryExpression operator left right loc) visitor =
     (\<lambda>s. traverseExpression right visitor
            (traverseExpression left visitor
              (visitor (BinaryExpression operator left right loc) s)))"
| "traverseExpression (UnaryExpression operator operand isPrefix loc) visitor =
     (\<lambda>s. traverseExpression operand visitor
            (visitor (UnaryExpression operator operand isPrefix loc) s))"
| "traverseExpression (CallExpression callee arguments genericArgs loc) visitor =
     (\<lambda>s. fold (\<lambda>t. t) (map (\<lambda>a. traverseExpression a visitor) arguments)
            (traverseExpression callee visitor
              (visitor (CallExpression callee arguments genericArgs loc) s)))"
| "traverseExpression (MemberExpression object property isOptional loc) visitor =
     (\<lambda>s. traverseExpression object visitor
            (visitor (MemberExpression object property isOptional loc) s))"
| "traverseExpression (IndexExpression object index loc) visitor =
     (\<lambda>s. traverseExpression index visitor
            (traverseExpression object visitor
              (visitor (IndexExpression object index loc) s)))"
| "traverseExpression (IfExpression e) visitor = visitor (IfExpression e)"
| "traverseExpression (MatchExpression subject arms loc) visitor =
     visitor (MatchExpression subject arms loc)"
| "traverseExpression (BlockExpression b) visitor = visitor (BlockExpression b)"
| "traverseExpression (LambdaExpression parameters returnType body loc) visitor =
     visitor (LambdaExpression parameters returnType body loc)"
| "traverseExpression (ArrayExpression elements loc) visitor = visitor (ArrayExpression elements loc)"
| "traverseExpression (TupleExpression elements loc) visitor = visitor (TupleExpression elements loc)"
| "traverseExpression (StructExpression type flds spread loc) visitor =
     visitor (StructExpression type flds spread loc)"
| "traverseExpression (OldExpression expression loc) visitor =
     (\<lambda>s. traverseExpression expression visitor (visitor (OldExpression expression loc) s))"
| "traverseExpression (ForallExpression bindings condition loc) visitor =
     visitor (ForallExpression bindings condition loc)"
| "traverseExpression (ExistsExpression bindings condition loc) visitor =
     visitor (ExistsExpression bindings condition loc)"
| "traverseExpression (TryExpression expression loc) visitor = visitor (TryExpression expression loc)"
| "traverseExpression (AssignmentExpression operator left right loc) visitor =
     visitor (AssignmentExpression operator left right loc)"
| "traverseExpression (RangeExpression rstart rend isInclusive loc) visitor =
     visitor (RangeExpression rstart rend isInclusive loc)"
| "traverseExpression (CastExpression expression targetType loc) visitor =
     visitor (CastExpression expression targetType loc)"

text \<open>\<open>Map.prototype.set\<close> on a map kept in insertion order.\<close>

fun mapSet :: "'k \<Rightarrow> 'v \<Rightarrow> ('k \<times> 'v) list \<Rightarrow> ('k \<times> 'v) list" where
  "mapSet k v [] = [(k, v)]"
| "mapSet k v ((k', v') # m) = (if k = k' then (k, v) # m else (k', v') # mapSet k v m)"

definition findOld :: "Expression \<Rightarrow> (string \<times> Expression) list \<Rightarrow> (string \<times> Expression) list" where
  "findOld expr oldExprs =
     (case expr of
        OldExpression expression loc \<Rightarrow>
          mapSet (''__old_'' @ replaceDotsAndBrackets (exprToString expression)) expression oldExprs
      | _ \<Rightarrow> oldExprs)"

definition getRequiresAnnotations :: "Annotation list \<Rightarrow> Expression list" where
  "getRequiresAnnotations annotations =
     concat (map (\<lambda>a. case a of RequiresAnnotation c l \<Rightarrow> [c] | _ \<Rightarrow> []) annotations)"

definition getEnsuresAnnotations :: "Annotation list \<Rightarrow> Expression list" where
  "getEnsuresAnnotations annotations =
     concat (map (\<lambda>a. case a of EnsuresAnnotation c l \<Rightarrow> [c] | _ \<Rightarrow> []) annotations)"

definition collectOldExpressions :: "Annotation list \<Rightarrow> (string \<times> Expression) list" where
  "collectOldExpressions annotations =
     fold (\<lambda>ann oldExprs.
             case ann of
               EnsuresAnnotation condition l \<Rightarrow> traverseExpression condition findOld oldExprs
             | _ \<Rightarrow> oldExprs)
       annotations []"


section \<open>The lowerer: statements and declarations\<close>

record GeneratorOptions =
  target :: string
  moduleSystem :: string
  runtimeContracts :: bool
  sourceMap :: bool
  minify :: bool

record GenState =
  outputLines :: "string list"
  indentLevel :: nat
  currentFunction :: "FunctionDeclarationNode option"

definition emit :: "string \<Rightarrow> GenState \<Rightarrow> GenState" where
  "emit ln g = g\<lparr> outputLines := outputLines g @ [concat (replicate (indentLevel g) ''  '') @ ln] \<rparr>"

definition indent :: "GenState \<Rightarrow> GenState" where
  "indent g = g\<lparr> indentLevel := indentLevel g + 1 \<rparr>"

definition dedent :: "GenState \<Rightarrow> GenState" where
  "dedent g = g\<lparr> indentLevel := indentLevel g - 1 \<rparr>"

text \<open>A sequence of statements of the generator, run from left to right.\<close>

definition seq :: "('s \<Rightarrow> 's) list \<Rightarrow> 's \<Rightarrow> 's" where
  "seq steps g = fold (\<lambda>step. step) steps g"

definition skip :: "'s \<Rightarrow> 's" where
  "skip g = g"

definition locString :: "SourceLocation \<Rightarrow> string" where
  "locString l = showInt (loc_line l) @ '':'' @ showInt (loc_column l)"

definition exportPrefix :: "bool \<Rightarrow> string" where
  "exportPrefix isExported = (if isExported then ''export '' else [])"

definition fd_name :: "FunctionDeclarationNode \<Rightarrow> IdentifierNode" where
  "fd_name d = (case d of FunctionDeclarationNode n gs ps rt anns body pure exported l \<Rightarrow> n)"

definition fd_parameters :: "FunctionDeclarationNode \<Rightarrow> Parameter list" where
  "fd_parameters d = (case d of FunctionDeclarationNode n gs ps rt anns body pure exported l \<Rightarrow> ps)"

definition fd_returnType :: "FunctionDeclarationNode \<Rightarrow> TypeExpression" where
  "fd_returnType d = (case d of FunctionDeclarationNode n gs ps rt anns body pure exported l \<Rightarrow> rt)"

definition fd_annotations :: "FunctionDeclarationNode \<Rightarrow> Annotation list" where
  "fd_annotations d = (case d of FunctionDeclarationNode n gs ps rt anns body pure exported l \<Rightarrow> anns)"

definition fd_isPure :: "FunctionDeclarationNode \<Rightarrow> bool" where
  "fd_isPure d = (case d of FunctionDeclarationNode n gs ps rt anns body pure exported l \<Rightarrow> pure)"

definition param_name :: "Parameter \<Rightarrow> string" where
  "param_name p = (case p of Parameter n t m d l \<Rightarrow> name n)"

definition hasIOEffect :: "Annotation list \<Rightarrow> bool" where
  "hasIOEffect annotations =
     list_ex (\<lambda>ann. case ann of
                EffectAnnotation effects l \<Rightarrow>
                  list_ex (\<lambda>eff. case eff of AST_NamedType n p l' \<Rightarrow> name n = ''IO'' | _ \<Rightarrow> False) effects
              | _ \<Rightarrow> False) annotations"

definition typeExprToName :: "TypeExpression \<Rightarrow> string" where
  "typeExprToName typeExpr =
     (case typeExpr of
        AST_NamedType n p l \<Rightarrow> name n
      | AST_GenericType base args l \<Rightarrow>
          (case base of AST_NamedType n p l' \<Rightarrow> name n | _ \<Rightarrow> ''Object'')
      | _ \<Rightarrow> ''Object'')"

definition generateReturnStatement ::
  "GeneratorOptions \<Rightarrow> Expression option \<Rightarrow> SourceLocation \<Rightarrow> GenState \<Rightarrow> GenState" where
  "generateReturnStatement opts val loc g =
     (let ensures =
            (case currentFunction g of
               Some f \<Rightarrow> if runtimeContracts opts then getEnsuresAnnotations (fd_annotations f) else []
             | None \<Rightarrow> [])
      in case val of
           Some v \<Rightarrow>
             if length ensures > 0 then
               seq ([emit (''const __result = '' @ generateExpression v @ '';'')]
                    @ map (\<lambda>condition.
                             emit (''__intent.ensures(''
                               @ replaceWords (\<lambda>w. if w = ''result'' then ''__result'' else w) []
                                   (generateExpression condition)
                               @ '', '' @ JSON_stringify (exprToString condition) @ '', '' @ [CHR 0x22]
                               @ locString loc @ [CHR 0x22] @ '');'')) ensures
                    @ [emit ''return __result;'']) g
             else emit (''return '' @ generateExpression v @ '';'') g
         | None \<Rightarrow> emit ''return;'' g)"

definition emitLoopInvariants :: "GeneratorOptions \<Rightarrow> Annotation list \<Rightarrow> GenState \<Rightarrow> GenState" where
  "emitLoopInvariants opts invariants g =
     (if runtimeContracts opts then
        seq (map (\<lambda>inv. case inv of
                     InvariantAnnotation condition l \<Rightarrow>
                       emit (''__intent.invariant('' @ generateExpression condition @ '', '' @ [CHR 0x22]
                         @ ''loop invariant'' @ [CHR 0x22] @ '', '' @ [CHR 0x22] @ locString l
                         @ [CHR 0x22] @ '');'')
                   | _ \<Rightarrow> skip) invariants) g
      else g)"

text \<open>\<open>if (bindings) this.emit(bindings)\<close>: not for \<open>null\<close> and not for the empty string.\<close>

definition emitBindings :: "string option \<Rightarrow> GenState \<Rightarrow> GenState" where
  "emitBindings bindings g =
     (case bindings of Some b \<Rightarrow> (if b = [] then g else emit b g) | None \<Rightarrow> g)"

definition isWildcardPattern :: "Pattern \<Rightarrow> bool" where
  "isWildcardPattern p = (case p of WildcardPattern l \<Rightarrow> True | _ \<Rightarrow> False)"

definition generateMatchStatementArm :: "bool \<Rightarrow> MatchArm \<Rightarrow> GenState \<Rightarrow> GenState" where
  "generateMatchStatementArm isLast arm g =
     (case arm of
        MatchArm pattern guard body l \<Rightarrow>
          (let patternCheck = generatePatternCheck pattern ''__match_subject'';
               bindings = generatePatternBindings pattern ''__match_subject''
           in if isLast \<and> isWildcardPattern pattern then
                seq [emitBindings bindings, emit (''return '' @ generateExpression body @ '';'')] g
              else
                seq [emit (''if (''
                       @ (case guard of
                            Some gd \<Rightarrow> patternCheck @ '' && ('' @ generateExpression gd @ '')''
                          | None \<Rightarrow> patternCheck)
                       @ '') {''),
                     indent, emitBindings bindings,
                     emit (''return '' @ generateExpression body @ '';''), dedent, emit ''}''] g))"

fun generateMatchStatementArms :: "MatchArm list \<Rightarrow> GenState \<Rightarrow> GenState" where
  "generateMatchStatementArms [] g = g"
| "generateMatchStatementArms (arm # arms) g =
     generateMatchStatementArms arms (generateMatchStatementArm (arms = []) arm g)"

definition generateMatchStatement :: "Expression \<Rightarrow> MatchArm list \<Rightarrow> GenState \<Rightarrow> GenState" where
  "generateMatchStatement subject arms g =
     seq [emit (''const __match_subject = '' @ generateExpression subject @ '';''),
          emit ''(() => {'', indent, generateMatchStatementArms arms,
          emit (''throw new Error('' @ [CHR 0x22] @ ''Match not exhaustive'' @ [CHR 0x22] @ '');''),
          dedent, emit ''})();''] g"

definition generateVariableDeclaration ::
  "IdentifierNode \<Rightarrow> Expression option \<Rightarrow> bool \<Rightarrow> bool \<Rightarrow> GenState \<Rightarrow> GenState" where
  "generateVariableDeclaration n initializer isMutable isExported g =
     (let keyword = (if isMutable then ''let'' else ''const'');
          prefix = exportPrefix isExported
      in case initializer of
           Some i \<Rightarrow> emit (prefix @ keyword @ '' '' @ name n @ '' = '' @ generateExpression i @ '';'') g
         | None \<Rightarrow> emit (prefix @ keyword @ '' '' @ name n @ '';'') g)"

definition sf_name :: "StructField \<Rightarrow> string" where
  "sf_name f = (case f of StructField n t d anns l \<Rightarrow> name n)"

definition generateStructDeclaration ::
  "GeneratorOptions \<Rightarrow> IdentifierNode \<Rightarrow> StructField list \<Rightarrow> Annotation list \<Rightarrow> bool \<Rightarrow>
   GenState \<Rightarrow> GenState" where
  "generateStructDeclaration opts n flds invariants isExported g =
     seq ([emit (exportPrefix isExported @ ''class '' @ name n @ '' {''), indent,
           emit (''constructor('' @ join '', '' (map sf_name flds) @ '') {''), indent]
          @ map (\<lambda>f. emit (''this.'' @ sf_name f @ '' = '' @ sf_name f @ '';'')) flds
          @ (if runtimeContracts opts \<and> length invariants > 0 then
               emit [] #
               map (\<lambda>inv. case inv of
                       InvariantAnnotation condition l \<Rightarrow>
                         emit (''__intent.invariant(''
                           @ replaceWords
                               (\<lambda>w. if list_ex (\<lambda>f. sf_name f = w) flds then ''this.'' @ w else w) []
                               (generateExpression condition)
                           @ '', '' @ [CHR 0x22] @ ''struct invariant'' @ [CHR 0x22] @ '', ''
                           @ [CHR 0x22] @ locString l @ [CHR 0x22] @ '');'')
                     | _ \<Rightarrow> skip) invariants
             else [])
          @ [dedent, emit ''}'', dedent, emit ''}'']) g"

definition generateEnumVariant ::
  "IdentifierNode \<times> TypeExpression list option \<times> SourceLocation \<Rightarrow> GenState \<Rightarrow> GenState" where
  "generateEnumVariant variant g =
     (case variant of
        (vname, vfields, l) \<Rightarrow>
          (case vfields of
             Some fs \<Rightarrow>
               if length fs > 0 then
                 (let params = join '', '' (map (\<lambda>i. ''_'' @ showNat i) [0..<length fs])
                  in seq [emit (name vname @ ''('' @ params @ '') {''), indent,
                          emit (''return { __variant: '' @ [CHR 0x22] @ name vname @ [CHR 0x22]
                            @ '', __fields: ['' @ params @ ''] };''),
                          dedent, emit ''},''] g)
               else emit (name vname @ '': { __variant: '' @ [CHR 0x22] @ name vname
                      @ [CHR 0x22] @ '' },'') g
           | None \<Rightarrow>
               emit (name vname @ '': { __variant: '' @ [CHR 0x22] @ name vname
                 @ [CHR 0x22] @ '' },'') g))"

definition generateEnumDeclaration ::
  "IdentifierNode \<Rightarrow> (IdentifierNode \<times> TypeExpression list option \<times> SourceLocation) list \<Rightarrow> bool \<Rightarrow>
   GenState \<Rightarrow> GenState" where
  "generateEnumDeclaration n variants isExported g =
     seq ([emit (exportPrefix isExported @ ''const '' @ name n @ '' = {''), indent]
          @ map generateEnumVariant variants
          @ [dedent, emit ''};'']) g"

definition generateEffectDeclaration ::
  "IdentifierNode \<Rightarrow> FunctionDeclarationNode list \<Rightarrow> bool \<Rightarrow> GenState \<Rightarrow> GenState" where
  "generateEffectDeclaration n methods isExported g =
     seq ([emit (exportPrefix isExported @ ''const '' @ name n @ '' = {''), indent]
          @ map (\<lambda>method.
                   (let params = join '', '' (map param_name (fd_parameters method)) in
                    if name n = ''IO'' \<and> name (fd_name method) = ''read'' then
                      emit (''async read() { return await require('' @ [CHR 0x27] @ ''readline''
                        @ [CHR 0x27] @ '').question('' @ [CHR 0x27, CHR 0x27] @ ''); },'')
                    else if name n = ''IO'' \<and> name (fd_name method) = ''write'' then
                      emit ''write(s) { console.log(s); },''
                    else emit (name (fd_name method) @ ''('' @ params @ '') { /* Effect handler */ },'')))
              methods
          @ [dedent, emit ''};'']) g"

text \<open>\<open>decl.path[decl.path.length - 1]\<close> in a template is \<open>undefined\<close> for the empty path.\<close>

definition lastOrUndefined :: "string list \<Rightarrow> string" where
  "lastOrUndefined p = (if p = [] then ''undefined'' else last p)"

definition generateImportDeclaration ::
  "GeneratorOptions \<Rightarrow> string list \<Rightarrow> (IdentifierNode \<times> IdentifierNode option \<times> SourceLocation) list \<Rightarrow>
   bool \<Rightarrow> GenState \<Rightarrow> GenState" where
  "generateImportDeclaration opts path imports isWildcard g =
     (let p = join ''/'' path in
      if moduleSystem opts = ''esm'' then
        (if isWildcard then
           emit (''import * as '' @ lastOrUndefined path @ '' from '' @ [CHR 0x27] @ ''./'' @ p
             @ ''.js'' @ [CHR 0x27] @ '';'') g
         else
           emit (''import { ''
             @ join '', ''
                 (map (\<lambda>(n, alias, l). case alias of Some a \<Rightarrow> name n @ '' as '' @ name a | None \<Rightarrow> name n)
                   imports)
             @ '' } from '' @ [CHR 0x27] @ ''./'' @ p @ ''.js'' @ [CHR 0x27] @ '';'') g)
      else
        (if isWildcard then
           emit (''const '' @ lastOrUndefined path @ '' = require('' @ [CHR 0x27] @ ''./'' @ p
             @ [CHR 0x27] @ '');'') g
         else
           emit (''const { ''
             @ join '', ''
                 (map (\<lambda>(n, alias, l). case alias of Some a \<Rightarrow> name n @ '': '' @ name a | None \<Rightarrow> name n)
                   imports)
             @ '' } = require('' @ [CHR 0x27] @ ''./'' @ p @ [CHR 0x27] @ '');'') g))"

text \<open>\<open>this.output[this.output.length - 1] += ' else'\<close>; on an empty array the assignment
  goes to the property \<open>-1\<close> and leaves the elements alone.\<close>

definition appendToLastLine :: "string \<Rightarrow> GenState \<Rightarrow> GenState" where
  "appendToLastLine s g =
     (if outputLines g = [] then g else g\<lparr> outputLines := butlast (outputLines g) @ [last (outputLines g) @ s] \<rparr>)"

primrec generateStatement :: "GeneratorOptions \<Rightarrow> Statement \<Rightarrow> GenState \<Rightarrow> GenState"
  and generateBlock :: "GeneratorOptions \<Rightarrow> BlockStatementNode \<Rightarrow> GenState \<Rightarrow> GenState"
  and generateIfStatement :: "GeneratorOptions \<Rightarrow> IfStatementNode \<Rightarrow> GenState \<Rightarrow> GenState"
  and generateElseStatement :: "GeneratorOptions \<Rightarrow> ElseStatement \<Rightarrow> GenState \<Rightarrow> GenState"
  and generateFunctionNode ::
    "GeneratorOptions \<Rightarrow> FunctionDeclarationNode \<Rightarrow> string option \<Rightarrow> GenState \<Rightarrow> GenState"
where
  "generateStatement opts (ExpressionStatement expression loc) =
     emit (generateExpression expression @ '';'')"
| "generateStatement opts (ReturnStatement val loc) = generateReturnStatement opts val loc"
| "generateStatement opts (IfStatement s) = generateIfStatement opts s"
| "generateStatement opts (WhileStatement condition body invariants loc) =
     seq [emit (''while ('' @ generateExpression condition @ '') {''), indent,
          emitLoopInvariants opts invariants, generateBlock opts body, dedent, emit ''}'']"
| "generateStatement opts (ForStatement variable iterable body invariants loc) =
     seq [emit (''for (const '' @ name variable @ '' of '' @ generateExpression iterable @ '') {''),
          indent, emitLoopInvariants opts invariants, generateBlock opts body, dedent, emit ''}'']"
| "generateStatement opts (MatchStatement subject arms loc) = generateMatchStatement subject arms"
| "generateStatement opts (BlockStatement b) =
     seq [emit ''{'', indent, generateBlock opts b, dedent, emit ''}'']"
| "generateStatement opts (FunctionDeclaration d) = generateFunctionNode opts d None"
| "generateStatement opts (VariableDeclaration n type initializer isMutable isExported loc) =
     generateVariableDeclaration n initializer isMutable isExported"
| "generateStatement opts (TypeAliasDeclaration n genericParams type isExported loc) = skip"
| "generateStatement opts (StructDeclaration n genericParams flds invariants isExported loc) =
     generateStructDeclaration opts n flds invariants isExported"
| "generateStatement opts (EnumDeclaration n genericParams variants isExported loc) =
     generateEnumDeclaration n variants isExported"
| "generateStatement opts (TraitDeclaration n genericParams supertraits methods isExported loc) =
     (if target opts = ''typescript'' then
        emit (exportPrefix isExported @ ''// interface '' @ name n)
      else skip)"
| "generateStatement opts (ImplDeclaration genericParams trait forType methods loc) =
     seq (map (\<lambda>method. generateFunctionNode opts method (Some (typeExprToName forType))) methods)"
| "generateStatement opts (ContractDeclaration n genericParams annotations isExported loc) = skip"
| "generateStatement opts (IntentDeclaration n genericParams annotations isExported loc) = skip"
| "generateStatement opts (EffectDeclaration n genericParams methods isExported loc) =
     generateEffectDeclaration n methods isExported"
| "generateStatement opts (CapabilityDeclaration n flds isExported loc) = skip"
| "generateStatement opts (ImportDeclaration path imports isWildcard loc) =
     generateImportDeclaration opts path imports isWildcard"
| "generateStatement opts (ExportDeclaration declaration loc) = generateStatement opts declaration"
| "generateBlock opts (BlockStatementNode statements loc) =
     seq (map (generateStatement opts) statements)"
| "generateIfStatement opts (IfStatementNode condition thenBranch elseBranch loc) =
     seq [emit (''if ('' @ generateExpression condition @ '') {''), indent,
          generateBlock opts thenBranch, dedent,
          (case map_option (generateElseStatement opts) elseBranch of
             Some els \<Rightarrow> els
           | None \<Rightarrow> emit ''}'')]"
| "generateElseStatement opts (ElseIf s) = seq [appendToLastLine '' else'', generateIfStatement opts s]"
| "generateElseStatement opts (ElseBlock b) =
     seq [emit ''} else {'', indent, generateBlock opts b, dedent, emit ''}'']"
| "generateFunctionNode opts (FunctionDeclarationNode n genericParams parameters returnType
       annotations body isPure isExported loc) implFor =
     (case implFor of
        None \<Rightarrow>
          seq ([(\<lambda>g. g\<lparr> currentFunction :=
                         Some (FunctionDeclarationNode n genericParams parameters returnType
                                 annotations body isPure isExported loc) \<rparr>),
                emit (exportPrefix isExported
                  @ (if hasIOEffect annotations then ''async '' else [])
                  @ ''function '' @ name n @ ''('' @ join '', '' (map param_name parameters)
                  @ '') {''),
                indent]
               @ (if runtimeContracts opts then
                    map (\<lambda>condition.
                           emit (''__intent.requires('' @ generateExpression condition @ '', ''
                             @ JSON_stringify (exprToString condition) @ '', '' @ [CHR 0x22]
                             @ locString loc @ [CHR 0x22] @ '');''))
                      (getRequiresAnnotations annotations)
                    @ map (\<lambda>(oname, expr).
                             emit (''const '' @ oname @ '' = __intent.clone(''
                               @ generateExpression expr @ '');''))
                        (collectOldExpressions annotations)
                  else [])
               @ [case map_option (generateBlock opts) body of Some b \<Rightarrow> b | None \<Rightarrow> skip,
                  dedent, emit ''}'', (\<lambda>g. g\<lparr> currentFunction := None \<rparr>)])
      | Some typeName \<Rightarrow>
          seq [emit (typeName @ ''.prototype.'' @ name n @ '' = function(''
                 @ join '', '' (map param_name parameters) @ '') {''),
               indent,
               (case map_option (generateBlock opts) body of Some b \<Rightarrow> b | None \<Rightarrow> skip),
               dedent, emit ''};''])"


text \<open>The runtime prelude, line by line as \<open>emitRuntimeHelpers\<close> emits it.\<close>

definition emitRuntimeHelpers :: "GenState \<Rightarrow> GenState" where
  \<open>emitRuntimeHelpers =
     seq [emit ''// Intent Runtime Helpers'',
          emit ''const __intent = {'',
          indent,
          emit ''assert(condition, message, location) {'',
          indent,
          emit ''if (!condition) {'',
          indent,
          emit ''throw new Error(`Contract violation at ${location}: ${message}`);'',
          dedent,
          emit ''}'',
          dedent,
          emit ''},'',
          emit ''requires(condition, message, location) {'',
          indent,
          emit ''if (!condition) {'',
          indent,
          emit ''throw new Error(`Precondition failed at ${location}: ${message}`);'',
          dedent,
          emit ''}'',
          dedent,
          emit ''},'',
          emit ''ensures(condition, message, location) {'',
          indent,
          emit ''if (!condition) {'',
          indent,
          emit ''throw new Error(`Postcondition failed at ${location}: ${message}`);'',
          dedent,
          emit ''}'',
          dedent,
          emit ''},'',
          emit ''invariant(condition, message, location) {'',
          indent,
          emit ''if (!condition) {'',
          indent,
          emit ''throw new Error(`Invariant violated at ${location}: ${message}`);'',
          dedent,
          emit ''}'',
          dedent,
          emit ''},'',
          emit ''clone(obj) {'',
          indent,
          emit ''if (obj === null || typeof obj !== "object") return obj;'',
          emit ''if (Array.isArray(obj)) return obj.map(x => __intent.clone(x));'',
          emit ''const result = {};'',
          emit ''for (const key of Object.keys(obj)) {'',
          indent,
          emit ''result[key] = __intent.clone(obj[key]);'',
          dedent,
          emit ''}'',
          emit ''return result;'',
          dedent,
          emit ''},'',
          emit ''Ok(value) { return { ok: true, value }; },'',
          emit ''Err(error) { return { ok: false, error }; },'',
          emit ''isOk(result) { return result.ok === true; },'',
          emit ''isErr(result) { return result.ok === false; },'',
          emit ''unwrap(result) {'',
          indent,
          emit ''if (result.ok) return result.value;'',
          emit ''throw new Error(`Unwrap called on Err: ${result.error}`);'',
          dedent,
          emit ''},'',
          emit ''Some(value) { return { some: true, value }; },'',
          emit ''None() { return { some: false }; },'',
          emit ''isSome(opt) { return opt.some === true; },'',
          emit ''isNone(opt) { return opt.some === false; },'',
          dedent,
          emit ''};'',
          emit []]\<close>

datatype (plugins only: code size) Program = Program (statements: "Statement list") (program_location: SourceLocation)

text \<open>
  \<open>generate\<close> on a fresh generator: the lines of the output array, which the method joins with
  newlines.  The generator keeps the analysis result without ever reading it.
\<close>

definition generateLines :: "GeneratorOptions \<Rightarrow> Program \<Rightarrow> string list" where
  "generateLines opts program =
     outputLines
       (seq ((if runtimeContracts opts then [emitRuntimeHelpers] else [])
             @ concat (map (\<lambda>stmt. [generateStatement opts stmt, emit []]) (statements program)))
          \<lparr> outputLines = [], indentLevel = 0, currentFunction = None \<rparr>)"

definition generate :: "GeneratorOptions \<Rightarrow> Program \<Rightarrow> string" where
  "generate opts program = join [CHR 0x0A] (generateLines opts program)"

definition generateJavaScript :: "Program \<Rightarrow> 'a \<Rightarrow> GeneratorOptions \<Rightarrow> string" where
  "generateJavaScript program analysisResult opts = generate opts program"

section \<open>The symbol table (analyzer/symbols.ts)\<close>

text \<open>
  A scope holds four maps; the chain of parent pointers is the list of scopes from the
  current one outwards, the global scope last.
\<close>

record Symbol =
  sym_name :: string
  sym_type :: Type
  sym_isMutable :: bool
  sym_isExported :: bool
  sym_kind :: string
  sym_location :: SourceLocation
  sym_module :: string

record ContractSymbol =
  cs_name :: string
  cs_genericParams :: "Type list"
  cs_requires :: "string list"
  cs_ensures :: "string list"
  cs_invariants :: "string list"
  cs_module :: string

record IntentSymbol =
  is_name :: string
  is_genericParams :: "Type list"
  is_ensures :: "string list"
  is_module :: string

record Scope =
  scope_symbols :: "(string \<times> Symbol) list"
  scope_types :: "(string \<times> Type) list"
  scope_contracts :: "(string \<times> ContractSymbol) list"
  scope_intents :: "(string \<times> IntentSymbol) list"
  scope_name :: string
  scope_kind :: string

record SymbolTable =
  scopes :: "Scope list"
  activeEffects :: "string list"
  requiredCapabilities :: "(string \<times> (string \<times> bool) list) list"

record SemanticError =
  se_message :: string
  se_location :: SourceLocation
  se_severity :: string

record AnalysisResult =
  ar_errors :: "SemanticError list"
  ar_warnings :: "SemanticError list"
  ar_symbolTable :: SymbolTable
  ar_typeMap :: "(Expression \<times> Type) list"

section \<open>The symbol table: operations\<close>

text \<open>
  The scopes of a table form a stack: the first scope of \<open>scopes\<close> is the current one, each
  scope's parent is the next, and the last is the global scope, which \<open>exitScope\<close> never
  leaves.  A table always has its global scope; on the empty list, which no operation produces,
  the operations that need a current scope leave the table as it is.  The map \<open>modules\<close> of
  the class is written only when a scope of kind \<open>module\<close> is entered and is never read by the
  analyzer; it is not part of the record.
\<close>

definition Scope_new :: "string \<Rightarrow> string \<Rightarrow> Scope" where
  "Scope_new nm kind =
     \<lparr> scope_symbols = [], scope_types = [], scope_contracts = [], scope_intents = [],
       scope_name = nm, scope_kind = kind \<rparr>"

definition mapHas :: "'k \<Rightarrow> ('k \<times> 'v) list \<Rightarrow> bool" where
  "mapHas k m = (map_of m k \<noteq> None)"

definition Scope_define :: "Symbol \<Rightarrow> Scope \<Rightarrow> Scope" where
  "Scope_define symbol s =
     (if mapHas (sym_name symbol) (scope_symbols s) then s
      else s\<lparr> scope_symbols := mapSet (sym_name symbol) symbol (scope_symbols s) \<rparr>)"

definition Scope_defineType :: "string \<Rightarrow> Type \<Rightarrow> Scope \<Rightarrow> Scope" where
  "Scope_defineType nm type s =
     (if mapHas nm (scope_types s) then s
      else s\<lparr> scope_types := mapSet nm type (scope_types s) \<rparr>)"

definition Scope_defineContract :: "ContractSymbol \<Rightarrow> Scope \<Rightarrow> Scope" where
  "Scope_defineContract contract s =
     (if mapHas (cs_name contract) (scope_contracts s) then s
      else s\<lparr> scope_contracts := mapSet (cs_name contract) contract (scope_contracts s) \<rparr>)"

definition Scope_defineIntent :: "IntentSymbol \<Rightarrow> Scope \<Rightarrow> Scope" where
  "Scope_defineIntent intent s =
     (if mapHas (is_name intent) (scope_intents s) then s
      else s\<lparr> scope_intents := mapSet (is_name intent) intent (scope_intents s) \<rparr>)"

text \<open>The four lookups walk from a scope through its parents.\<close>

primrec Scope_lookup :: "Scope list \<Rightarrow> string \<Rightarrow> Symbol option" where
  "Scope_lookup [] nm = None"
| "Scope_lookup (s # parents) nm =
     (case map_of (scope_symbols s) nm of
        Some symbol \<Rightarrow> Some symbol
      | None \<Rightarrow> Scope_lookup parents nm)"

primrec Scope_lookupType :: "Scope list \<Rightarrow> string \<Rightarrow> Type option" where
  "Scope_lookupType [] nm = None"
| "Scope_lookupType (s # parents) nm =
     (case map_of (scope_types s) nm of
        Some type \<Rightarrow> Some type
      | None \<Rightarrow> Scope_lookupType parents nm)"

primrec Scope_lookupContract :: "Scope list \<Rightarrow> string \<Rightarrow> ContractSymbol option" where
  "Scope_lookupContract [] nm = None"
| "Scope_lookupContract (s # parents) nm =
     (case map_of (scope_contracts s) nm of
        Some contract \<Rightarrow> Some contract
      | None \<Rightarrow> Scope_lookupContract parents nm)"

primrec Scope_lookupIntent :: "Scope list \<Rightarrow> string \<Rightarrow> IntentSymbol option" where
  "Scope_lookupIntent [] nm = None"
| "Scope_lookupIntent (s # parents) nm =
     (case map_of (scope_intents s) nm of
        Some intent \<Rightarrow> Some intent
      | None \<Rightarrow> Scope_lookupIntent parents nm)"

definition SymbolTable_new :: SymbolTable where
  "SymbolTable_new =
     \<lparr> scopes = [Scope_new ''global'' ''global''], activeEffects = [], requiredCapabilities = [] \<rparr>"

definition enterScope :: "string \<Rightarrow> string \<Rightarrow> SymbolTable \<Rightarrow> SymbolTable" where
  "enterScope nm kind t = t\<lparr> scopes := Scope_new nm kind # scopes t \<rparr>"

definition exitScope :: "SymbolTable \<Rightarrow> SymbolTable" where
  "exitScope t =
     (case scopes t of
        s # parent # rest \<Rightarrow> t\<lparr> scopes := parent # rest \<rparr>
      | _ \<Rightarrow> t)"

definition onCurrentScope :: "(Scope \<Rightarrow> Scope) \<Rightarrow> SymbolTable \<Rightarrow> SymbolTable" where
  "onCurrentScope f t =
     (case scopes t of
        s # parents \<Rightarrow> t\<lparr> scopes := f s # parents \<rparr>
      | [] \<Rightarrow> t)"

text \<open>
  \<open>define\<close>, with the three optional fields of its \<open>options\<close> argument as options
  (\<open>None\<close> for a field that is not given).
\<close>

definition SymbolTable_define ::
  "string \<Rightarrow> Type \<Rightarrow> string \<Rightarrow> SourceLocation \<Rightarrow> bool option \<Rightarrow> bool option \<Rightarrow> string option \<Rightarrow>
   SymbolTable \<Rightarrow> SymbolTable" where
  "SymbolTable_define nm type kind location isMutable isExported modul t =
     onCurrentScope
       (\<lambda>s. Scope_define
              \<lparr> sym_name = nm, sym_type = type,
                sym_isMutable = (case isMutable of Some b \<Rightarrow> b | None \<Rightarrow> False),
                sym_isExported = (case isExported of Some b \<Rightarrow> b | None \<Rightarrow> False),
                sym_kind = kind, sym_location = location,
                sym_module = (case modul of Some m \<Rightarrow> m | None \<Rightarrow> scope_name s) \<rparr> s) t"

definition SymbolTable_defineType :: "string \<Rightarrow> Type \<Rightarrow> SymbolTable \<Rightarrow> SymbolTable" where
  "SymbolTable_defineType nm type t = onCurrentScope (Scope_defineType nm type) t"

definition SymbolTable_defineContract :: "ContractSymbol \<Rightarrow> SymbolTable \<Rightarrow> SymbolTable" where
  "SymbolTable_defineContract contract t = onCurrentScope (Scope_defineContract contract) t"

definition SymbolTable_defineIntent :: "IntentSymbol \<Rightarrow> SymbolTable \<Rightarrow> SymbolTable" where
  "SymbolTable_defineIntent intent t = onCurrentScope (Scope_defineIntent intent) t"

definition SymbolTable_lookup :: "SymbolTable \<Rightarrow> string \<Rightarrow> Symbol option" where
  "SymbolTable_lookup t nm = Scope_lookup (scopes t) nm"

definition SymbolTable_lookupType :: "SymbolTable \<Rightarrow> string \<Rightarrow> Type option" where
  "SymbolTable_lookupType t nm = Scope_lookupType (scopes t) nm"

definition SymbolTable_lookupContract :: "SymbolTable \<Rightarrow> string \<Rightarrow> ContractSymbol option" where
  "SymbolTable_lookupContract t nm = Scope_lookupContract (scopes t) nm"

definition SymbolTable_lookupIntent :: "SymbolTable \<Rightarrow> string \<Rightarrow> IntentSymbol option" where
  "SymbolTable_lookupIntent t nm = Scope_lookupIntent (scopes t) nm"

text \<open>A \<open>Set<string>\<close> is the list of its members in insertion order.\<close>

definition setAdd :: "'a \<Rightarrow> 'a list \<Rightarrow> 'a list" where
  "setAdd x xs = (if x \<in> set xs then xs else xs @ [x])"

definition getActiveEffects :: "SymbolTable \<Rightarrow> string list" where
  "getActiveEffects t = activeEffects t"

definition clearEffects :: "SymbolTable \<Rightarrow> SymbolTable" where
  "clearEffects t = t\<lparr> activeEffects := [] \<rparr>"

definition setEffects :: "string list \<Rightarrow> SymbolTable \<Rightarrow> SymbolTable" where
  "setEffects effects t = t\<lparr> activeEffects := fold setAdd effects [] \<rparr>"


section \<open>Types as text (analyzer/types.ts)\<close>

definition primName :: "PrimName \<Rightarrow> string" where
  "primName p =
     (case p of
        PInt \<Rightarrow> ''Int'' | PInt8 \<Rightarrow> ''Int8'' | PInt16 \<Rightarrow> ''Int16'' | PInt32 \<Rightarrow> ''Int32''
      | PInt64 \<Rightarrow> ''Int64'' | PUInt \<Rightarrow> ''UInt'' | PFloat32 \<Rightarrow> ''Float32''
      | PFloat64 \<Rightarrow> ''Float64'' | PBool \<Rightarrow> ''Bool'' | PChar \<Rightarrow> ''Char'' | PString \<Rightarrow> ''String'')"

definition PRIMITIVES :: "(string \<times> Type) list" where
  "PRIMITIVES =
     map (\<lambda>p. (primName p, PrimitiveType p))
       [PInt, PInt8, PInt16, PInt32, PInt64, PUInt, PFloat32, PFloat64, PBool, PChar, PString]"

text \<open>
  The property \<open>name\<close> of a type: seven kinds have one; on the others the property access
  gives \<open>undefined\<close> (\<open>None\<close>).
\<close>

definition Type_name :: "Type \<Rightarrow> string option" where
  "Type_name t =
     (case t of
        PrimitiveType p \<Rightarrow> Some (primName p)
      | StructType nm fs gs invs m \<Rightarrow> Some nm
      | EnumType nm vs gs m \<Rightarrow> Some nm
      | TraitType nm ms sups gs m \<Rightarrow> Some nm
      | TypeVariable nm bs i \<Rightarrow> Some nm
      | EffectType nm ms gs m \<Rightarrow> Some nm
      | CapabilityType nm ps m \<Rightarrow> Some nm
      | _ \<Rightarrow> None)"

text \<open>An \<open>undefined\<close> in a template literal prints as \<open>undefined\<close>; \<open>Array.join\<close> prints it as nothing.\<close>

definition templateString :: "string option \<Rightarrow> string" where
  "templateString s = (case s of Some x \<Rightarrow> x | None \<Rightarrow> ''undefined'')"

definition joinString :: "string option \<Rightarrow> string" where
  "joinString s = (case s of Some x \<Rightarrow> x | None \<Rightarrow> [])"

primrec typeToString :: "Type \<Rightarrow> string" where
  "typeToString (PrimitiveType p) = primName p"
| "typeToString (StructType nm fs gs invs m) = nm"
| "typeToString (EnumType nm vs gs m) = nm"
| "typeToString (TraitType nm ms sups gs m) = nm"
| "typeToString (ArrayType elementType sz) =
     (case sz of
        Some n \<Rightarrow> ''['' @ typeToString elementType @ ''; '' @ showInt n @ '']''
      | None \<Rightarrow> ''['' @ typeToString elementType @ '']'')"
| "typeToString (TupleType elements) = ''('' @ join '', '' (map typeToString elements) @ '')''"
| "typeToString (FunctionType params returnType effects caps contracts pure) =
     ''fn('' @ join '', '' (map (\<lambda>p. fst (snd p)) (map (map_prod id (map_prod typeToString id)) params))
       @ '') -> '' @ typeToString returnType
       @ (if length effects > 0
          then '' @effect['' @ join '', '' (map (\<lambda>e. joinString (Type_name e)) effects) @ '']''
          else [])"
| "typeToString (GenericType base args) =
     typeToString base @ ''<'' @ join '', '' (map typeToString args) @ ''>''"
| "typeToString (TypeVariable nm bs i) = nm"
| "typeToString (ReferenceType inner isMutable) =
     (if isMutable then ''&mut '' @ typeToString inner else ''&'' @ typeToString inner)"
| "typeToString (OptionalType inner) = typeToString inner @ ''?''"
| "typeToString (ResultType okType errType) =
     ''Result<'' @ typeToString okType @ '', '' @ typeToString errType @ ''>''"
| "typeToString NeverType = ''Never''"
| "typeToString VoidType = ''Void''"
| "typeToString UnknownType = ''unknown''"
| "typeToString (ErrorType msg) = ''<error: '' @ msg @ ''>''"
| "typeToString (EffectType nm ms gs m) = ''effect '' @ nm"
| "typeToString (CapabilityType nm ps m) = ''capability '' @ nm"

section \<open>The checker (analyzer/analyzer.ts)\<close>

text \<open>
  The state of a \<open>SemanticAnalyzer\<close>: its seven fields, and the counter \<open>typeVarCounter\<close> of
  \<^verbatim>\<open>types.ts\<close> that numbers the type variables.  A method that returns a type is a function
  from the state to the type and the new state.  \<open>typeMap\<close> is keyed by the identity of a node;
  it is kept as the list of the calls of \<open>typeMap.set\<close>, in order.

  The last field is no field of the class: \<open>sa_notAType\<close> records that the run has read, in
  the place of a type, a value that is no type (see \<open>NotAType\<close>).  From there on the state is
  not that of the program, and \<open>analyze\<close> gives no result for such a run.
\<close>

record SemanticAnalyzer =
  sa_errors :: "SemanticError list"
  sa_warnings :: "SemanticError list"
  sa_symbolTable :: SymbolTable
  sa_typeMap :: "(Expression \<times> Type) list"
  sa_currentModule :: string
  sa_currentFunction :: "FunctionDeclarationNode option"
  sa_inContractContext :: bool
  typeVarCounter :: nat
  sa_notAType :: bool

type_synonym 'a Analysis = "SemanticAnalyzer \<Rightarrow> 'a \<times> SemanticAnalyzer"

definition sa_error :: "SourceLocation \<Rightarrow> string \<Rightarrow> SemanticAnalyzer \<Rightarrow> SemanticAnalyzer" where
  "sa_error location message st =
     st\<lparr> sa_errors := sa_errors st @
            [\<lparr> se_message = message, se_location = location, se_severity = ''error'' \<rparr>] \<rparr>"

definition sa_warning :: "SourceLocation \<Rightarrow> string \<Rightarrow> SemanticAnalyzer \<Rightarrow> SemanticAnalyzer" where
  "sa_warning location message st =
     st\<lparr> sa_warnings := sa_warnings st @
            [\<lparr> se_message = message, se_location = location, se_severity = ''warning'' \<rparr>] \<rparr>"

definition notAType :: "SemanticAnalyzer \<Rightarrow> SemanticAnalyzer" where
  "notAType st = st\<lparr> sa_notAType := True \<rparr>"

definition onSymbolTable :: "(SymbolTable \<Rightarrow> SymbolTable) \<Rightarrow> SemanticAnalyzer \<Rightarrow> SemanticAnalyzer" where
  "onSymbolTable f st = st\<lparr> sa_symbolTable := f (sa_symbolTable st) \<rparr>"

text \<open>The calls of a list, from left to right, with the list of their results.\<close>

fun inOrder :: "'a Analysis list \<Rightarrow> 'a list Analysis" where
  "inOrder [] st = ([], st)"
| "inOrder (f # fs) st =
     (let (x, st1) = f st; (xs, st2) = inOrder fs st1 in (x # xs, st2))"

definition isEffectKind :: "Type \<Rightarrow> bool" where
  "isEffectKind t = (case t of EffectType nm ms gs m \<Rightarrow> True | _ \<Rightarrow> False)"

definition isCapabilityKind :: "Type \<Rightarrow> bool" where
  "isCapabilityKind t = (case t of CapabilityType nm ps m \<Rightarrow> True | _ \<Rightarrow> False)"

text \<open>
  \<open>PRIMITIVES[typeExpr.name] || VOID_TYPE\<close>: \<open>PRIMITIVES\<close> is an object literal, so for a name
  that it inherits from \<open>Object.prototype\<close> the lookup gives that property, which is no type.
  The type of the field \<open>name\<close> admits the eleven names and \<open>Void\<close> only, and the parser
  builds no other.
\<close>

primrec resolveType :: "TypeExpression \<Rightarrow> Type Analysis" where
  "resolveType (AST_PrimitiveType nm l) =
     (\<lambda>st. case map_of PRIMITIVES nm of
              Some t \<Rightarrow> (t, st)
            | None \<Rightarrow>
                if nm \<in> set objectPrototypeNames then (UnknownType, notAType st)
                else (VoidType, st))"
| "resolveType (AST_NamedType n path l) =
     (\<lambda>st. case SymbolTable_lookupType (sa_symbolTable st) (name n) of
              None \<Rightarrow> (UnknownType, sa_error l (''Unknown type: '' @ name n) st)
            | Some type \<Rightarrow> (type, st))"
| "resolveType (AST_GenericType base args l) =
     (\<lambda>st. let (baseType, st1) = resolveType base st;
               (argTypes, st2) = inOrder (map resolveType args) st1
           in (GenericType baseType argTypes, st2))"
| "resolveType (AST_ArrayType elementType sz l) =
     (\<lambda>st. let (t, st1) = resolveType elementType st in (ArrayType t sz, st1))"
| "resolveType (AST_TupleType elements l) =
     (\<lambda>st. let (ts, st1) = inOrder (map resolveType elements) st in (TupleType ts, st1))"
| "resolveType (AST_FunctionType params returnType effects l) =
     (\<lambda>st. let (effTypes, st1) = inOrder (map resolveType effects) st;
               effs = filter isEffectKind effTypes;
               (paramTypes, st2) = inOrder (map resolveType params) st1;
               (ret, st3) = resolveType returnType st2
           in (FunctionType
                 (map (\<lambda>(i, t). (''_'' @ showNat i, t, False)) (enumerate 0 paramTypes))
                 ret effs [] [] (length effs = 0), st3))"
| "resolveType (AST_ReferenceType inner isMutable l) =
     (\<lambda>st. let (t, st1) = resolveType inner st in (ReferenceType t isMutable, st1))"
| "resolveType (AST_OptionalType inner l) =
     (\<lambda>st. let (t, st1) = resolveType inner st in (OptionalType t, st1))"
| "resolveType (AST_ResultType okType errType l) =
     (\<lambda>st. let (ok, st1) = resolveType okType st; (err, st2) = resolveType errType st1
           in (ResultType ok err, st2))"
| "resolveType (AST_NeverType l) = (\<lambda>st. (NeverType, st))"

definition createTypeVariable :: "string \<Rightarrow> Type list \<Rightarrow> Type Analysis" where
  "createTypeVariable nm bounds st =
     (TypeVariable nm bounds (typeVarCounter st), st\<lparr> typeVarCounter := typeVarCounter st + 1 \<rparr>)"

text \<open>\<open>createTypeVariable(p.name.name, p.bounds.map(b => this.resolveType(b)))\<close>\<close>

definition typeVariableOf :: "GenericParameter \<Rightarrow> Type Analysis" where
  "typeVariableOf p st =
     (case p of
        GenericParameter n bounds dflt l \<Rightarrow>
          (let (bs, st1) = inOrder (map resolveType bounds) st in createTypeVariable (name n) bs st1))"

definition fd_genericParams :: "FunctionDeclarationNode \<Rightarrow> GenericParameter list" where
  "fd_genericParams d = (case d of FunctionDeclarationNode n gs ps rt anns body pure exported l \<Rightarrow> gs)"

definition fd_isExported :: "FunctionDeclarationNode \<Rightarrow> bool" where
  "fd_isExported d = (case d of FunctionDeclarationNode n gs ps rt anns body pure exported l \<Rightarrow> exported)"

definition fd_location :: "FunctionDeclarationNode \<Rightarrow> SourceLocation" where
  "fd_location d = (case d of FunctionDeclarationNode n gs ps rt anns body pure exported l \<Rightarrow> l)"

definition param_type :: "Parameter \<Rightarrow> TypeExpression" where
  "param_type p = (case p of Parameter n t m d l \<Rightarrow> t)"

definition param_isMutable :: "Parameter \<Rightarrow> bool" where
  "param_isMutable p = (case p of Parameter n t m d l \<Rightarrow> m)"

definition param_location :: "Parameter \<Rightarrow> SourceLocation" where
  "param_location p = (case p of Parameter n t m d l \<Rightarrow> l)"

text \<open>
  \<open>createFunctionType\<close>: the types of the parameters, then the annotations in order (an effect
  is kept when it resolves to an effect type, a capability when the name is one), then the
  return type.  The flag \<open>isPure\<close> is copied from the declaration.
\<close>

definition collectAnnotation ::
  "Annotation \<Rightarrow> (Type list \<times> Type list \<times> (string \<times> Type list) list) \<times> SemanticAnalyzer \<Rightarrow>
   (Type list \<times> Type list \<times> (string \<times> Type list) list) \<times> SemanticAnalyzer" where
  "collectAnnotation ann acc =
     (case acc of
        ((effects, capabilities, contracts), st) \<Rightarrow>
          (case ann of
             EffectAnnotation effs l \<Rightarrow>
               (let (effTypes, st1) = inOrder (map resolveType effs) st
                in ((effects @ filter isEffectKind effTypes, capabilities, contracts), st1))
           | CapabilityAnnotation capability perms l \<Rightarrow>
               (case SymbolTable_lookupType (sa_symbolTable st) (name capability) of
                  Some capType \<Rightarrow>
                    if isCapabilityKind capType
                    then ((effects, capabilities @ [capType], contracts), st)
                    else acc
                | None \<Rightarrow> acc)
           | ContractAnnotation contract genericArgs l \<Rightarrow>
               (let (args, st1) = inOrder (map resolveType genericArgs) st
                in ((effects, capabilities, contracts @ [(name contract, args)]), st1))
           | _ \<Rightarrow> acc))"

definition createFunctionType :: "FunctionDeclarationNode \<Rightarrow> Type Analysis" where
  "createFunctionType decl st =
     (let (paramTypes, st1) = inOrder (map (\<lambda>p. resolveType (param_type p)) (fd_parameters decl)) st;
          params = map (\<lambda>(p, t). (param_name p, t, param_isMutable p)) (zip (fd_parameters decl) paramTypes);
          ((effects, capabilities, contracts), st2) =
             fold collectAnnotation (fd_annotations decl) (([], [], []), st1);
          (returnType, st3) = resolveType (fd_returnType decl) st2
      in (FunctionType params returnType effects capabilities contracts (fd_isPure decl), st3))"

primrec expressionToString :: "Expression \<Rightarrow> string" where
  "expressionToString (Identifier n) = name n"
| "expressionToString (Literal l) = String_of (lit_value l)"
| "expressionToString (BinaryExpression op left right loc) =
     ''('' @ expressionToString left @ '' '' @ op @ '' '' @ expressionToString right @ '')''"
| "expressionToString (UnaryExpression op operand isPrefix loc) = op @ expressionToString operand"
| "expressionToString (CallExpression callee args typeArgs loc) =
     expressionToString callee @ ''('' @ join '', '' (map expressionToString args) @ '')''"
| "expressionToString (MemberExpression object property computed loc) =
     expressionToString object @ ''.'' @ name property"
| "expressionToString (IndexExpression object index loc) = ''<expr>''"
| "expressionToString (IfExpression n) = ''<expr>''"
| "expressionToString (MatchExpression subject arms loc) = ''<expr>''"
| "expressionToString (BlockExpression n) = ''<expr>''"
| "expressionToString (LambdaExpression params returnType body loc) = ''<expr>''"
| "expressionToString (ArrayExpression elements loc) = ''<expr>''"
| "expressionToString (TupleExpression elements loc) = ''<expr>''"
| "expressionToString (StructExpression type flds spread loc) = ''<expr>''"
| "expressionToString (RangeExpression lo hi inclusive loc) = ''<expr>''"
| "expressionToString (CastExpression expression type loc) = ''<expr>''"
| "expressionToString (OldExpression expression loc) = ''<expr>''"
| "expressionToString (ForallExpression bindings condition loc) = ''<expr>''"
| "expressionToString (ExistsExpression bindings condition loc) = ''<expr>''"
| "expressionToString (TryExpression expression loc) = ''<expr>''"
| "expressionToString (AssignmentExpression op left right loc) = ''<expr>''"

subsection \<open>Expressions\<close>

definition location :: "Expression \<Rightarrow> SourceLocation" where
  "location e =
     (case e of
        Identifier n \<Rightarrow> ident_location n
      | Literal l \<Rightarrow> lit_location l
      | BinaryExpression op left right loc \<Rightarrow> loc
      | UnaryExpression op operand isPrefix loc \<Rightarrow> loc
      | CallExpression callee args typeArgs loc \<Rightarrow> loc
      | MemberExpression object property computed loc \<Rightarrow> loc
      | IndexExpression object index loc \<Rightarrow> loc
      | IfExpression n \<Rightarrow> (case n of IfExpressionNode c t el loc \<Rightarrow> loc)
      | MatchExpression subject arms loc \<Rightarrow> loc
      | BlockExpression n \<Rightarrow> (case n of BlockExpressionNode ex loc \<Rightarrow> loc)
      | LambdaExpression params returnType body loc \<Rightarrow> loc
      | ArrayExpression elements loc \<Rightarrow> loc
      | TupleExpression elements loc \<Rightarrow> loc
      | StructExpression type flds spread loc \<Rightarrow> loc
      | RangeExpression lo hi inclusive loc \<Rightarrow> loc
      | CastExpression expression type loc \<Rightarrow> loc
      | OldExpression expression loc \<Rightarrow> loc
      | ForallExpression bindings condition loc \<Rightarrow> loc
      | ExistsExpression bindings condition loc \<Rightarrow> loc
      | TryExpression expression loc \<Rightarrow> loc
      | AssignmentExpression op left right loc \<Rightarrow> loc)"

text \<open>\<open>this.typeMap.set(expr, type); return type\<close> at the end of \<open>analyzeExpression\<close>.\<close>

definition recordType :: "Expression \<Rightarrow> Type Analysis \<Rightarrow> Type Analysis" where
  "recordType expr f st =
     (let (type, st1) = f st in (type, st1\<lparr> sa_typeMap := sa_typeMap st1 @ [(expr, type)] \<rparr>))"

definition analyzeIdentifier :: "IdentifierNode \<Rightarrow> Type Analysis" where
  "analyzeIdentifier expr st =
     (case (if name expr = ''result'' \<and> sa_inContractContext st then sa_currentFunction st else None) of
        Some f \<Rightarrow> resolveType (fd_returnType f) st
      | None \<Rightarrow>
          (case SymbolTable_lookup (sa_symbolTable st) (name expr) of
             None \<Rightarrow>
               (UnknownType, sa_error (ident_location expr) (''Undefined identifier: '' @ name expr) st)
           | Some symbol \<Rightarrow> (sym_type symbol, st)))"

definition analyzeLiteral :: "LiteralNode \<Rightarrow> Type" where
  "analyzeLiteral expr =
     (if literalKind expr = ''integer'' then PrimitiveType PInt
      else if literalKind expr = ''float'' then PrimitiveType PFloat64
      else if literalKind expr = ''string'' then PrimitiveType PString
      else if literalKind expr = ''char'' then PrimitiveType PChar
      else if literalKind expr = ''boolean'' then PrimitiveType PBool
      else if literalKind expr = ''nil'' then VoidType
      else UnknownType)"

text \<open>
  \<open>parseInt(a.name.replace(/\D/g, '') || '64')\<close>: the digits of the name read as a decimal
  number, and 64 for a name without digits.
\<close>

definition digitsOfName :: "string \<Rightarrow> nat" where
  "digitsOfName nm =
     (let ds = filter isDigit nm in
      if ds = [] then 64 else fold (\<lambda>c n. 10 * n + (of_char c - 48)) ds 0)"

definition startsWithFloat :: "string \<Rightarrow> bool" where
  "startsWithFloat nm = (take 5 nm = ''Float'')"

definition widenNumericTypes :: "Type \<Rightarrow> Type \<Rightarrow> Type" where
  "widenNumericTypes a b =
     (case a of
        PrimitiveType pa \<Rightarrow>
          (case b of
             PrimitiveType pb \<Rightarrow>
               if startsWithFloat (primName pa) \<or> startsWithFloat (primName pb) then
                 (if pa = PFloat64 \<or> pb = PFloat64 then PrimitiveType PFloat64
                  else PrimitiveType PFloat32)
               else if digitsOfName (primName pa) \<ge> digitsOfName (primName pb) then a else b
           | _ \<Rightarrow> UnknownType)
      | _ \<Rightarrow> UnknownType)"

definition analyzeBinaryExpression ::
  "string \<Rightarrow> SourceLocation \<Rightarrow> Type Analysis \<Rightarrow> Type Analysis \<Rightarrow> Type Analysis" where
  "analyzeBinaryExpression op loc left right st =
     (let (leftType, st1) = left st; (rightType, st2) = right st1 in
      if op \<in> set [''+'', ''-'', ''*'', ''/'', ''%'', ''**''] then
        (if \<not> isNumeric leftType \<or> \<not> isNumeric rightType then
           (UnknownType,
            sa_error loc (''Arithmetic operators require numeric types, got '' @ typeToString leftType
                          @ '' and '' @ typeToString rightType) st2)
         else (widenNumericTypes leftType rightType, st2))
      else if op \<in> set [''=='', ''!=''] then
        (PrimitiveType PBool,
         if \<not> isAssignableTo leftType rightType \<and> \<not> isAssignableTo rightType leftType then
           sa_error loc (''Cannot compare '' @ typeToString leftType @ '' with ''
                         @ typeToString rightType) st2
         else st2)
      else if op \<in> set [''<'', ''>'', ''<='', ''>=''] then
        (PrimitiveType PBool,
         if \<not> isNumeric leftType \<or> \<not> isNumeric rightType then
           sa_error loc (''Comparison operators require numeric types, got '' @ typeToString leftType
                         @ '' and '' @ typeToString rightType) st2
         else st2)
      else if op \<in> set [''&&'', ''||''] then
        (PrimitiveType PBool,
         if \<not> isBoolean leftType \<or> \<not> isBoolean rightType then
           sa_error loc (''Logical operators require Bool types, got '' @ typeToString leftType
                         @ '' and '' @ typeToString rightType) st2
         else st2)
      else if op \<in> set [''&'', ''|'', ''^'', ''<<'', ''>>''] then
        (leftType,
         if \<not> isInteger leftType \<or> \<not> isInteger rightType then
           sa_error loc (''Bitwise operators require integer types, got '' @ typeToString leftType
                         @ '' and '' @ typeToString rightType) st2
         else st2)
      else (UnknownType, st2))"

definition analyzeUnaryExpression :: "string \<Rightarrow> SourceLocation \<Rightarrow> Type Analysis \<Rightarrow> Type Analysis" where
  "analyzeUnaryExpression op loc operand st =
     (let (operandType, st1) = operand st in
      if op = ''-'' then
        (operandType,
         if \<not> isNumeric operandType then
           sa_error loc (''Unary minus requires numeric type, got '' @ typeToString operandType) st1
         else st1)
      else if op = ''!'' then
        (PrimitiveType PBool,
         if \<not> isBoolean operandType then
           sa_error loc (''Logical not requires Bool, got '' @ typeToString operandType) st1
         else st1)
      else if op = ''~'' then
        (operandType,
         if \<not> isInteger operandType then
           sa_error loc (''Bitwise not requires integer type, got '' @ typeToString operandType) st1
         else st1)
      else if op = ''&'' then (ReferenceType operandType False, st1)
      else if op = ''*'' then
        (case operandType of
           ReferenceType inner isMutable \<Rightarrow> (inner, st1)
         | _ \<Rightarrow>
             (UnknownType,
              sa_error loc (''Cannot dereference non-reference type '' @ typeToString operandType) st1))
      else (UnknownType, st1))"

text \<open>The three steps of \<open>analyzeCallExpression\<close> after the callee is known to be a function.\<close>

definition checkArgumentCount ::
  "nat \<Rightarrow> nat \<Rightarrow> SourceLocation \<Rightarrow> SemanticAnalyzer \<Rightarrow> SemanticAnalyzer" where
  "checkArgumentCount given expected loc st =
     (if given \<noteq> expected then
        sa_error loc (''Expected '' @ showNat expected @ '' arguments, got '' @ showNat given) st
      else st)"

definition checkArgument ::
  "SourceLocation \<times> Type Analysis \<Rightarrow> string \<times> Type \<times> bool \<Rightarrow> SemanticAnalyzer \<Rightarrow> SemanticAnalyzer" where
  "checkArgument arg param st =
     (let (argType, st1) = snd arg st; paramType = fst (snd param) in
      if \<not> isAssignableTo argType paramType then
        sa_error (fst arg) (''Argument type mismatch: expected '' @ typeToString paramType
                            @ '', got '' @ typeToString argType) st1
      else st1)"

definition effectMessage :: "Type \<Rightarrow> string" where
  "effectMessage effect =
     ''Function requires effect '' @ templateString (Type_name effect)
       @ '' which is not declared in current context''"

text \<open>\<open>activeEffects.has(effect.name)\<close>\<close>

definition hasActiveEffect :: "string list \<Rightarrow> Type \<Rightarrow> bool" where
  "hasActiveEffect active effect =
     (case Type_name effect of Some nm \<Rightarrow> nm \<in> set active | None \<Rightarrow> False)"

definition checkEffects :: "Type list \<Rightarrow> SourceLocation \<Rightarrow> SemanticAnalyzer \<Rightarrow> SemanticAnalyzer" where
  "checkEffects effects loc st =
     (if length effects > 0 then
        (let active = getActiveEffects (sa_symbolTable st) in
         seq (map (\<lambda>effect st'.
                     if \<not> hasActiveEffect active effect then sa_error loc (effectMessage effect) st'
                     else st') effects) st)
      else st)"

definition analyzeCallExpression ::
  "SourceLocation \<Rightarrow> Type Analysis \<Rightarrow> (SourceLocation \<times> Type Analysis) list \<Rightarrow> Type Analysis" where
  "analyzeCallExpression loc callee args st =
     (let (calleeType, st1) = callee st in
      case calleeType of
        FunctionType params returnType effects caps contracts pure \<Rightarrow>
          (returnType,
           checkEffects effects loc
             (seq (map (\<lambda>(arg, param). checkArgument arg param) (zip args params))
                (checkArgumentCount (length args) (length params) loc st1)))
      | StructType nm fs gs invs m \<Rightarrow> (calleeType, st1)
      | EnumType nm vs gs m \<Rightarrow> (calleeType, st1)
      | _ \<Rightarrow>
          (UnknownType,
           sa_error loc (''Cannot call non-function type '' @ typeToString calleeType) st1))"

definition structFieldAccess ::
  "string \<Rightarrow> (string \<times> Type) list \<Rightarrow> string \<Rightarrow> SourceLocation \<Rightarrow> Type Analysis" where
  "structFieldAccess structName flds property loc st =
     (case map_of flds property of
        None \<Rightarrow>
          (UnknownType,
           sa_error loc (''Struct '' @ structName @ '' has no field '' @ property) st)
      | Some fieldType \<Rightarrow> (fieldType, st))"

definition cannotAccessMember :: "string \<Rightarrow> Type \<Rightarrow> SourceLocation \<Rightarrow> Type Analysis" where
  "cannotAccessMember property objectType loc st =
     (UnknownType,
      sa_error loc (''Cannot access member '' @ property @ '' on '' @ typeToString objectType) st)"

definition analyzeMemberExpression :: "string \<Rightarrow> SourceLocation \<Rightarrow> Type Analysis \<Rightarrow> Type Analysis" where
  "analyzeMemberExpression property loc object st =
     (let (objectType, st1) = object st in
      case objectType of
        EffectType nm methods gs m \<Rightarrow>
          (case map_of methods property of
             None \<Rightarrow>
               (UnknownType,
                sa_error loc (''Effect '' @ nm @ '' has no method '' @ property) st1)
           | Some method \<Rightarrow> (method, st1))
      | StructType nm flds gs invs m \<Rightarrow> structFieldAccess nm flds property loc st1
      | ReferenceType inner isMutable \<Rightarrow>
          (case inner of
             StructType nm flds gs invs m \<Rightarrow> structFieldAccess nm flds property loc st1
           | _ \<Rightarrow> cannotAccessMember property objectType loc st1)
      | _ \<Rightarrow> cannotAccessMember property objectType loc st1)"

text \<open>
  Indexing a tuple by a literal: \<open>index\<close> is the value of the literal, of whatever kind.  The
  source compares it with two numbers (\<open>index < 0\<close>, \<open>index >= elements.length\<close>), prints it in
  the message, and uses it as the key of \<open>elements[index]\<close>.  For the comparisons JavaScript
  converts the value to a number, for the message and the key to a string.

  A number is \<open>NaN\<close>, an infinity with its sign, or finite.  A finite number is given by the
  decimal text it is read from: a sign, digits \<open>m\<close> (0 or more) and an exponent \<open>e\<close> for
  \<open>m * 10^e\<close>.  The number itself is that value rounded to the nearest double, and the two
  comparisons are decided on the decimal value with the rounding taken into account.
\<close>

datatype JSNumber = NaN | Infinite bool | Decimal bool int int

definition digitsValue :: "int \<Rightarrow> string \<Rightarrow> int" where
  "digitsValue radix ds =
     foldl (\<lambda>n c. radix * n +
                   (if isDigit c then of_char c - 48
                    else if CHR ''a'' \<le> c \<and> c \<le> CHR ''f'' then of_char c - 87
                    else of_char c - 55)) 0 ds"

text \<open>\<open>ExponentPart\<close>, or nothing: \<open>e\<close> or \<open>E\<close>, an optional sign, and digits to the end.\<close>

definition exponentPart :: "string \<Rightarrow> int option" where
  "exponentPart r =
     (if r = [] then Some 0
      else if hd r = CHR ''e'' \<or> hd r = CHR ''E'' then
        (let signed = (tl r \<noteq> [] \<and> (hd (tl r) = CHR ''+'' \<or> hd (tl r) = CHR ''-''));
             ds = (if signed then tl (tl r) else tl r)
         in if ds = [] \<or> \<not> list_all isDigit ds then None
            else if signed \<and> hd (tl r) = CHR ''-'' then Some (- digitsValue 10 ds)
            else Some (digitsValue 10 ds))
      else None)"

text \<open>
  \<open>StrUnsignedDecimalLiteral\<close> without \<open>Infinity\<close>: digits, optionally a point and digits, with
  a digit on one side of the point at least, and optionally an exponent part.
\<close>

definition unsignedDecimal :: "string \<Rightarrow> (int \<times> int) option" where
  "unsignedDecimal s =
     (let intPart = takeWhile isDigit s;
          r1 = dropWhile isDigit s;
          hasPoint = (r1 \<noteq> [] \<and> hd r1 = CHR ''.'');
          fracPart = (if hasPoint then takeWhile isDigit (tl r1) else []);
          r2 = (if hasPoint then dropWhile isDigit (tl r1) else r1)
      in if intPart = [] \<and> fracPart = [] then None
         else
           (case exponentPart r2 of
              None \<Rightarrow> None
            | Some ex \<Rightarrow> Some (digitsValue 10 (intPart @ fracPart), ex - int (length fracPart))))"

text \<open>White space and line terminators, as far as they are characters of a string here.\<close>

definition isStrWhiteSpace :: "char \<Rightarrow> bool" where
  "isStrWhiteSpace c =
     (c = CHR 0x09 \<or> c = CHR 0x0A \<or> c = CHR 0x0B \<or> c = CHR 0x0C \<or> c = CHR 0x0D \<or> c = CHR 0x20 \<or>
      c = CHR 0xA0)"

definition trimString :: "string \<Rightarrow> string" where
  "trimString s = rev (dropWhile isStrWhiteSpace (rev (dropWhile isStrWhiteSpace s)))"

definition radixLiteral :: "int \<Rightarrow> (char \<Rightarrow> bool) \<Rightarrow> string \<Rightarrow> JSNumber" where
  "radixLiteral radix isRadixDigit ds =
     (if ds \<noteq> [] \<and> list_all isRadixDigit ds then Decimal False (digitsValue radix ds) 0 else NaN)"

text \<open>
  \<open>StringToNumber\<close>: the text without the white space around it is empty (0), a hexadecimal,
  binary or octal integer with its prefix, or a decimal with an optional sign; any other text
  is \<open>NaN\<close>.  The text that \<open>String\<close> gives for a number is read back as that number.
\<close>

definition StringToNumber :: "string \<Rightarrow> JSNumber" where
  "StringToNumber s =
     (let t = trimString s in
      if t = [] then Decimal False 0 0
      else if take 2 t = ''0x'' \<or> take 2 t = ''0X'' then radixLiteral 16 isHexDigit (drop 2 t)
      else if take 2 t = ''0b'' \<or> take 2 t = ''0B'' then
        radixLiteral 2 (\<lambda>c. c = CHR ''0'' \<or> c = CHR ''1'') (drop 2 t)
      else if take 2 t = ''0o'' \<or> take 2 t = ''0O'' then
        radixLiteral 8 (\<lambda>c. CHR ''0'' \<le> c \<and> c \<le> CHR ''7'') (drop 2 t)
      else
        (let negative = (hd t = CHR ''-'');
             u = (if hd t = CHR ''+'' \<or> hd t = CHR ''-'' then tl t else t)
         in if u = ''Infinity'' then Infinite negative
            else
              (case unsignedDecimal u of
                 None \<Rightarrow> NaN
               | Some (m, e) \<Rightarrow> Decimal negative m e)))"

definition ToNumber :: "LiteralValue \<Rightarrow> JSNumber" where
  "ToNumber v =
     (case v of
        NumberValue s \<Rightarrow> StringToNumber s
      | StringValue s \<Rightarrow> StringToNumber s
      | BooleanValue b \<Rightarrow> Decimal False (if b then 1 else 0) 0
      | NullValue \<Rightarrow> Decimal False 0 0)"

text \<open>\<open>m * 10^e \<ge> a / 2^b\<close> and \<open>m * 10^e > a / 2^b\<close>\<close>

definition decimalAtLeast :: "int \<Rightarrow> int \<Rightarrow> int \<Rightarrow> nat \<Rightarrow> bool" where
  "decimalAtLeast m e a b =
     (if e \<ge> 0 then m * 10 ^ nat e * 2 ^ b \<ge> a else m * 2 ^ b \<ge> a * 10 ^ nat (- e))"

definition decimalAbove :: "int \<Rightarrow> int \<Rightarrow> int \<Rightarrow> nat \<Rightarrow> bool" where
  "decimalAbove m e a b =
     (if e \<ge> 0 then m * 10 ^ nat e * 2 ^ b > a else m * 2 ^ b > a * 10 ^ nat (- e))"

text \<open>
  \<open>x < 0\<close>.  A negative value of size \<open>2^-1075\<close> or less, half the least positive double, is
  rounded to \<open>-0\<close>, which is not below 0.
\<close>

definition belowZero :: "JSNumber \<Rightarrow> bool" where
  "belowZero x =
     (case x of
        NaN \<Rightarrow> False
      | Infinite negative \<Rightarrow> negative
      | Decimal negative m e \<Rightarrow> negative \<and> decimalAbove m e 1 1075)"

fun bitLength :: "nat \<Rightarrow> nat" where
  "bitLength n = (if n = 0 then 0 else Suc (bitLength (n div 2)))"

declare bitLength.simps [simp del]

text \<open>
  \<open>x >= n\<close> for the length \<open>n\<close> of an array (below \<open>2^32\<close>).  For \<open>n > 0\<close> the doubles below \<open>n\<close>
  lie \<open>2^-b\<close> apart with \<open>b = 53 - bitLength (n - 1)\<close>, and a value is rounded to \<open>n\<close> or more
  from the middle between \<open>n\<close> and the double before it, \<open>n - 2^-(b+1)\<close>, on (the middle itself
  goes to \<open>n\<close>, whose last bit is 0).
\<close>

definition atLeastLength :: "JSNumber \<Rightarrow> nat \<Rightarrow> bool" where
  "atLeastLength x n =
     (case x of
        NaN \<Rightarrow> False
      | Infinite negative \<Rightarrow> \<not> negative
      | Decimal negative m e \<Rightarrow>
          if n = 0 then \<not> belowZero x
          else \<not> negative \<and>
               decimalAtLeast m e (int n * 2 ^ (54 - bitLength (n - 1)) - 1)
                 (54 - bitLength (n - 1)))"

text \<open>
  The key of \<open>elements[index]\<close> is an index of the array when it is the decimal text of a
  natural number, without a leading zero.
\<close>

definition arrayIndex :: "string \<Rightarrow> int option" where
  "arrayIndex key =
     (if key \<noteq> [] \<and> list_all isDigit key \<and> (key = ''0'' \<or> hd key \<noteq> CHR ''0'')
      then Some (digitsValue 10 key) else None)"

definition isPrimitiveKind :: "Type \<Rightarrow> bool" where
  "isPrimitiveKind t = (case t of PrimitiveType p \<Rightarrow> True | _ \<Rightarrow> False)"

definition cannotIndex :: "Type \<Rightarrow> SourceLocation \<Rightarrow> Type Analysis" where
  "cannotIndex objectType loc st =
     (UnknownType, sa_error loc (''Cannot index '' @ typeToString objectType) st)"

text \<open>
  When the index is in the bounds and its key is no index of the array (\<open>t[0.5]\<close>, \<open>t[true]\<close>),
  \<open>elements[index]\<close> is \<open>undefined\<close> or a property that the array inherits: no type.
\<close>

definition tupleIndex :: "Type list \<Rightarrow> LiteralNode \<Rightarrow> SourceLocation \<Rightarrow> Type Analysis" where
  "tupleIndex elements lit loc st =
     (let index = lit_value lit in
      if belowZero (ToNumber index) \<or> atLeastLength (ToNumber index) (length elements) then
        (UnknownType,
         sa_error loc (''Tuple index '' @ String_of index @ '' out of bounds (length ''
                       @ showNat (length elements) @ '')'') st)
      else
        (case arrayIndex (String_of index) of
           Some k \<Rightarrow>
             if k < int (length elements) then (elements ! nat k, st)
             else (UnknownType, notAType st)
         | None \<Rightarrow> (UnknownType, notAType st)))"

definition analyzeIndexExpression ::
  "Expression \<Rightarrow> SourceLocation \<Rightarrow> Type Analysis \<Rightarrow> Type Analysis \<Rightarrow> Type Analysis" where
  "analyzeIndexExpression indexExpr loc object index st =
     (let (objectType, st1) = object st; (indexType, st2) = index st1 in
      case objectType of
        ArrayType elementType sz \<Rightarrow>
          (elementType,
           if \<not> isInteger indexType then
             sa_error (location indexExpr)
               (''Array index must be integer, got '' @ typeToString indexType) st2
           else st2)
      | TupleType elements \<Rightarrow>
          (case indexExpr of
             Literal lit \<Rightarrow>
               if isPrimitiveKind indexType then tupleIndex elements lit loc st2
               else cannotIndex objectType loc st2
           | _ \<Rightarrow> cannotIndex objectType loc st2)
      | _ \<Rightarrow> cannotIndex objectType loc st2)"

definition checkCondition :: "string \<Rightarrow> SourceLocation \<Rightarrow> Type \<Rightarrow> SemanticAnalyzer \<Rightarrow> SemanticAnalyzer" where
  "checkCondition what loc type st =
     (if \<not> isBoolean type then sa_error loc (what @ '' must be Bool, got '' @ typeToString type) st
      else st)"

definition analyzeIfExpression ::
  "SourceLocation \<Rightarrow> SourceLocation \<Rightarrow> Type Analysis \<Rightarrow> Type Analysis \<Rightarrow> Type Analysis option \<Rightarrow>
   Type Analysis" where
  "analyzeIfExpression conditionLoc loc condition thenBranch elseBranch st =
     (let (condType, st1) = condition st;
          st2 = checkCondition ''Condition'' conditionLoc condType st1;
          (thenType, st3) = thenBranch st2
      in case elseBranch of
           Some branch \<Rightarrow>
             (let (elseType, st4) = branch st3 in
              (thenType,
               if \<not> typeEquals thenType elseType then
                 sa_warning loc (''If-else branches have different types: '' @ typeToString thenType
                                 @ '' vs '' @ typeToString elseType) st4
               else st4))
         | None \<Rightarrow> (VoidType, st3))"

definition analyzeBlockExpression :: "Type Analysis option \<Rightarrow> Type Analysis" where
  "analyzeBlockExpression expression st =
     (let st1 = onSymbolTable (enterScope ''block'' ''block'') st;
          (resultType, st2) = (case expression of Some e \<Rightarrow> e st1 | None \<Rightarrow> (VoidType, st1))
      in (resultType, onSymbolTable exitScope st2))"

text \<open>
  Patterns.  \<open>analyzePattern\<close> takes the pattern and the expected type; a \<open>return\<close> inside its
  switch ends the analysis of that pattern.
\<close>

definition patternMismatch :: "LiteralNode \<Rightarrow> SourceLocation \<Rightarrow> Type \<Rightarrow> SemanticAnalyzer \<Rightarrow> SemanticAnalyzer" where
  "patternMismatch lit loc expectedType st =
     (let litType = analyzeLiteral lit in
      if \<not> isAssignableTo litType expectedType then
        sa_error loc (''Pattern type mismatch: expected '' @ typeToString expectedType @ '', got ''
                      @ typeToString litType) st
      else st)"

definition analyzeTuplePattern ::
  "(Type \<Rightarrow> SemanticAnalyzer \<Rightarrow> SemanticAnalyzer) list \<Rightarrow> SourceLocation \<Rightarrow> Type \<Rightarrow>
   SemanticAnalyzer \<Rightarrow> SemanticAnalyzer" where
  "analyzeTuplePattern elements loc expectedType st =
     (case expectedType of
        TupleType types \<Rightarrow>
          if length elements \<noteq> length types then
            sa_error loc (''Tuple pattern has '' @ showNat (length elements) @ '' elements, expected ''
                          @ showNat (length types)) st
          else seq (map (\<lambda>(element, type). element type) (zip elements types)) st
      | _ \<Rightarrow> sa_error loc ''Expected tuple type for tuple pattern'' st)"

definition analyzeEnumPattern ::
  "string \<Rightarrow> (Type \<Rightarrow> SemanticAnalyzer \<Rightarrow> SemanticAnalyzer) list option \<Rightarrow> SourceLocation \<Rightarrow> Type \<Rightarrow>
   SemanticAnalyzer \<Rightarrow> SemanticAnalyzer" where
  "analyzeEnumPattern variant flds loc expectedType st =
     (case expectedType of
        EnumType nm variants gs m \<Rightarrow>
          (case map_of variants variant of
             None \<Rightarrow> sa_error loc (''Unknown variant '' @ variant @ '' in enum '' @ nm) st
           | Some variantFields \<Rightarrow>
               (case flds of
                  Some patterns \<Rightarrow>
                    (case variantFields of
                       Some types \<Rightarrow>
                         if length patterns \<noteq> length types then
                           sa_error loc (''Variant '' @ variant @ '' has '' @ showNat (length types)
                                         @ '' fields, got '' @ showNat (length patterns)) st
                         else seq (map (\<lambda>(pattern, type). pattern type) (zip patterns types)) st
                     | None \<Rightarrow> st)
                | None \<Rightarrow> st))
      | _ \<Rightarrow> sa_error loc ''Expected enum type for enum pattern'' st)"

definition analyzeStructPattern ::
  "(IdentifierNode \<times> (Type \<Rightarrow> SemanticAnalyzer \<Rightarrow> SemanticAnalyzer) \<times> SourceLocation) list \<Rightarrow>
   SourceLocation \<Rightarrow> Type \<Rightarrow> SemanticAnalyzer \<Rightarrow> SemanticAnalyzer" where
  "analyzeStructPattern flds loc expectedType st =
     (case expectedType of
        StructType nm types gs invs m \<Rightarrow>
          seq (map (\<lambda>(fieldName, pattern, fieldLoc) st'.
                      case map_of types (name fieldName) of
                        None \<Rightarrow>
                          sa_error fieldLoc (''Unknown field '' @ name fieldName @ '' in struct '' @ nm) st'
                      | Some fieldType \<Rightarrow> pattern fieldType st') flds) st
      | _ \<Rightarrow> sa_error loc ''Expected struct type for struct pattern'' st)"

primrec analyzePattern :: "Pattern \<Rightarrow> Type \<Rightarrow> SemanticAnalyzer \<Rightarrow> SemanticAnalyzer" where
  "analyzePattern (WildcardPattern loc) = (\<lambda>expectedType st. st)"
| "analyzePattern (LiteralPattern lit loc) = patternMismatch lit loc"
| "analyzePattern (IdentifierPattern n isMutable loc) =
     (\<lambda>expectedType.
        onSymbolTable
          (SymbolTable_define (name n) expectedType ''variable'' loc (Some isMutable) None None))"
| "analyzePattern (TuplePattern elements loc) =
     analyzeTuplePattern (map analyzePattern elements) loc"
| "analyzePattern (StructPattern type flds hasRest loc) =
     analyzeStructPattern (map (map_prod id (map_prod analyzePattern id)) flds) loc"
| "analyzePattern (EnumPattern enum variant flds loc) =
     analyzeEnumPattern (name variant) (map_option (map analyzePattern) flds) loc"
| "analyzePattern (RangePattern lo hi inclusive loc) = (\<lambda>expectedType st. st)"

definition analyzeMatchArm ::
  "(Type \<Rightarrow> SemanticAnalyzer \<Rightarrow> SemanticAnalyzer) \<Rightarrow> (SourceLocation \<times> Type Analysis) option \<Rightarrow>
   Type Analysis \<Rightarrow> Type \<Rightarrow> Type Analysis" where
  "analyzeMatchArm pattern guard body subjectType st =
     (let st1 = onSymbolTable (enterScope ''match-arm'' ''block'') st;
          st2 = pattern subjectType st1;
          st3 = (case guard of
                   Some (guardLoc, g) \<Rightarrow>
                     (let (guardType, st') = g st2
                      in checkCondition ''Match guard'' guardLoc guardType st')
                 | None \<Rightarrow> st2);
          (bodyType, st4) = body st3
      in (bodyType, onSymbolTable exitScope st4))"

definition matchExpressionArm ::
  "Type \<Rightarrow> SourceLocation \<times> (Type \<Rightarrow> Type Analysis) \<Rightarrow> Type option \<times> SemanticAnalyzer \<Rightarrow>
   Type option \<times> SemanticAnalyzer" where
  "matchExpressionArm subjectType arm acc =
     (let (resultType, st) = acc; (armType, st1) = snd arm subjectType st in
      case resultType of
        None \<Rightarrow> (Some armType, st1)
      | Some expected \<Rightarrow>
          (resultType,
           if \<not> typeEquals expected armType then
             sa_warning (fst arm)
               (''Match arm has different type: expected '' @ typeToString expected @ '', got ''
                @ typeToString armType) st1
           else st1))"

definition analyzeMatchExpression ::
  "Type Analysis \<Rightarrow> (SourceLocation \<times> (Type \<Rightarrow> Type Analysis)) list \<Rightarrow> Type Analysis" where
  "analyzeMatchExpression subject arms st =
     (let (subjectType, st1) = subject st;
          (resultType, st2) = fold (matchExpressionArm subjectType) arms (None, st1)
      in (case resultType of Some t \<Rightarrow> t | None \<Rightarrow> VoidType, st2))"

definition lambdaParameter ::
  "IdentifierNode \<times> TypeExpression \<times> bool \<times> 'd \<times> SourceLocation \<Rightarrow> (string \<times> Type \<times> bool) Analysis" where
  "lambdaParameter param st =
     (case param of
        (n, type, isMutable, dflt, paramLoc) \<Rightarrow>
          (let (paramType, st1) = resolveType type st
           in ((name n, paramType, isMutable),
               onSymbolTable
                 (SymbolTable_define (name n) paramType ''parameter'' paramLoc (Some isMutable) None None)
                 st1)))"

definition analyzeLambdaExpression ::
  "(IdentifierNode \<times> TypeExpression \<times> bool \<times> 'd \<times> SourceLocation) list \<Rightarrow> TypeExpression option \<Rightarrow>
   Type Analysis \<Rightarrow> Type Analysis" where
  "analyzeLambdaExpression params returnType body st =
     (let st1 = onSymbolTable (enterScope ''lambda'' ''function'') st;
          (parameters, st2) = inOrder (map lambdaParameter params) st1;
          (bodyType, st3) = body st2;
          st4 = onSymbolTable exitScope st3;
          (ret, st5) = (case returnType of Some t \<Rightarrow> resolveType t st4 | None \<Rightarrow> (bodyType, st4))
      in (FunctionType parameters ret [] [] [] True, st5))"

definition arrayElement ::
  "Type \<Rightarrow> SourceLocation \<times> Type Analysis \<Rightarrow> SemanticAnalyzer \<Rightarrow> SemanticAnalyzer" where
  "arrayElement elementType element st =
     (let (elemType, st1) = snd element st in
      if \<not> isAssignableTo elemType elementType then
        sa_error (fst element)
          (''Array element type mismatch: expected '' @ typeToString elementType @ '', got ''
           @ typeToString elemType) st1
      else st1)"

definition analyzeArrayExpression :: "(SourceLocation \<times> Type Analysis) list \<Rightarrow> Type Analysis" where
  "analyzeArrayExpression elements st =
     (case elements of
        [] \<Rightarrow> (ArrayType UnknownType (Some 0), st)
      | first # others \<Rightarrow>
          (let (elementType, st1) = snd first st
           in (ArrayType elementType None, seq (map (arrayElement elementType) others) st1)))"

definition analyzeTupleExpression :: "Type Analysis list \<Rightarrow> Type Analysis" where
  "analyzeTupleExpression elements st =
     (let (types, st1) = inOrder elements st in (TupleType types, st1))"

definition structExpressionField ::
  "string \<Rightarrow> (string \<times> Type) list \<Rightarrow> IdentifierNode \<times> Type Analysis \<times> SourceLocation \<Rightarrow>
   SemanticAnalyzer \<Rightarrow> SemanticAnalyzer" where
  "structExpressionField typeName types field st =
     (case field of
        (fieldName, val, fieldLoc) \<Rightarrow>
          (case map_of types (name fieldName) of
             None \<Rightarrow>
               sa_error fieldLoc (''Unknown field '' @ name fieldName @ '' in struct '' @ typeName) st
           | Some expectedType \<Rightarrow>
               (let (actualType, st1) = val st in
                if \<not> isAssignableTo actualType expectedType then
                  sa_error fieldLoc
                    (''Field '' @ name fieldName @ '' expects '' @ typeToString expectedType
                     @ '', got '' @ typeToString actualType) st1
                else st1)))"

definition analyzeStructExpression ::
  "string \<Rightarrow> (IdentifierNode \<times> Type Analysis \<times> SourceLocation) list \<Rightarrow> bool \<Rightarrow> SourceLocation \<Rightarrow>
   Type Analysis" where
  "analyzeStructExpression typeName flds hasSpread loc st =
     (case SymbolTable_lookupType (sa_symbolTable st) typeName of
        Some (StructType nm types gs invs m) \<Rightarrow>
          (let providedFields = map (\<lambda>(fieldName, val, fieldLoc). name fieldName) flds;
               st1 = seq (map (structExpressionField typeName types) flds) st;
               st2 = (if \<not> hasSpread then
                        seq (map (\<lambda>(fieldName, fieldType) st'.
                                    if fieldName \<notin> set providedFields then
                                      sa_error loc (''Missing field '' @ fieldName @ '' in struct ''
                                                    @ typeName) st'
                                    else st') types) st1
                      else st1)
           in (StructType nm types gs invs m, st2))
      | _ \<Rightarrow> (UnknownType, sa_error loc (''Unknown struct type: '' @ typeName) st))"

definition analyzeOldExpression :: "SourceLocation \<Rightarrow> Type Analysis \<Rightarrow> Type Analysis" where
  "analyzeOldExpression loc expression st =
     (if \<not> sa_inContractContext st then
        (UnknownType, sa_error loc ''old() can only be used in contract annotations'' st)
      else expression st)"

text \<open>
  \<open>analyzeForallExpression\<close> and \<open>analyzeExistsExpression\<close> differ in the word \<open>forall\<close> or
  \<open>exists\<close> only, which is the name of the scope and stands in the two messages.
\<close>

definition quantifierBinding ::
  "IdentifierNode \<times> Type Analysis option \<times> SourceLocation \<Rightarrow> SemanticAnalyzer \<Rightarrow> SemanticAnalyzer" where
  "quantifierBinding binding st =
     (case binding of
        (n, rng, bindingLoc) \<Rightarrow>
          (let (bindingType, st1) =
                 (case rng of
                    Some r \<Rightarrow>
                      (let (rangeType, st') = r st in
                       (case rangeType of
                          ArrayType elementType sz \<Rightarrow> elementType
                        | _ \<Rightarrow> PrimitiveType PInt, st'))
                  | None \<Rightarrow> (PrimitiveType PInt, st))
           in onSymbolTable
                (SymbolTable_define (name n) bindingType ''variable'' bindingLoc None None None) st1))"

definition analyzeQuantifier ::
  "string \<Rightarrow> SourceLocation \<Rightarrow> (IdentifierNode \<times> Type Analysis option \<times> SourceLocation) list \<Rightarrow>
   SourceLocation \<Rightarrow> Type Analysis \<Rightarrow> Type Analysis" where
  "analyzeQuantifier word loc bindings conditionLoc condition st =
     (let st1 = (if \<not> sa_inContractContext st then
                   sa_error loc (word @ '' can only be used in contract annotations'') st
                 else st);
          st2 = onSymbolTable (enterScope word ''block'') st1;
          st3 = seq (map quantifierBinding bindings) st2;
          (condType, st4) = condition st3;
          st5 = checkCondition (word @ '' condition'') conditionLoc condType st4
      in (PrimitiveType PBool, onSymbolTable exitScope st5))"

definition isResultKind :: "Type \<Rightarrow> bool" where
  "isResultKind t = (case t of ResultType ok err \<Rightarrow> True | _ \<Rightarrow> False)"

definition analyzeTryExpression :: "SourceLocation \<Rightarrow> Type Analysis \<Rightarrow> Type Analysis" where
  "analyzeTryExpression loc expression st =
     (let (innerType, st1) = expression st in
      case innerType of
        ResultType okType errType \<Rightarrow>
          (okType,
           case sa_currentFunction st1 of
             Some f \<Rightarrow>
               (let (returnType, st2) = resolveType (fd_returnType f) st1 in
                if \<not> isResultKind returnType then
                  sa_error loc ''Cannot use ? in function that doesn't return Result'' st2
                else st2)
           | None \<Rightarrow> st1)
      | _ \<Rightarrow>
          (UnknownType,
           sa_error loc (''? operator can only be used on Result types, got ''
                         @ typeToString innerType) st1))"

definition checkMutable :: "Expression \<Rightarrow> SourceLocation \<Rightarrow> SemanticAnalyzer \<Rightarrow> SemanticAnalyzer" where
  "checkMutable lhs loc st =
     (case lhs of
        Identifier n \<Rightarrow>
          (case SymbolTable_lookup (sa_symbolTable st) (name n) of
             Some symbol \<Rightarrow>
               if \<not> sym_isMutable symbol then
                 sa_error loc (''Cannot assign to immutable variable '' @ name n) st
               else st
           | None \<Rightarrow> st)
      | _ \<Rightarrow> st)"

definition analyzeAssignmentExpression ::
  "string \<Rightarrow> Expression \<Rightarrow> SourceLocation \<Rightarrow> Type Analysis \<Rightarrow> Type Analysis \<Rightarrow> Type Analysis" where
  "analyzeAssignmentExpression op leftExpr loc left right st =
     (let (leftType, st1) = left st;
          (rightType, st2) = right st1;
          st3 = checkMutable leftExpr loc st2
      in (leftType,
          if op = ''='' then
            (if \<not> isAssignableTo rightType leftType then
               sa_error loc (''Cannot assign '' @ typeToString rightType @ '' to ''
                             @ typeToString leftType) st3
             else st3)
          else
            (if \<not> isNumeric leftType \<or> \<not> isNumeric rightType then
               sa_error loc ''Compound assignment requires numeric types'' st3
             else st3)))"

text \<open>
  \<open>analyzeExpression\<close> dispatches on the kind and records the type found.  Range and cast
  expressions have no case in its switch and get \<open>unknown\<close>; their parts are not analyzed.
\<close>

primrec analyzeExpression :: "Expression \<Rightarrow> Type Analysis"
  and analyzeBlockExpressionNode :: "BlockExpressionNode \<Rightarrow> Type Analysis"
  and analyzeIfExpressionNode :: "IfExpressionNode \<Rightarrow> Type Analysis"
  and analyzeElseExpression :: "ElseExpression \<Rightarrow> Type Analysis"
where
  "analyzeExpression (Identifier n) = recordType (Identifier n) (analyzeIdentifier n)"
| "analyzeExpression (Literal lit) = recordType (Literal lit) (\<lambda>st. (analyzeLiteral lit, st))"
| "analyzeExpression (BinaryExpression op left right loc) =
     recordType (BinaryExpression op left right loc)
       (analyzeBinaryExpression op loc (analyzeExpression left) (analyzeExpression right))"
| "analyzeExpression (UnaryExpression op operand isPrefix loc) =
     recordType (UnaryExpression op operand isPrefix loc)
       (analyzeUnaryExpression op loc (analyzeExpression operand))"
| "analyzeExpression (CallExpression callee args typeArgs loc) =
     recordType (CallExpression callee args typeArgs loc)
       (analyzeCallExpression loc (analyzeExpression callee)
          (zip (map location args) (map analyzeExpression args)))"
| "analyzeExpression (MemberExpression object property computed loc) =
     recordType (MemberExpression object property computed loc)
       (analyzeMemberExpression (name property) loc (analyzeExpression object))"
| "analyzeExpression (IndexExpression object index loc) =
     recordType (IndexExpression object index loc)
       (analyzeIndexExpression index loc (analyzeExpression object) (analyzeExpression index))"
| "analyzeExpression (IfExpression n) = recordType (IfExpression n) (analyzeIfExpressionNode n)"
| "analyzeExpression (MatchExpression subject arms loc) =
     recordType (MatchExpression subject arms loc)
       (analyzeMatchExpression (analyzeExpression subject)
          (map (\<lambda>((pattern, guard, body, armLoc), (p, g, b, l)).
                  (armLoc,
                   analyzeMatchArm (analyzePattern pattern)
                     (case (guard, g) of
                        (Some guardExpr, Some guardAnalysis) \<Rightarrow> Some (location guardExpr, guardAnalysis)
                      | _ \<Rightarrow> None)
                     b))
             (zip arms
                (map (map_prod id (map_prod (map_option analyzeExpression)
                                     (map_prod analyzeExpression id))) arms))))"
| "analyzeExpression (BlockExpression n) = recordType (BlockExpression n) (analyzeBlockExpressionNode n)"
| "analyzeExpression (LambdaExpression params returnType body loc) =
     recordType (LambdaExpression params returnType body loc)
       (analyzeLambdaExpression params returnType (analyzeExpression body))"
| "analyzeExpression (ArrayExpression elements loc) =
     recordType (ArrayExpression elements loc)
       (analyzeArrayExpression (zip (map location elements) (map analyzeExpression elements)))"
| "analyzeExpression (TupleExpression elements loc) =
     recordType (TupleExpression elements loc)
       (analyzeTupleExpression (map analyzeExpression elements))"
| "analyzeExpression (StructExpression type flds spread loc) =
     recordType (StructExpression type flds spread loc)
       (analyzeStructExpression (name type)
          (map (map_prod id (map_prod analyzeExpression id)) flds) (spread \<noteq> None) loc)"
| "analyzeExpression (RangeExpression lo hi inclusive loc) =
     recordType (RangeExpression lo hi inclusive loc) (\<lambda>st. (UnknownType, st))"
| "analyzeExpression (CastExpression expression type loc) =
     recordType (CastExpression expression type loc) (\<lambda>st. (UnknownType, st))"
| "analyzeExpression (OldExpression expression loc) =
     recordType (OldExpression expression loc)
       (analyzeOldExpression loc (analyzeExpression expression))"
| "analyzeExpression (ForallExpression bindings condition loc) =
     recordType (ForallExpression bindings condition loc)
       (analyzeQuantifier ''forall'' loc
          (map (map_prod id (map_prod (map_option analyzeExpression) id)) bindings)
          (location condition) (analyzeExpression condition))"
| "analyzeExpression (ExistsExpression bindings condition loc) =
     recordType (ExistsExpression bindings condition loc)
       (analyzeQuantifier ''exists'' loc
          (map (map_prod id (map_prod (map_option analyzeExpression) id)) bindings)
          (location condition) (analyzeExpression condition))"
| "analyzeExpression (TryExpression expression loc) =
     recordType (TryExpression expression loc)
       (analyzeTryExpression loc (analyzeExpression expression))"
| "analyzeExpression (AssignmentExpression op left right loc) =
     recordType (AssignmentExpression op left right loc)
       (analyzeAssignmentExpression op left loc (analyzeExpression left) (analyzeExpression right))"
| "analyzeBlockExpressionNode (BlockExpressionNode expression loc) =
     analyzeBlockExpression (map_option analyzeExpression expression)"
| "analyzeIfExpressionNode (IfExpressionNode condition thenBranch elseBranch loc) =
     analyzeIfExpression (location condition) loc (analyzeExpression condition)
       (analyzeBlockExpressionNode thenBranch) (map_option analyzeElseExpression elseBranch)"
| "analyzeElseExpression (ElseBlockExpression n) = analyzeBlockExpressionNode n"
| "analyzeElseExpression (ElseIfExpression n) = analyzeIfExpressionNode n"

subsection \<open>Statements and declarations\<close>

definition fd_body :: "FunctionDeclarationNode \<Rightarrow> BlockStatementNode option" where
  "fd_body d = (case d of FunctionDeclarationNode n gs ps rt anns body pure exported l \<Rightarrow> body)"

definition setContractContext :: "bool \<Rightarrow> SemanticAnalyzer \<Rightarrow> SemanticAnalyzer" where
  "setContractContext b st = st\<lparr> sa_inContractContext := b \<rparr>"

definition setCurrentFunction :: "FunctionDeclarationNode option \<Rightarrow> SemanticAnalyzer \<Rightarrow> SemanticAnalyzer" where
  "setCurrentFunction f st = st\<lparr> sa_currentFunction := f \<rparr>"

definition analyzeReturnStatement :: "Type Analysis option \<Rightarrow> SourceLocation \<Rightarrow> Type Analysis" where
  "analyzeReturnStatement val loc st =
     (case sa_currentFunction st of
        None \<Rightarrow> (NeverType, sa_error loc ''Return statement outside of function'' st)
      | Some f \<Rightarrow>
          (let (expectedType, st1) = resolveType (fd_returnType f) st in
           case val of
             Some v \<Rightarrow>
               (let (actualType, st2) = v st1 in
                (actualType,
                 if \<not> isAssignableTo actualType expectedType then
                   sa_error loc (''Return type mismatch: expected '' @ typeToString expectedType
                                 @ '', got '' @ typeToString actualType) st2
                 else st2))
           | None \<Rightarrow>
               (VoidType,
                if expectedType \<noteq> VoidType then
                  sa_error loc (''Missing return value: expected '' @ typeToString expectedType) st1
                else st1)))"

definition analyzeIfStatement ::
  "SourceLocation \<Rightarrow> Type Analysis \<Rightarrow> Type Analysis \<Rightarrow> Type Analysis option \<Rightarrow> Type Analysis" where
  "analyzeIfStatement conditionLoc condition thenBranch elseBranch st =
     (let (condType, st1) = condition st;
          st2 = checkCondition ''Condition'' conditionLoc condType st1;
          (thenType, st3) = thenBranch st2
      in (VoidType, case elseBranch of Some branch \<Rightarrow> snd (branch st3) | None \<Rightarrow> st3))"

text \<open>The invariants of a loop or of a struct, analyzed in the contract context.\<close>

definition analyzeInvariant :: "string \<Rightarrow> Annotation \<Rightarrow> SemanticAnalyzer \<Rightarrow> SemanticAnalyzer" where
  "analyzeInvariant what invariant st =
     (case invariant of
        InvariantAnnotation condition l \<Rightarrow>
          (let (invType, st1) = analyzeExpression condition st in checkCondition what l invType st1)
      | _ \<Rightarrow> st)"

definition analyzeInvariants :: "string \<Rightarrow> Annotation list \<Rightarrow> SemanticAnalyzer \<Rightarrow> SemanticAnalyzer" where
  "analyzeInvariants what invariants st =
     setContractContext False
       (seq (map (analyzeInvariant what) invariants) (setContractContext True st))"

definition analyzeWhileStatement ::
  "Expression \<Rightarrow> Annotation list \<Rightarrow> Type Analysis \<Rightarrow> Type Analysis" where
  "analyzeWhileStatement condition invariants body st =
     (let (condType, st1) = analyzeExpression condition st;
          st2 = checkCondition ''Condition'' (location condition) condType st1;
          st3 = analyzeInvariants ''Loop invariant'' invariants st2;
          st4 = onSymbolTable (enterScope ''while'' ''loop'') st3;
          (bodyType, st5) = body st4
      in (VoidType, onSymbolTable exitScope st5))"

definition isStructKind :: "Type \<Rightarrow> bool" where
  "isStructKind t = (case t of StructType nm fs gs invs m \<Rightarrow> True | _ \<Rightarrow> False)"

definition elementTypeOf :: "Type \<Rightarrow> Type" where
  "elementTypeOf iterType =
     (case iterType of
        ArrayType elementType sz \<Rightarrow> elementType
      | GenericType base args \<Rightarrow>
          (if isStructKind base then (case args of [] \<Rightarrow> UnknownType | a # as \<Rightarrow> a)
           else UnknownType)
      | _ \<Rightarrow> UnknownType)"

definition analyzeForStatement ::
  "IdentifierNode \<Rightarrow> Expression \<Rightarrow> Annotation list \<Rightarrow> Type Analysis \<Rightarrow> Type Analysis" where
  "analyzeForStatement variable iterable invariants body st =
     (let (iterType, st1) = analyzeExpression iterable st;
          st2 = onSymbolTable (enterScope ''for'' ''loop'') st1;
          st3 = onSymbolTable
                  (SymbolTable_define (name variable) (elementTypeOf iterType) ''variable''
                     (ident_location variable) (Some False) None None) st2;
          st4 = analyzeInvariants ''Loop invariant'' invariants st3;
          (bodyType, st5) = body st4
      in (VoidType, onSymbolTable exitScope st5))"

definition analyzeStatementArm :: "MatchArm \<Rightarrow> Type \<Rightarrow> Type Analysis" where
  "analyzeStatementArm arm =
     (case arm of
        MatchArm pattern guard body l \<Rightarrow>
          analyzeMatchArm (analyzePattern pattern)
            (map_option (\<lambda>g. (location g, analyzeExpression g)) guard) (analyzeExpression body))"

definition analyzeMatchStatement :: "Expression \<Rightarrow> MatchArm list \<Rightarrow> Type Analysis" where
  "analyzeMatchStatement subject arms st =
     (let (subjectType, st1) = analyzeExpression subject st
      in (VoidType, seq (map (\<lambda>arm st'. snd (analyzeStatementArm arm subjectType st')) arms) st1))"

definition analyzeBlockStatement :: "Type Analysis list \<Rightarrow> Type Analysis" where
  "analyzeBlockStatement stmts st =
     (let st1 = onSymbolTable (enterScope ''block'' ''block'') st;
          (lastType, st2) = fold (\<lambda>stmt (lastType, st'). stmt st') stmts (VoidType, st1)
      in (lastType, onSymbolTable exitScope st2))"

definition analyzeAnnotation :: "Annotation \<Rightarrow> SemanticAnalyzer \<Rightarrow> SemanticAnalyzer" where
  "analyzeAnnotation ann st =
     (case ann of
        RequiresAnnotation condition l \<Rightarrow>
          (let (reqType, st1) = analyzeExpression condition st
           in checkCondition ''Requires condition'' l reqType st1)
      | EnsuresAnnotation condition l \<Rightarrow>
          (let (ensType, st1) = analyzeExpression condition st
           in checkCondition ''Ensures condition'' l ensType st1)
      | InvariantAnnotation condition l \<Rightarrow>
          (let (invType, st1) = analyzeExpression condition st
           in checkCondition ''Invariant'' l invType st1)
      | ContractAnnotation contract genericArgs l \<Rightarrow>
          (case SymbolTable_lookupContract (sa_symbolTable st) (name contract) of
             None \<Rightarrow> sa_error l (''Unknown contract: '' @ name contract) st
           | Some c \<Rightarrow> st)
      | IntentAnnotation intent genericArgs l \<Rightarrow>
          (case SymbolTable_lookupIntent (sa_symbolTable st) (name intent) of
             None \<Rightarrow> sa_error l (''Unknown intent: '' @ name intent) st
           | Some i \<Rightarrow> st)
      | EffectAnnotation effects l \<Rightarrow>
          seq (map (\<lambda>eff st'.
                      let (effType, st1) = resolveType eff st' in
                      if \<not> isEffectKind effType then
                        sa_warning l (typeToString effType @ '' is not an effect type'') st1
                      else st1) effects) st
      | CapabilityAnnotation capability perms l \<Rightarrow>
          (case SymbolTable_lookupType (sa_symbolTable st) (name capability) of
             Some capType \<Rightarrow>
               if isCapabilityKind capType then st
               else sa_error l (''Unknown capability: '' @ name capability) st
           | None \<Rightarrow> sa_error l (''Unknown capability: '' @ name capability) st)
      | VerifyAnnotation level l \<Rightarrow> st)"

definition defineParameter :: "Parameter \<Rightarrow> SemanticAnalyzer \<Rightarrow> SemanticAnalyzer" where
  "defineParameter param st =
     (let (paramType, st1) = resolveType (param_type param) st
      in onSymbolTable
           (SymbolTable_define (param_name param) paramType ''parameter'' (param_location param)
              (Some (param_isMutable param)) None None) st1)"

definition defineGenericParameter :: "GenericParameter \<Rightarrow> SemanticAnalyzer \<Rightarrow> SemanticAnalyzer" where
  "defineGenericParameter param st =
     (case param of
        GenericParameter n bounds dflt l \<Rightarrow>
          (let (typeVar, st1) = typeVariableOf param st
           in onSymbolTable (SymbolTable_defineType (name n) typeVar) st1))"

text \<open>The names of the effect annotations of a declaration: those of the named types.\<close>

definition declaredEffects :: "Annotation list \<Rightarrow> string list" where
  "declaredEffects annotations =
     fold setAdd
       (concat (map (\<lambda>ann. case ann of
                              EffectAnnotation effects l \<Rightarrow>
                                concat (map (\<lambda>eff. case eff of
                                                     AST_NamedType n path l' \<Rightarrow> [name n]
                                                   | _ \<Rightarrow> []) effects)
                            | _ \<Rightarrow> []) annotations)) []"

definition isFunctionKind :: "Type \<Rightarrow> bool" where
  "isFunctionKind t = (case t of FunctionType ps r es cs ks p \<Rightarrow> True | _ \<Rightarrow> False)"

definition analyzeFunctionDeclaration ::
  "FunctionDeclarationNode \<Rightarrow> Type Analysis option \<Rightarrow> Type Analysis" where
  "analyzeFunctionDeclaration decl body st =
     (case map_option sym_type (SymbolTable_lookup (sa_symbolTable st) (name (fd_name decl))) of
        None \<Rightarrow> (VoidType, st)
      | Some funcType \<Rightarrow>
          if \<not> isFunctionKind funcType then (VoidType, st)
          else
            (let st1 = setCurrentFunction (Some decl) st;
                 st2 = onSymbolTable (enterScope (name (fd_name decl)) ''function'') st1;
                 st3 = seq (map defineGenericParameter (fd_genericParams decl)) st2;
                 st4 = seq (map defineParameter (fd_parameters decl)) st3;
                 st5 = onSymbolTable (setEffects (declaredEffects (fd_annotations decl))) st4;
                 st6 = setContractContext False
                         (seq (map analyzeAnnotation (fd_annotations decl))
                            (setContractContext True st5));
                 st7 = (case body of Some b \<Rightarrow> snd (b st6) | None \<Rightarrow> st6);
                 st8 = onSymbolTable exitScope st7;
                 st9 = onSymbolTable clearEffects st8
             in (funcType, setCurrentFunction None st9)))"

text \<open>One round of the loop over the methods of an \<open>impl\<close>.\<close>

definition analyzeImplMethod ::
  "FunctionDeclarationNode \<Rightarrow> Type \<Rightarrow> Type Analysis option \<Rightarrow> SemanticAnalyzer \<Rightarrow> SemanticAnalyzer" where
  "analyzeImplMethod method forType body st =
     (let st1 = setCurrentFunction (Some method) st;
          st2 = onSymbolTable (enterScope (''impl_'' @ name (fd_name method)) ''function'') st1;
          st3 = onSymbolTable
                  (SymbolTable_define ''self'' forType ''parameter'' (fd_location method)
                     (Some False) None None) st2;
          st4 = seq (map defineParameter (fd_parameters method)) st3;
          st5 = (case body of Some b \<Rightarrow> snd (b st4) | None \<Rightarrow> st4);
          st6 = onSymbolTable exitScope st5
      in setCurrentFunction None st6)"

definition analyzeVariableDeclaration ::
  "IdentifierNode \<Rightarrow> TypeExpression option \<Rightarrow> Expression option \<Rightarrow> bool \<Rightarrow> bool \<Rightarrow> SourceLocation \<Rightarrow>
   Type Analysis" where
  "analyzeVariableDeclaration n type initializer isMutable isExported loc st =
     (let (declared, st1) = (case type of Some t \<Rightarrow> resolveType t st | None \<Rightarrow> (UnknownType, st));
          (varType, st2) =
             (case initializer of
                Some init \<Rightarrow>
                  (let (initType, st') = analyzeExpression init st1 in
                   if declared = UnknownType then (initType, st')
                   else if \<not> isAssignableTo initType declared then
                     (declared,
                      sa_error loc (''Cannot assign '' @ typeToString initType @ '' to ''
                                    @ typeToString declared) st')
                   else (declared, st'))
              | None \<Rightarrow>
                  if declared = UnknownType then
                    (declared, sa_error loc ''Cannot infer type without initializer'' st1)
                  else (declared, st1))
      in (varType,
          onSymbolTable
            (SymbolTable_define (name n) varType ''variable'' loc (Some isMutable) (Some isExported) None)
            st2))"

definition analyzeStructDeclaration :: "IdentifierNode \<Rightarrow> Annotation list \<Rightarrow> Type Analysis" where
  "analyzeStructDeclaration n invariants st =
     (case SymbolTable_lookupType (sa_symbolTable st) (name n) of
        Some structType \<Rightarrow>
          if isStructKind structType then (structType, analyzeInvariants ''Invariant'' invariants st)
          else (VoidType, st)
      | None \<Rightarrow> (VoidType, st))"

definition analyzeEnumDeclaration :: "IdentifierNode \<Rightarrow> Type Analysis" where
  "analyzeEnumDeclaration n st =
     (case SymbolTable_lookupType (sa_symbolTable st) (name n) of
        Some enumType \<Rightarrow> (enumType, st)
      | None \<Rightarrow> (VoidType, st))"

definition isTraitKind :: "Type \<Rightarrow> bool" where
  "isTraitKind t = (case t of TraitType nm ms sups gs m \<Rightarrow> True | _ \<Rightarrow> False)"

definition analyzeTraitDeclaration :: "IdentifierNode \<Rightarrow> Type Analysis list \<Rightarrow> Type Analysis" where
  "analyzeTraitDeclaration n methods st =
     (case SymbolTable_lookupType (sa_symbolTable st) (name n) of
        Some traitType \<Rightarrow>
          if isTraitKind traitType then (traitType, seq (map (\<lambda>m st'. snd (m st')) methods) st)
          else (VoidType, st)
      | None \<Rightarrow> (VoidType, st))"

definition analyzeImplDeclaration ::
  "TypeExpression option \<Rightarrow> TypeExpression \<Rightarrow> (Type \<Rightarrow> SemanticAnalyzer \<Rightarrow> SemanticAnalyzer) list \<Rightarrow>
   SourceLocation \<Rightarrow> Type Analysis" where
  "analyzeImplDeclaration trait forTypeExpr methods loc st =
     (let (forType, st1) = resolveType forTypeExpr st;
          st2 = (case trait of
                   Some t \<Rightarrow>
                     (let (traitType, st') = resolveType t st1 in
                      if \<not> isTraitKind traitType then sa_error loc ''Expected trait type'' st'
                      else st')
                 | None \<Rightarrow> st1)
      in (VoidType, seq (map (\<lambda>m. m forType) methods) st2))"

text \<open>\<open>spec.alias?.name || spec.name.name\<close>: an alias with the empty name counts as none.\<close>

definition analyzeImportDeclaration ::
  "(IdentifierNode \<times> IdentifierNode option \<times> SourceLocation) list \<Rightarrow> Type Analysis" where
  "analyzeImportDeclaration imports st =
     (VoidType,
      seq (map (\<lambda>(n, alias, specLoc).
                  onSymbolTable
                    (SymbolTable_define
                       (case alias of
                          Some a \<Rightarrow> (if name a = [] then name n else name a)
                        | None \<Rightarrow> name n)
                       UnknownType ''module'' specLoc None (Some False) None)) imports) st)"

text \<open>
  \<open>analyzeStatement\<close>.  The function on a declaration node takes \<open>None\<close> for the method
  \<open>analyzeFunctionDeclaration\<close> and \<open>Some forType\<close> for one round of the loop over the methods
  in \<open>analyzeImplDeclaration\<close>, where it returns the type \<open>Void\<close> that the loop does not use.
\<close>

primrec analyzeStatement :: "Statement \<Rightarrow> Type Analysis"
  and analyzeBlockStatementNode :: "BlockStatementNode \<Rightarrow> Type Analysis"
  and analyzeIfStatementNode :: "IfStatementNode \<Rightarrow> Type Analysis"
  and analyzeElseStatement :: "ElseStatement \<Rightarrow> Type Analysis"
  and analyzeFunctionNode :: "FunctionDeclarationNode \<Rightarrow> Type option \<Rightarrow> Type Analysis"
where
  "analyzeStatement (ExpressionStatement expression loc) = analyzeExpression expression"
| "analyzeStatement (ReturnStatement val loc) =
     analyzeReturnStatement (map_option analyzeExpression val) loc"
| "analyzeStatement (IfStatement n) = analyzeIfStatementNode n"
| "analyzeStatement (WhileStatement condition body invariants loc) =
     analyzeWhileStatement condition invariants (analyzeBlockStatementNode body)"
| "analyzeStatement (ForStatement variable iterable body invariants loc) =
     analyzeForStatement variable iterable invariants (analyzeBlockStatementNode body)"
| "analyzeStatement (MatchStatement subject arms loc) = analyzeMatchStatement subject arms"
| "analyzeStatement (BlockStatement n) = analyzeBlockStatementNode n"
| "analyzeStatement (FunctionDeclaration n) = analyzeFunctionNode n None"
| "analyzeStatement (VariableDeclaration n type initializer isMutable isExported loc) =
     analyzeVariableDeclaration n type initializer isMutable isExported loc"
| "analyzeStatement (TypeAliasDeclaration n gs type isExported loc) = (\<lambda>st. (VoidType, st))"
| "analyzeStatement (StructDeclaration n gs flds invariants isExported loc) =
     analyzeStructDeclaration n invariants"
| "analyzeStatement (EnumDeclaration n gs variants isExported loc) = analyzeEnumDeclaration n"
| "analyzeStatement (TraitDeclaration n gs supertraits methods isExported loc) =
     analyzeTraitDeclaration n (map (\<lambda>m. m None) (map analyzeFunctionNode methods))"
| "analyzeStatement (ImplDeclaration gs trait forType methods loc) =
     analyzeImplDeclaration trait forType
       (map (\<lambda>m forType' st. snd (m (Some forType') st)) (map analyzeFunctionNode methods)) loc"
| "analyzeStatement (ContractDeclaration n gs annotations isExported loc) = (\<lambda>st. (VoidType, st))"
| "analyzeStatement (IntentDeclaration n gs annotations isExported loc) = (\<lambda>st. (VoidType, st))"
| "analyzeStatement (EffectDeclaration n gs methods isExported loc) = (\<lambda>st. (VoidType, st))"
| "analyzeStatement (CapabilityDeclaration n flds isExported loc) = (\<lambda>st. (VoidType, st))"
| "analyzeStatement (ImportDeclaration path imports isWildcard loc) = analyzeImportDeclaration imports"
| "analyzeStatement (ExportDeclaration declaration loc) = analyzeStatement declaration"
| "analyzeBlockStatementNode (BlockStatementNode stmts loc) =
     analyzeBlockStatement (map analyzeStatement stmts)"
| "analyzeIfStatementNode (IfStatementNode condition thenBranch elseBranch loc) =
     analyzeIfStatement (location condition) (analyzeExpression condition)
       (analyzeBlockStatementNode thenBranch) (map_option analyzeElseStatement elseBranch)"
| "analyzeElseStatement (ElseBlock n) = analyzeBlockStatementNode n"
| "analyzeElseStatement (ElseIf n) = analyzeIfStatementNode n"
| "analyzeFunctionNode (FunctionDeclarationNode n gs ps rt anns body pure exported loc) =
     (\<lambda>implFor.
        case implFor of
          None \<Rightarrow>
            analyzeFunctionDeclaration (FunctionDeclarationNode n gs ps rt anns body pure exported loc)
              (map_option analyzeBlockStatementNode body)
        | Some forType \<Rightarrow>
            (\<lambda>st. (VoidType,
                   analyzeImplMethod (FunctionDeclarationNode n gs ps rt anns body pure exported loc)
                     forType (map_option analyzeBlockStatementNode body) st)))"

subsection \<open>The first pass: the declarations\<close>

definition collectFunctionDeclaration :: "FunctionDeclarationNode \<Rightarrow> SemanticAnalyzer \<Rightarrow> SemanticAnalyzer" where
  "collectFunctionDeclaration decl st =
     (let (funcType, st1) = createFunctionType decl st
      in onSymbolTable
           (SymbolTable_define (name (fd_name decl)) funcType ''function'' (fd_location decl) None
              (Some (fd_isExported decl)) (Some (sa_currentModule st1))) st1)"

definition defineDeclared ::
  "IdentifierNode \<Rightarrow> Type \<Rightarrow> string \<Rightarrow> SourceLocation \<Rightarrow> bool \<Rightarrow> SemanticAnalyzer \<Rightarrow> SemanticAnalyzer" where
  "defineDeclared n type kind loc isExported st =
     onSymbolTable
       (SymbolTable_define (name n) type kind loc None (Some isExported) (Some (sa_currentModule st)))
       (onSymbolTable (SymbolTable_defineType (name n) type) st)"

definition collectStructDeclaration ::
  "IdentifierNode \<Rightarrow> GenericParameter list \<Rightarrow> StructField list \<Rightarrow> bool \<Rightarrow> SourceLocation \<Rightarrow>
   SemanticAnalyzer \<Rightarrow> SemanticAnalyzer" where
  "collectStructDeclaration n gs flds isExported loc st =
     (let (genericParams, st1) = inOrder (map typeVariableOf gs) st;
          (types, st2) =
             inOrder (map (\<lambda>field. case field of StructField fn ft dflt anns l \<Rightarrow> resolveType ft) flds) st1;
          fieldMap = fold (\<lambda>(field, t). mapSet (sf_name field) t) (zip flds types) []
      in defineDeclared n (StructType (name n) fieldMap genericParams [] (sa_currentModule st2))
           ''struct'' loc isExported st2)"

definition collectEnumDeclaration ::
  "IdentifierNode \<Rightarrow> GenericParameter list \<Rightarrow>
   (IdentifierNode \<times> TypeExpression list option \<times> SourceLocation) list \<Rightarrow> bool \<Rightarrow> SourceLocation \<Rightarrow>
   SemanticAnalyzer \<Rightarrow> SemanticAnalyzer" where
  "collectEnumDeclaration n gs variants isExported loc st =
     (let (genericParams, st1) = inOrder (map typeVariableOf gs) st;
          (fieldTypes, st2) =
             inOrder (map (\<lambda>(vn, vfields, vl) s.
                             case vfields of
                               Some fs \<Rightarrow> (let (ts, s') = inOrder (map resolveType fs) s in (Some ts, s'))
                             | None \<Rightarrow> (None, s)) variants) st1;
          variantMap = fold (\<lambda>((vn, vfields, vl), ts). mapSet (name vn) ts) (zip variants fieldTypes) []
      in defineDeclared n (EnumType (name n) variantMap genericParams (sa_currentModule st2))
           ''enum'' loc isExported st2)"

definition collectTraitDeclaration ::
  "IdentifierNode \<Rightarrow> GenericParameter list \<Rightarrow> bool \<Rightarrow> SourceLocation \<Rightarrow>
   SemanticAnalyzer \<Rightarrow> SemanticAnalyzer" where
  "collectTraitDeclaration n gs isExported loc st =
     (let (genericParams, st1) = inOrder (map typeVariableOf gs) st
      in defineDeclared n (TraitType (name n) [] [] genericParams (sa_currentModule st1))
           ''trait'' loc isExported st1)"

definition collectContractDeclaration ::
  "IdentifierNode \<Rightarrow> GenericParameter list \<Rightarrow> Annotation list \<Rightarrow> SemanticAnalyzer \<Rightarrow> SemanticAnalyzer" where
  "collectContractDeclaration n gs annotations st =
     (let (genericParams, st1) = inOrder (map typeVariableOf gs) st
      in onSymbolTable
           (SymbolTable_defineContract
              \<lparr> cs_name = name n, cs_genericParams = genericParams,
                cs_requires =
                  concat (map (\<lambda>ann. case ann of
                                        RequiresAnnotation c l \<Rightarrow> [expressionToString c]
                                      | _ \<Rightarrow> []) annotations),
                cs_ensures =
                  concat (map (\<lambda>ann. case ann of
                                        EnsuresAnnotation c l \<Rightarrow> [expressionToString c]
                                      | _ \<Rightarrow> []) annotations),
                cs_invariants =
                  concat (map (\<lambda>ann. case ann of
                                        InvariantAnnotation c l \<Rightarrow> [expressionToString c]
                                      | _ \<Rightarrow> []) annotations),
                cs_module = sa_currentModule st1 \<rparr>) st1)"

definition collectIntentDeclaration ::
  "IdentifierNode \<Rightarrow> GenericParameter list \<Rightarrow> Annotation list \<Rightarrow> SemanticAnalyzer \<Rightarrow> SemanticAnalyzer" where
  "collectIntentDeclaration n gs annotations st =
     (let (genericParams, st1) = inOrder (map typeVariableOf gs) st
      in onSymbolTable
           (SymbolTable_defineIntent
              \<lparr> is_name = name n, is_genericParams = genericParams,
                is_ensures =
                  concat (map (\<lambda>ann. case ann of
                                        EnsuresAnnotation c l \<Rightarrow> [expressionToString c]
                                      | _ \<Rightarrow> []) annotations),
                is_module = sa_currentModule st1 \<rparr>) st1)"

definition collectEffectDeclaration ::
  "IdentifierNode \<Rightarrow> GenericParameter list \<Rightarrow> FunctionDeclarationNode list \<Rightarrow> bool \<Rightarrow> SourceLocation \<Rightarrow>
   SemanticAnalyzer \<Rightarrow> SemanticAnalyzer" where
  "collectEffectDeclaration n gs methods isExported loc st =
     (let (genericParams, st1) = inOrder (map typeVariableOf gs) st;
          (methodTypes, st2) = inOrder (map createFunctionType methods) st1;
          methodMap = fold (\<lambda>(method, t). mapSet (name (fd_name method)) t) (zip methods methodTypes) []
      in defineDeclared n (EffectType (name n) methodMap genericParams (sa_currentModule st2))
           ''effect'' loc isExported st2)"

definition collectCapabilityDeclaration ::
  "IdentifierNode \<Rightarrow> (IdentifierNode \<times> TypeExpression \<times> SourceLocation) list \<Rightarrow> bool \<Rightarrow> SourceLocation \<Rightarrow>
   SemanticAnalyzer \<Rightarrow> SemanticAnalyzer" where
  "collectCapabilityDeclaration n flds isExported loc st =
     (let (types, st1) = inOrder (map (\<lambda>(fn, ft, fl). resolveType ft) flds) st;
          permissions = fold (\<lambda>((fn, ft, fl), t). mapSet (name fn) t) (zip flds types) []
      in defineDeclared n (CapabilityType (name n) permissions (sa_currentModule st1))
           ''capability'' loc isExported st1)"

primrec collectDeclaration :: "Statement \<Rightarrow> SemanticAnalyzer \<Rightarrow> SemanticAnalyzer" where
  "collectDeclaration (ExpressionStatement expression loc) = (\<lambda>st. st)"
| "collectDeclaration (ReturnStatement val loc) = (\<lambda>st. st)"
| "collectDeclaration (IfStatement n) = (\<lambda>st. st)"
| "collectDeclaration (WhileStatement condition body invariants loc) = (\<lambda>st. st)"
| "collectDeclaration (ForStatement variable iterable body invariants loc) = (\<lambda>st. st)"
| "collectDeclaration (MatchStatement subject arms loc) = (\<lambda>st. st)"
| "collectDeclaration (BlockStatement n) = (\<lambda>st. st)"
| "collectDeclaration (FunctionDeclaration n) = collectFunctionDeclaration n"
| "collectDeclaration (VariableDeclaration n type initializer isMutable isExported loc) = (\<lambda>st. st)"
| "collectDeclaration (TypeAliasDeclaration n gs type isExported loc) = (\<lambda>st. st)"
| "collectDeclaration (StructDeclaration n gs flds invariants isExported loc) =
     collectStructDeclaration n gs flds isExported loc"
| "collectDeclaration (EnumDeclaration n gs variants isExported loc) =
     collectEnumDeclaration n gs variants isExported loc"
| "collectDeclaration (TraitDeclaration n gs supertraits methods isExported loc) =
     collectTraitDeclaration n gs isExported loc"
| "collectDeclaration (ImplDeclaration gs trait forType methods loc) = (\<lambda>st. st)"
| "collectDeclaration (ContractDeclaration n gs annotations isExported loc) =
     collectContractDeclaration n gs annotations"
| "collectDeclaration (IntentDeclaration n gs annotations isExported loc) =
     collectIntentDeclaration n gs annotations"
| "collectDeclaration (EffectDeclaration n gs methods isExported loc) =
     collectEffectDeclaration n gs methods isExported loc"
| "collectDeclaration (CapabilityDeclaration n flds isExported loc) =
     collectCapabilityDeclaration n flds isExported loc"
| "collectDeclaration (ImportDeclaration path imports isWildcard loc) = (\<lambda>st. st)"
| "collectDeclaration (ExportDeclaration declaration loc) = collectDeclaration declaration"

subsection \<open>The analysis of a program\<close>

text \<open>
  A new analyzer: the table with the eleven primitive types, \<open>Void\<close> and \<open>Never\<close> defined in
  the global scope.  The counter of type variables is a variable of the module \<^verbatim>\<open>types.ts\<close>:
  it is 0 when the module is loaded and no analysis resets it, so an analysis starts with the
  value that the analyses before it in the same process have left.  That value is the
  argument \<open>counter\<close>; the value that a run leaves is in its final state.
\<close>

definition initBuiltinTypes :: "SymbolTable \<Rightarrow> SymbolTable" where
  "initBuiltinTypes t =
     SymbolTable_defineType ''Never'' NeverType
       (SymbolTable_defineType ''Void'' VoidType
          (fold (\<lambda>(nm, type). SymbolTable_defineType nm type) PRIMITIVES t))"

definition SemanticAnalyzer_new :: "nat \<Rightarrow> SemanticAnalyzer" where
  "SemanticAnalyzer_new counter =
     \<lparr> sa_errors = [], sa_warnings = [], sa_symbolTable = initBuiltinTypes SymbolTable_new,
       sa_typeMap = [], sa_currentModule = ''main'', sa_currentFunction = None,
       sa_inContractContext = False, typeVarCounter = counter, sa_notAType = False \<rparr>"

definition collectDeclarations :: "Program \<Rightarrow> SemanticAnalyzer \<Rightarrow> SemanticAnalyzer" where
  "collectDeclarations program st = seq (map collectDeclaration (statements program)) st"

definition analyzeProgram :: "Program \<Rightarrow> SemanticAnalyzer \<Rightarrow> SemanticAnalyzer" where
  "analyzeProgram program st =
     seq (map (\<lambda>stmt st'. snd (analyzeStatement stmt st')) (statements program)) st"

text \<open>The two passes of \<open>analyze\<close>, as the final state of the analyzer.\<close>

definition analyzePasses :: "nat \<Rightarrow> Program \<Rightarrow> SemanticAnalyzer" where
  "analyzePasses counter program =
     analyzeProgram program (collectDeclarations program (SemanticAnalyzer_new counter))"

definition analyze :: "nat \<Rightarrow> Program \<Rightarrow> Exception + AnalysisResult" where
  "analyze counter program =
     (let st = analyzePasses counter program in
      if sa_notAType st then Inl NotAType
      else Inr \<lparr> ar_errors = sa_errors st, ar_warnings = sa_warnings st,
                 ar_symbolTable = sa_symbolTable st, ar_typeMap = sa_typeMap st \<rparr>)"

section \<open>The compiler entry point (index.ts)\<close>

text \<open>
  \<open>compile\<close> runs the scanner and takes the three later phases as parameters: the parser,
  which is not part of this development, the analyzer, and the generator; in the examples the
  last two are \<open>analyze\<close> and \<open>generateJavaScript\<close> as defined above.  The calls of the scanner,
  the parser and the analyzer stand outside the \<open>try\<close> block: when one of them does not return
  (\<open>Inl\<close>), neither does \<open>compile\<close>.  The call of the generator stands inside it, and an
  exception of the generator (\<open>Inl\<close> its message) becomes an error of the phase \<open>codegen\<close>.
  The options record extends the generator's by the two fields the generator does not have.
\<close>

record CompilerOptions = GeneratorOptions +
  verifyLevel :: string
  stopOnFirstError :: bool

definition DEFAULT_OPTIONS :: CompilerOptions where
  "DEFAULT_OPTIONS =
     \<lparr> target = ''javascript'', moduleSystem = ''esm'', runtimeContracts = True,
       sourceMap = False, minify = False, verifyLevel = ''runtime'', stopOnFirstError = False \<rparr>"

record CompilerError =
  ce_phase :: string
  ce_message :: string
  ce_file :: "string option"
  ce_line :: int
  ce_column :: int
  ce_severity :: string

record ParseError =
  pe_message :: string
  pe_location :: SourceLocation
  pe_token :: Token

record CompilationResult =
  success :: bool
  res_output :: "string option"
  res_errors :: "CompilerError list"
  res_warnings :: "CompilerError list"
  res_ast :: "Program option"
  res_tokens :: "Token list option"
  res_analysisResult :: "AnalysisResult option"

definition lexerError :: "LexerError \<Rightarrow> CompilerError" where
  "lexerError err =
     \<lparr> ce_phase = ''lexer'', ce_message = lexerr_message err,
       ce_file = loc_file (lexerr_location err), ce_line = loc_line (lexerr_location err),
       ce_column = loc_column (lexerr_location err), ce_severity = ''error'' \<rparr>"

definition parserError :: "ParseError \<Rightarrow> CompilerError" where
  "parserError err =
     \<lparr> ce_phase = ''parser'', ce_message = pe_message err,
       ce_file = loc_file (pe_location err), ce_line = loc_line (pe_location err),
       ce_column = loc_column (pe_location err), ce_severity = ''error'' \<rparr>"

definition analyzerError :: "SemanticError \<Rightarrow> CompilerError" where
  "analyzerError err =
     \<lparr> ce_phase = ''analyzer'', ce_message = se_message err,
       ce_file = loc_file (se_location err), ce_line = loc_line (se_location err),
       ce_column = loc_column (se_location err), ce_severity = se_severity err \<rparr>"

definition analyzerWarning :: "SemanticError \<Rightarrow> CompilerError" where
  "analyzerWarning warn =
     \<lparr> ce_phase = ''analyzer'', ce_message = se_message warn,
       ce_file = loc_file (se_location warn), ce_line = loc_line (se_location warn),
       ce_column = loc_column (se_location warn), ce_severity = ''warning'' \<rparr>"

definition codegenError :: "string \<Rightarrow> CompilerError" where
  "codegenError msg =
     \<lparr> ce_phase = ''codegen'', ce_message = msg, ce_file = None, ce_line = 0, ce_column = 0,
       ce_severity = ''error'' \<rparr>"

definition generatorOptions :: "CompilerOptions \<Rightarrow> GeneratorOptions" where
  "generatorOptions opts =
     \<lparr> target = target opts, moduleSystem = moduleSystem opts,
       runtimeContracts = runtimeContracts opts, sourceMap = sourceMap opts,
       minify = minify opts \<rparr>"

definition compile ::
  "CompilerOptions \<Rightarrow> (Token list \<Rightarrow> Exception + Program \<times> ParseError list) \<Rightarrow>
   (Program \<Rightarrow> Exception + AnalysisResult) \<Rightarrow>
   (Program \<Rightarrow> AnalysisResult \<Rightarrow> GeneratorOptions \<Rightarrow> string + string) \<Rightarrow>
   string \<Rightarrow> string option \<Rightarrow> Exception + CompilationResult" where
  "compile opts parse analyzeFn generateJS src filename =
     (case tokenize src filename of
        Inl e \<Rightarrow> Inl e
      | Inr (toks, lexerErrors) \<Rightarrow>
          (let errors1 = map lexerError lexerErrors in
           if stopOnFirstError opts \<and> length errors1 > 0 then
             Inr \<lparr> success = False, res_output = None, res_errors = errors1, res_warnings = [],
                   res_ast = None, res_tokens = Some toks, res_analysisResult = None \<rparr>
           else
             (case parse toks of
                Inl e \<Rightarrow> Inl e
              | Inr (ast, parseErrors) \<Rightarrow>
                  (let errors2 = errors1 @ map parserError parseErrors in
                   if stopOnFirstError opts \<and> length errors2 > 0 then
                     Inr \<lparr> success = False, res_output = None, res_errors = errors2,
                           res_warnings = [], res_ast = Some ast, res_tokens = Some toks,
                           res_analysisResult = None \<rparr>
                   else
                     (case analyzeFn ast of
                        Inl e \<Rightarrow> Inl e
                      | Inr analysisResult \<Rightarrow>
                          (let errors3 = errors2 @ map analyzerError (ar_errors analysisResult);
                               warnings = map analyzerWarning (ar_warnings analysisResult)
                           in if stopOnFirstError opts \<and> length errors3 > 0 then
                                Inr \<lparr> success = False, res_output = None, res_errors = errors3,
                                      res_warnings = warnings, res_ast = Some ast,
                                      res_tokens = Some toks,
                                      res_analysisResult = Some analysisResult \<rparr>
                              else
                                (case generateJS ast analysisResult (generatorOptions opts) of
                                   Inr out \<Rightarrow>
                                     Inr \<lparr> success = (length errors3 = 0),
                                           res_output = Some out,
                                           res_errors = errors3, res_warnings = warnings,
                                           res_ast = Some ast, res_tokens = Some toks,
                                           res_analysisResult = Some analysisResult \<rparr>
                                 | Inl msg \<Rightarrow>
                                     Inr \<lparr> success = False, res_output = None,
                                           res_errors = errors3 @ [codegenError msg],
                                           res_warnings = warnings, res_ast = Some ast,
                                           res_tokens = Some toks,
                                           res_analysisResult = Some analysisResult \<rparr>)))))))"

section \<open>The programs of the examples\<close>

text \<open>
  The parser is not part of this development, so the example programs are given as the syntax
  trees the parser builds for them; every node carries the location 1:1, which the generator only
  prints into the location argument of a guard.
\<close>

definition L1 :: SourceLocation where
  "L1 = \<lparr> loc_line = 1, loc_column = 1, loc_offset = 0, loc_length = 0, loc_file = None \<rparr>"

definition ident :: "string \<Rightarrow> Expression" where
  "ident n = Identifier (IdentifierNode n L1)"

definition intLit :: "int \<Rightarrow> Expression" where
  "intLit i = Literal (LiteralNode (NumberValue (showInt i)) ''integer'' L1)"

definition intType :: TypeExpression where
  "intType = AST_PrimitiveType ''Int'' L1"

text \<open>\<^verbatim>\<open>fn inc(mut x: Int) -> Void @ensures x == old(x) + 1 { x += k }\<close>\<close>

definition incEnsures :: Annotation where
  "incEnsures =
     EnsuresAnnotation
       (BinaryExpression ''=='' (ident ''x'')
          (BinaryExpression ''+'' (OldExpression (ident ''x'') L1) (intLit 1) L1) L1) L1"

definition incFunction :: "int \<Rightarrow> Statement" where
  "incFunction k =
     FunctionDeclaration
       (FunctionDeclarationNode (IdentifierNode ''inc'' L1) []
          [Parameter (IdentifierNode ''x'' L1) intType True None L1]
          (AST_PrimitiveType ''Void'' L1) [incEnsures]
          (Some (BlockStatementNode
             [ExpressionStatement (AssignmentExpression ''+='' (ident ''x'') (intLit k) L1) L1] L1))
          False False L1)"

text \<open>\<^verbatim>\<open>fn allSame(a: [Int], x: Int) -> Bool @ensures forall i in a: i == old(x) { return true }\<close>\<close>

definition allSameEnsures :: Annotation where
  "allSameEnsures =
     EnsuresAnnotation
       (ForallExpression [(IdentifierNode ''i'' L1, Some (ident ''a''), L1)]
          (BinaryExpression ''=='' (ident ''i'') (OldExpression (ident ''x'') L1) L1) L1) L1"

definition allSameFunction :: Statement where
  "allSameFunction =
     FunctionDeclaration
       (FunctionDeclarationNode (IdentifierNode ''allSame'' L1) []
          [Parameter (IdentifierNode ''a'' L1) (AST_ArrayType intType None L1) False None L1,
           Parameter (IdentifierNode ''x'' L1) intType False None L1]
          (AST_PrimitiveType ''Bool'' L1) [allSameEnsures]
          (Some (BlockStatementNode
             [ReturnStatement (Some (Literal (LiteralNode (BooleanValue True) ''boolean'' L1))) L1]
             L1))
          False False L1)"

text \<open>\<^verbatim>\<open>fn divide(a: Int, b: Int) -> Int @requires b != 0 { return a / b }\<close>\<close>

definition divideSource :: string where
  "divideSource = ''fn divide(a: Int, b: Int) -> Int @requires b != 0 { return a / b }''"

definition divideProgram :: Program where
  "divideProgram =
     Program
       [FunctionDeclaration
          (FunctionDeclarationNode (IdentifierNode ''divide'' L1) []
             [Parameter (IdentifierNode ''a'' L1) intType False None L1,
              Parameter (IdentifierNode ''b'' L1) intType False None L1]
             intType
             [RequiresAnnotation (BinaryExpression ''!='' (ident ''b'') (intLit 0) L1) L1]
             (Some (BlockStatementNode
                [ReturnStatement
                   (Some (BinaryExpression ''/'' (ident ''a'') (ident ''b'') L1)) L1] L1))
             False False L1)] L1"

text \<open>The lines of the runtime prelude, which open every output generated with runtime contracts.\<close>

definition prelude :: "string list" where
  "prelude =
     outputLines (emitRuntimeHelpers \<lparr> outputLines = [], indentLevel = 0, currentFunction = None \<rparr>)"

text \<open>\<open>containsText pat s\<close>: the text \<open>pat\<close> occurs in \<open>s\<close>.\<close>

fun containsText :: "string \<Rightarrow> string \<Rightarrow> bool" where
  "containsText pat [] = (pat = [])"
| "containsText pat (c # cs) = (take (length pat) (c # cs) = pat \<or> containsText pat cs)"

text \<open>A parser that returns a given program without errors, and the generator as \<open>compile\<close> calls it.\<close>

definition parseAs :: "Program \<Rightarrow> Token list \<Rightarrow> Exception + Program \<times> ParseError list" where
  "parseAs program toks = Inr (program, [])"

definition runGenerator :: "Program \<Rightarrow> 'a \<Rightarrow> GeneratorOptions \<Rightarrow> string + string" where
  "runGenerator program analysisResult opts = Inr (generateJavaScript program analysisResult opts)"



text \<open>The messages of the errors and of the warnings of an analysis that returns.\<close>

definition errorMessages :: "Exception + AnalysisResult \<Rightarrow> Exception + string list" where
  "errorMessages r = map_sum id (\<lambda>a. map se_message (ar_errors a)) r"


text \<open>
  \<^verbatim>\<open>effect IO {}\<close>, \<^verbatim>\<open>fn log() -> Void @effect[IO] {}\<close>, and a function \<open>caller\<close> whose body is
  the call \<^verbatim>\<open>log()\<close>, with a given list of annotations.
\<close>

definition voidType :: TypeExpression where
  "voidType = AST_PrimitiveType ''Void'' L1"

definition effectIO :: Statement where
  "effectIO = EffectDeclaration (IdentifierNode ''IO'' L1) [] [] False L1"

definition ioAnnotation :: Annotation where
  "ioAnnotation = EffectAnnotation [AST_NamedType (IdentifierNode ''IO'' L1) [] L1] L1"

definition functionNode ::
  "string \<Rightarrow> Annotation list \<Rightarrow> Statement list \<Rightarrow> bool \<Rightarrow> FunctionDeclarationNode" where
  "functionNode nm annotations body isPure =
     FunctionDeclarationNode (IdentifierNode nm L1) [] [] voidType annotations
       (Some (BlockStatementNode body L1)) isPure False L1"

definition logFunction :: Statement where
  "logFunction = FunctionDeclaration (functionNode ''log'' [ioAnnotation] [] False)"

definition callLog :: Statement where
  "callLog = ExpressionStatement (CallExpression (ident ''log'') [] [] L1) L1"

definition callerProgram :: "Annotation list \<Rightarrow> Program" where
  "callerProgram annotations =
     Program [effectIO, logFunction,
              FunctionDeclaration (functionNode ''caller'' annotations [callLog] False)] L1"

text \<open>
  The same call in a method:
  \<^verbatim>\<open>struct Logger {}  impl Logger { fn write() -> Void @effect[IO] { log() } }\<close>.
\<close>

definition writeMethod :: FunctionDeclarationNode where
  "writeMethod = functionNode ''write'' [ioAnnotation] [callLog] False"

definition methodProgram :: Program where
  "methodProgram =
     Program [effectIO, logFunction,
              StructDeclaration (IdentifierNode ''Logger'' L1) [] [] [] False L1,
              ImplDeclaration [] None (AST_NamedType (IdentifierNode ''Logger'' L1) [] L1)
                [writeMethod] L1] L1"



text \<open>\<^verbatim>\<open>let x = y + 1\<close>, where \<open>y\<close> is not defined.\<close>

definition undefinedOperandProgram :: Program where
  "undefinedOperandProgram =
     Program [VariableDeclaration (IdentifierNode ''x'' L1) None
                (Some (BinaryExpression ''+'' (ident ''y'') (intLit 1) L1)) False False L1] L1"




section \<open>The purity flag in the checker\<close>

text \<open>
  \<open>unpure\<close> is a declaration without its flag \<open>pure\<close>, and \<open>forgetPure\<close> clears the flag of the
  declaration that the analyzer holds as its current function.  A step of the analysis
  \<open>ignoresPure\<close> when it commutes with \<open>forgetPure\<close>: it gives the same type, and the same state
  up to the flag, whether the flag of the current function is set or not.
\<close>

definition unpure :: "FunctionDeclarationNode \<Rightarrow> FunctionDeclarationNode" where
  "unpure d =
     (case d of
        FunctionDeclarationNode n gs ps rt anns body pure exported l \<Rightarrow>
          FunctionDeclarationNode n gs ps rt anns body False exported l)"

definition forgetPure :: "SemanticAnalyzer \<Rightarrow> SemanticAnalyzer" where
  "forgetPure st = st\<lparr> sa_currentFunction := map_option unpure (sa_currentFunction st) \<rparr>"


definition ignoresPureT :: "(SemanticAnalyzer \<Rightarrow> SemanticAnalyzer) \<Rightarrow> bool" where
  "ignoresPureT g = (\<forall>st. g (forgetPure st) = forgetPure (g st))"


section \<open>Assignability\<close>

lemma isAssignableTo_Never: "isAssignableTo NeverType t"
  by (simp add: isAssignableTo.simps)


lemma isAssignableTo_typeEquals: "typeEquals s t \<Longrightarrow> isAssignableTo s t"
  by (simp add: isAssignableTo.simps)

lemma isAssignableTo_Optional: "isAssignableTo s t \<Longrightarrow> isAssignableTo s (OptionalType t)"
  by (simp add: isAssignableTo.simps [of s "OptionalType t"])

lemma isAssignableTo_Error_source: "isAssignableTo (ErrorType m) t"
  by (simp add: isAssignableTo.simps isErrorKind_def)

lemma isAssignableTo_Error_target: "isAssignableTo s (ErrorType m)"
  by (simp add: isAssignableTo.simps isErrorKind_def)

lemma isAssignableTo_Reference_immutable_target:
  "isAssignableTo s t \<Longrightarrow> isAssignableTo (ReferenceType s m) (ReferenceType t False)"
  by (simp add: isAssignableTo.simps [of "ReferenceType s m" "ReferenceType t False"]
        isErrorKind_def)

lemma isAssignableTo_Reference_mutable_both:
  "isAssignableTo s t \<Longrightarrow> isAssignableTo (ReferenceType s True) (ReferenceType t True)"
  by (simp add: isAssignableTo.simps [of "ReferenceType s True" "ReferenceType t True"]
        isErrorKind_def)

lemma isAssignableTo_Reference_never_reverse:
  "\<not> isAssignableTo (ReferenceType s False) (ReferenceType t True)"
  by (simp add: isAssignableTo.simps [of "ReferenceType s False" "ReferenceType t True"]
        isErrorKind_def)

lemma isAssignableTo_integers:
  "isInteger s \<Longrightarrow> isInteger t \<Longrightarrow>
   isAssignableTo s t = (getNumericSize s \<le> getNumericSize t)"
  by (cases s; cases t)
     (auto simp: isAssignableTo.simps isErrorKind_def isInteger_def isNumeric_def
        numericCoercion_def getNumericSize_def split: PrimName.splits)

lemma isAssignableTo_floats:
  "isFloat s \<Longrightarrow> isFloat t \<Longrightarrow>
   isAssignableTo s t = (getNumericSize s \<le> getNumericSize t)"
  by (cases s; cases t)
     (auto simp: isAssignableTo.simps isErrorKind_def isInteger_def isFloat_def isNumeric_def
        numericCoercion_def getNumericSize_def split: PrimName.splits)

lemma isAssignableTo_integer_to_float:
  "isInteger s \<Longrightarrow> isFloat t \<Longrightarrow> isAssignableTo s t"
  by (cases s; cases t)
     (auto simp: isAssignableTo.simps isErrorKind_def isInteger_def isFloat_def isNumeric_def
        numericCoercion_def getNumericSize_def split: PrimName.splits)

lemma isAssignableTo_not_symmetric:
  "isAssignableTo (PrimitiveType PInt8) (PrimitiveType PInt16) \<and>
   \<not> isAssignableTo (PrimitiveType PInt16) (PrimitiveType PInt8)"
  by (simp add: isAssignableTo.simps isErrorKind_def isInteger_def isNumeric_def
        numericCoercion_def getNumericSize_def)

text \<open>
  Claim C4.  The assignability relation is claimed to accept equal types, and \<open>&T\<close> into
  \<open>&T\<close>, for all types.  The lemmas above establish every other part of the claim
  (\<open>Never\<close> into anything, anything into \<open>Unknown\<close>, plain into optional, mutable
  reference into immutable and never the reverse, numeric widening by bit width, integer into
  float, no symmetry).  At an effect type the relation is not reflexive: \<open>typeEquals\<close> has no
  case for the kinds \<open>effect\<close> and \<open>capability\<close>, so the effect type \<open>IO\<close> is not equal
  to itself, is not assignable to itself, and neither \<open>&IO\<close> nor \<open>&mut IO\<close> is assignable
  to \<open>&IO\<close>.
\<close>

theorem effect_type_not_assignable_to_itself:
  "\<not> typeEquals (EffectType ''IO'' [] [] ''main'') (EffectType ''IO'' [] [] ''main'') \<and>
   \<not> isAssignableTo (EffectType ''IO'' [] [] ''main'') (EffectType ''IO'' [] [] ''main'') \<and>
   \<not> isAssignableTo (ReferenceType (EffectType ''IO'' [] [] ''main'') False)
        (ReferenceType (EffectType ''IO'' [] [] ''main'') False) \<and>
   \<not> isAssignableTo (ReferenceType (EffectType ''IO'' [] [] ''main'') True)
        (ReferenceType (EffectType ''IO'' [] [] ''main'') False)"
  by (simp add: isAssignableTo.simps isErrorKind_def isNumeric_def numericCoercion_def)

section \<open>The scanner: positions of the tokens, and exceptions\<close>

lemma sliceOk_empty: "sliceOk s (createToken ty [] ln col off lit)"
  by (simp add: sliceOk_def createToken_def substring_def Let_def)

lemma tokenizeLoop_slices:
  "tokenizeLoop L = Inr L' \<Longrightarrow> \<forall>t \<in> set (tokens L). sliceOk (source L) t \<Longrightarrow>
   source L' = source L \<and> (\<forall>t \<in> set (tokens L'). sliceOk (source L) t)"
proof (induction L rule: tokenizeLoop.induct)
  case (1 L)
  show ?case
  proof (cases "isAtEnd L")
    case True
    with "1.prems" show ?thesis by (subst (asm) tokenizeLoop.simps) auto
  next
    case False
    let ?L0 = "L\<lparr> start := current L \<rparr>"
    from "1.prems"(1) False obtain L1 where
      s: "scanToken ?L0 = Inr L1" and r: "tokenizeLoop L1 = Inr L'"
      by (subst (asm) tokenizeLoop.simps) (auto split: sum.splits)
    from lexStep_scanToken(1) [OF s] "1.prems"(2)
    have src: "source L1 = source L" and ok: "\<forall>t \<in> set (tokens L1). sliceOk (source L) t"
      by (simp_all add: lexStep_def)
    from "1.IH" [OF False s r] ok src show ?thesis by simp
  qed
qed

text \<open>
  Claim C9.  Whenever \<open>tokenize\<close> returns on a source \<open>src\<close>, every token of the returned list
  (the synthetic \<open>INVALID\<close> tokens and the final \<open>EOF\<close> token included) has as its value the
  substring of \<open>src\<close> that starts at the offset of the token's location and has the length of
  the token's location.
\<close>

theorem tokenize_token_slices:
  assumes "tokenize src f = Inr (toks, errs)"
  shows "\<forall>t \<in> set toks.
           substring src (loc_offset (tok_location t))
             (loc_offset (tok_location t) + loc_length (tok_location t)) = tok_value t"
proof -
  let ?L0 = "\<lparr> source = src, tokens = [], errors = [], start = 0, current = 0, line = 1,
               column = 1, lineStart = 0, file_name = f \<rparr>"
  from assms obtain L where L: "tokenizeLoop ?L0 = Inr L"
    and toks: "toks = tokens L @ [createToken (TokenType ''EOF'') [] (line L) (column L) (current L) None]"
    unfolding tokenize_def by (auto split: sum.splits)
  from tokenizeLoop_slices [OF L] have "\<forall>t \<in> set (tokens L). sliceOk src t" by simp
  then have "\<forall>t \<in> set toks. sliceOk src t" unfolding toks by (simp add: sliceOk_empty)
  then show ?thesis by (simp add: sliceOk_def)
qed

text \<open>
  The source \<^verbatim>\<open>a $\<close>: an identifier, an \<open>INVALID\<close> token for the unexpected character, and
  \<open>EOF\<close>, with one diagnostic.
\<close>

lemma tokenize_invalid_character:
  "tokenize ''a $'' None =
     Inr ([\<lparr> tok_type = TokenType ''IDENTIFIER'', tok_value = ''a'',
              tok_location = \<lparr> loc_line = 1, loc_column = 1, loc_offset = 0, loc_length = 1,
                               loc_file = None \<rparr>,
              tok_literal = None \<rparr>,
           \<lparr> tok_type = TokenType ''INVALID'', tok_value = ''$'',
              tok_location = \<lparr> loc_line = 1, loc_column = 3, loc_offset = 2, loc_length = 1,
                               loc_file = None \<rparr>,
              tok_literal = None \<rparr>,
           \<lparr> tok_type = TokenType ''EOF'', tok_value = [],
              tok_location = \<lparr> loc_line = 1, loc_column = 4, loc_offset = 3, loc_length = 0,
                               loc_file = None \<rparr>,
              tok_literal = None \<rparr>],
          [\<lparr> lexerr_message = ''Unexpected character: '' @ [CHR 0x27] @ ''$'' @ [CHR 0x27],
              lexerr_location = \<lparr> loc_line = 1, loc_column = 4, loc_offset = 3, loc_length = 1,
                                  loc_file = None \<rparr> \<rparr>])"
  by code_simp

theorem tokenize_token_slices_witness:
  "\<exists>toks errs. tokenize ''a $'' None = Inr (toks, errs) \<and>
     map tok_type toks = [TokenType ''IDENTIFIER'', TokenType ''INVALID'', TokenType ''EOF''] \<and>
     list_all (\<lambda>t. substring ''a $'' (loc_offset (tok_location t))
                      (loc_offset (tok_location t) + loc_length (tok_location t)) = tok_value t)
       toks"
  using tokenize_token_slices [OF tokenize_invalid_character] tokenize_invalid_character
  by (simp add: list_all_iff)

text \<open>
  Claim C6.  \<open>tokenize\<close> terminates on every source (the model is a total function), but it
  does not always return: on the six characters \<^verbatim>\<open>"\u{}"\<close> the escape has no hex digits,
  \<open>parseInt('', 16)\<close> is \<open>NaN\<close>, and \<open>String.fromCodePoint(NaN)\<close> throws a \<open>RangeError\<close>, which
  nothing in \<open>escapeSequence\<close>, \<open>tokenize\<close> or \<open>compile\<close> catches.  No diagnostic list is
  returned.
\<close>

theorem tokenize_throws_on_empty_unicode_escape:
  "tokenize [CHR 0x22, CHR 0x5C, CHR ''u'', CHR ''{'', CHR ''}'', CHR 0x22] None = Inl RangeError \<and>
   compile opts parse analyzeFn generateJS
     [CHR 0x22, CHR 0x5C, CHR ''u'', CHR ''{'', CHR ''}'', CHR 0x22] None = Inl RangeError"
proof -
  have "tokenize [CHR 0x22, CHR 0x5C, CHR ''u'', CHR ''{'', CHR ''}'', CHR 0x22] None = Inl RangeError"
    by code_simp
  then show ?thesis by (simp add: compile_def)
qed

section \<open>The generator: postconditions and pre-state snapshots\<close>

lemma length_prelude: "length prelude = 45"
  by code_simp

text \<open>
  Claim C1.  With runtime contracts on, the function
  \<^verbatim>\<open>fn inc(mut x: Int) -> Void @ensures x == old(x) + 1 { x += 2 }\<close> is generated as the
  prelude followed by the function with its snapshot of \<open>x\<close> and its body, and no line of the
  output calls \<open>__intent.ensures\<close>: the postcondition is emitted by \<open>generateReturnStatement\<close>
  only, for a \<open>return\<close> with a value, and this body has none.  The wrong body \<open>x += 2\<close> and the
  correct body \<open>x += 1\<close> give the same output up to that one line, so neither raises.
\<close>

theorem inc_postcondition_never_checked:
  "generateLines (generatorOptions DEFAULT_OPTIONS) (Program [incFunction 2] L1) =
     prelude @ [''function inc(x) {'', ''  const __old_x = __intent.clone(x);'', ''  x += 2;'',
                ''}'', []] \<and>
   generateLines (generatorOptions DEFAULT_OPTIONS) (Program [incFunction 1] L1) =
     prelude @ [''function inc(x) {'', ''  const __old_x = __intent.clone(x);'', ''  x += 1;'',
                ''}'', []] \<and>
   \<not> list_ex (containsText ''__intent.ensures('')
         (generateLines (generatorOptions DEFAULT_OPTIONS) (Program [incFunction 2] L1))"
proof -
  have a: "generateLines (generatorOptions DEFAULT_OPTIONS) (Program [incFunction 2] L1) =
     prelude @ [''function inc(x) {'', ''  const __old_x = __intent.clone(x);'', ''  x += 2;'',
                ''}'', []]"
    by code_simp
  have b: "generateLines (generatorOptions DEFAULT_OPTIONS) (Program [incFunction 1] L1) =
     prelude @ [''function inc(x) {'', ''  const __old_x = __intent.clone(x);'', ''  x += 1;'',
                ''}'', []]"
    by code_simp
  have c: "\<not> list_ex (containsText ''__intent.ensures('')
         (generateLines (generatorOptions DEFAULT_OPTIONS) (Program [incFunction 2] L1))"
    by code_simp
  from a b c show ?thesis by (intro conjI)
qed

text \<open>
  A \<open>return\<close> with a value in a function with a postcondition is generated as the claim says:
  the value is bound to \<open>__result\<close>, every postcondition is checked with \<open>result\<close> replaced by
  that name, and \<open>__result\<close> is returned.
\<close>

lemma generateReturnStatement_ensures:
  assumes "runtimeContracts opts" and "currentFunction g = Some f"
    and "getEnsuresAnnotations (fd_annotations f) \<noteq> []"
  shows "generateReturnStatement opts (Some v) loc g =
           seq ([emit (''const __result = '' @ generateExpression v @ '';'')] @
                map (\<lambda>condition.
                       emit (''__intent.ensures('' @
                             replaceWords (\<lambda>w. if w = ''result'' then ''__result'' else w) []
                               (generateExpression condition) @
                             '', '' @ JSON_stringify (exprToString condition) @ '', '' @
                             [CHR 0x22] @ locString loc @ [CHR 0x22] @ '');''))
                  (getEnsuresAnnotations (fd_annotations f)) @
                [emit ''return __result;'']) g"
  using assms by (simp add: generateReturnStatement_def Let_def)

text \<open>
  Claim C2.  \<open>collectOldExpressions\<close> does not look inside a quantifier: for a postcondition
  that is a \<open>forall\<close> or an \<open>exists\<close> it collects nothing, whatever the body holds.  For
  \<^verbatim>\<open>fn allSame(a: [Int], x: Int) -> Bool @ensures forall i in a: i == old(x) { return true }\<close>
  the emitted check reads \<open>__old_x\<close>, and no line of the function binds that name.
\<close>

theorem old_inside_quantifier_not_collected:
  \<open>collectOldExpressions [EnsuresAnnotation (ForallExpression bindings condition l) l'] = [] \<and>
   collectOldExpressions [EnsuresAnnotation (ExistsExpression bindings condition l) l'] = [] \<and>
   generateLines (generatorOptions DEFAULT_OPTIONS) (Program [allSameFunction] L1) =
     prelude @
     [''function allSame(a, x) {'',
      ''  const __result = true;'',
      ''  __intent.ensures(a.every(i => (i == __old_x)), "<expr>", "1:1");'',
      ''  return __result;'',
      ''}'', []]\<close>
proof -
  have a: "collectOldExpressions [EnsuresAnnotation (ForallExpression bindings condition l) l'] = []"
    by (simp add: collectOldExpressions_def findOld_def)
  have b: "collectOldExpressions [EnsuresAnnotation (ExistsExpression bindings condition l) l'] = []"
    by (simp add: collectOldExpressions_def findOld_def)
  have c: \<open>generateLines (generatorOptions DEFAULT_OPTIONS) (Program [allSameFunction] L1) =
     prelude @
     [''function allSame(a, x) {'',
      ''  const __result = true;'',
      ''  __intent.ensures(a.every(i => (i == __old_x)), "<expr>", "1:1");'',
      ''  return __result;'',
      ''}'', []]\<close>
    by code_simp
  from a b c show ?thesis by (intro conjI)
qed

section \<open>The compiler entry point: options and the result\<close>

text \<open>\<open>compile\<close> never reads the verification level.\<close>

lemma compile_ignores_verifyLevel:
  "compile (opts\<lparr> verifyLevel := level \<rparr>) parse analyzeFn generateJS src filename =
   compile opts parse analyzeFn generateJS src filename"
proof -
  have a: "generatorOptions (opts\<lparr> verifyLevel := level \<rparr>) = generatorOptions opts"
    by (simp add: generatorOptions_def)
  have b: "stopOnFirstError (opts\<lparr> verifyLevel := level \<rparr>) = stopOnFirstError opts"
    by simp
  show ?thesis unfolding compile_def a b by (rule refl)
qed

lemma tokenize_divideSource_errors: "map_sum id snd (tokenize divideSource None) = Inr []"
  by code_simp

lemma tokenize_divideSource: "\<exists>toks. tokenize divideSource None = Inr (toks, [])"
  using tokenize_divideSource_errors by (cases "tokenize divideSource None") auto

text \<open>
  Claim C3.  The verification level \<open>trusted\<close> suppresses nothing.  Compiling
  \<^verbatim>\<open>fn divide(a: Int, b: Int) -> Int @requires b != 0 { return a / b }\<close> with the default
  options and the level set to \<open>trusted\<close> succeeds with the output of the level \<open>runtime\<close>,
  and that output holds the guard \<open>__intent.requires((b != 0), ...)\<close> in the function.  The level
  is not a field of the generator's options, and \<open>compile\<close> passes \<open>runtimeContracts\<close>
  (default \<open>true\<close>) unchanged.
\<close>

theorem trusted_level_emits_guards:
  \<open>\<exists>r. compile (DEFAULT_OPTIONS\<lparr> verifyLevel := ''trusted'' \<rparr>) (parseAs divideProgram)
          (analyze 0) runGenerator divideSource None = Inr r \<and>
        success r \<and>
        res_output r = Some (generate (generatorOptions DEFAULT_OPTIONS) divideProgram) \<and>
        generateLines (generatorOptions DEFAULT_OPTIONS) divideProgram =
          prelude @
          [''function divide(a, b) {'',
           ''  __intent.requires((b != 0), "b != 0", "1:1");'',
           ''  return (a / b);'',
           ''}'', []]\<close>
proof -
  obtain toks where t: "tokenize divideSource None = Inr (toks, [])"
    using tokenize_divideSource by blast
  have g: \<open>generateLines (generatorOptions DEFAULT_OPTIONS) divideProgram =
          prelude @
          [''function divide(a, b) {'',
           ''  __intent.requires((b != 0), "b != 0", "1:1");'',
           ''  return (a / b);'',
           ''}'', []]\<close>
    by code_simp
  have s: "\<not> stopOnFirstError DEFAULT_OPTIONS"
    by (simp add: DEFAULT_OPTIONS_def)
  have "errorMessages (analyze 0 divideProgram) = Inr []"
    by code_simp
  then obtain a where a: "analyze 0 divideProgram = Inr a" "ar_errors a = []"
    by (cases "analyze 0 divideProgram") (auto simp: errorMessages_def)
  show ?thesis
    using t g s a
    by (simp add: compile_def parseAs_def runGenerator_def generateJavaScript_def
        generatorOptions_def Let_def)
qed

text \<open>
  An exception of the scanner, the parser or the analyzer leaves \<open>compile\<close>; the parser is not
  called after an error of the scanner, nor the analyzer after an error of the scanner or the
  parser, when \<open>stopOnFirstError\<close> is set.
\<close>

lemma compile_throws_iff:
  "compile opts parse analyzeFn generateJS src filename = Inl e \<longleftrightarrow>
     tokenize src filename = Inl e \<or>
     (\<exists>toks lexerErrors.
        tokenize src filename = Inr (toks, lexerErrors) \<and>
        \<not> (stopOnFirstError opts \<and> lexerErrors \<noteq> []) \<and>
        (parse toks = Inl e \<or>
         (\<exists>ast parseErrors.
            parse toks = Inr (ast, parseErrors) \<and>
            \<not> (stopOnFirstError opts \<and> (lexerErrors \<noteq> [] \<or> parseErrors \<noteq> [])) \<and>
            analyzeFn ast = Inl e)))"
  by (auto simp add: compile_def Let_def split: sum.splits prod.splits)



section \<open>The checker: effects, the sentinel type, and pure functions\<close>

lemma sa_errors_sa_error:
  "sa_errors (sa_error loc msg st) =
     sa_errors st @ [\<lparr> se_message = msg, se_location = loc, se_severity = ''error'' \<rparr>]"
  by (simp add: sa_error_def)

lemma checkEffects_steps:
  "sa_errors (seq (map (\<lambda>effect st'.
                          if \<not> hasActiveEffect active effect
                          then sa_error loc (effectMessage effect) st' else st') effects) st) =
     sa_errors st @
     map (\<lambda>effect. \<lparr> se_message = effectMessage effect, se_location = loc, se_severity = ''error'' \<rparr>)
       (filter (\<lambda>effect. \<not> hasActiveEffect active effect) effects)"
  by (induction effects arbitrary: st) (simp_all add: seq_def sa_errors_sa_error)

text \<open>
  The effect check of a call: one error for every effect of the callee whose name is not in the
  active effect set of the symbol table, in the order of the callee's effects, and nothing else.
\<close>

lemma checkEffects_errors:
  "sa_errors (checkEffects effects loc st) =
     sa_errors st @
     map (\<lambda>effect. \<lparr> se_message = effectMessage effect, se_location = loc, se_severity = ''error'' \<rparr>)
       (filter (\<lambda>effect. \<not> hasActiveEffect (activeEffects (sa_symbolTable st)) effect) effects)"
proof (cases "length effects > 0")
  case True
  then show ?thesis
    unfolding checkEffects_def Let_def getActiveEffects_def
    by (simp only: if_True checkEffects_steps)
next
  case False
  then show ?thesis by (simp add: checkEffects_def)
qed

text \<open>
  A caller without \<^verbatim>\<open>@effect[IO]\<close> that calls a function declared with \<^verbatim>\<open>@effect[IO]\<close> gets the
  error that names \<open>IO\<close>; with \<^verbatim>\<open>@effect[IO]\<close> on the caller there is no error.
\<close>

lemma caller_without_effect:
  "errorMessages (analyze 0 (callerProgram [])) =
     Inr [''Function requires effect IO which is not declared in current context'']"
  by code_simp

lemma caller_with_effect: "errorMessages (analyze 0 (callerProgram [ioAnnotation])) = Inr []"
  by code_simp

text \<open>
  Claim C5.  The active effect set is that of the enclosing declaration only when the call
  stands in a function analyzed by \<open>analyzeFunctionDeclaration\<close>.  The loop over the methods of
  an \<open>impl\<close> does not set the effects of the method: for the method
  \<^verbatim>\<open>fn write() -> Void @effect[IO] { log() }\<close>, which declares \<open>IO\<close>, the call of \<open>log\<close> is
  reported as requiring an effect that is not declared.
\<close>

theorem impl_method_effects_not_active:
  "declaredEffects (fd_annotations writeMethod) = [''IO''] \<and>
   errorMessages (analyze 0 methodProgram) =
     Inr [''Function requires effect IO which is not declared in current context'']"
proof -
  have a: "declaredEffects (fd_annotations writeMethod) = [''IO'']"
    by code_simp
  have b: "errorMessages (analyze 0 methodProgram) =
     Inr [''Function requires effect IO which is not declared in current context'']"
    by code_simp
  from a b show ?thesis by (intro conjI)
qed

















lemma unknown_operand_cascades:
  "errorMessages (analyze 0 undefinedOperandProgram) =
     Inr [''Undefined identifier: y'',
      ''Arithmetic operators require numeric types, got unknown and Int'']"
  by code_simp

section \<open>The checker: the purity flag is never read\<close>





lemma forgetPure_fields [simp]:
  "sa_errors (forgetPure st) = sa_errors st"
  "sa_warnings (forgetPure st) = sa_warnings st"
  "sa_symbolTable (forgetPure st) = sa_symbolTable st"
  "sa_typeMap (forgetPure st) = sa_typeMap st"
  "sa_currentModule (forgetPure st) = sa_currentModule st"
  "sa_inContractContext (forgetPure st) = sa_inContractContext st"
  "typeVarCounter (forgetPure st) = typeVarCounter st"
  "sa_notAType (forgetPure st) = sa_notAType st"
  "sa_currentFunction (forgetPure st) = map_option unpure (sa_currentFunction st)"
  by (simp_all add: forgetPure_def)

lemma fd_returnType_unpure [simp]: "fd_returnType (unpure d) = fd_returnType d"
  by (cases d) (simp add: unpure_def fd_returnType_def)

lemma forgetPure_sa_error [simp]: "sa_error loc msg (forgetPure st) = forgetPure (sa_error loc msg st)"
  by (simp add: sa_error_def forgetPure_def)

lemma forgetPure_sa_warning [simp]: "sa_warning loc msg (forgetPure st) = forgetPure (sa_warning loc msg st)"
  by (simp add: sa_warning_def forgetPure_def)

lemma forgetPure_onSymbolTable [simp]: "onSymbolTable f (forgetPure st) = forgetPure (onSymbolTable f st)"
  by (simp add: onSymbolTable_def forgetPure_def)

lemma forgetPure_notAType [simp]: "notAType (forgetPure st) = forgetPure (notAType st)"
  by (simp add: notAType_def forgetPure_def)

lemma forgetPure_setContractContext [simp]:
  "setContractContext b (forgetPure st) = forgetPure (setContractContext b st)"
  by (simp add: setContractContext_def forgetPure_def)

lemma forgetPure_typeMap [simp]:
  "(forgetPure st)\<lparr> sa_typeMap := m \<rparr> = forgetPure (st\<lparr> sa_typeMap := m \<rparr>)"
  by (simp add: forgetPure_def)

lemma forgetPure_typeVarCounter [simp]:
  "(forgetPure st)\<lparr> typeVarCounter := m \<rparr> = forgetPure (st\<lparr> typeVarCounter := m \<rparr>)"
  by (simp add: forgetPure_def)

lemma setCurrentFunction_forgetPure [simp]:
  "setCurrentFunction f (forgetPure st) = setCurrentFunction f st"
  by (simp add: setCurrentFunction_def forgetPure_def)

lemma forgetPure_setCurrentFunction_None [simp]:
  "forgetPure (setCurrentFunction None st) = setCurrentFunction None st"
  by (simp add: setCurrentFunction_def forgetPure_def)




















lemma ignoresPureT_checkCondition: "ignoresPureT (checkCondition what loc t)"
  by (simp add: ignoresPureT_def checkCondition_def)

lemma forgetPure_checkCondition [simp]:
  "checkCondition what loc t (forgetPure st) = forgetPure (checkCondition what loc t st)"
  by (simp add: checkCondition_def)

























lemma forgetPure_checkMutable [simp]:
  "checkMutable lhs loc (forgetPure st) = forgetPure (checkMutable lhs loc st)"
  by (simp add: checkMutable_def split: Expression.splits option.splits)










































end
